(* ===== verification/Prelude.thy ===== *)
theory Prelude
  imports Complex_Main "HOL-Library.Word"
begin

text \<open>
  Shared vocabulary of the development: the named collections the component
  theories feed, the C++ standard-library operations the source calls on
  \<open>std::vector\<close> and \<open>std::map\<close>, the reading of an unsigned 32-bit value
  stored in an \<open>int\<close>, and the list, map and word lemmas that the component
  proofs use.
\<close>

named_theorems float_simps "evaluation rules of the IEEE float model"
named_theorems op_defs "unfoldings of the AnimatedGameObject operations"

subsection \<open>Standard-library containers\<close>

text \<open>
  \<open>std::vector<T>::resize(n)\<close> keeps the first \<open>n\<close> elements and pads with
  value-initialised elements (\<open>0\<close> for \<open>int\<close>).
\<close>

definition vector_resize :: "nat \<Rightarrow> 'a \<Rightarrow> 'a list \<Rightarrow> 'a list" where
  "vector_resize n d xs = take n xs @ replicate (n - length xs) d"

text \<open>
  \<open>std::map<K, V>::operator[]\<close> returns the stored value, and inserts a
  value-initialised one (\<open>0\<close> for unsigned indices) when the key is absent:
  a lookup that may change the map.
\<close>

definition map_subscript :: "('k \<rightharpoonup> 'v::zero) \<Rightarrow> 'k \<Rightarrow> 'v \<times> ('k \<rightharpoonup> 'v)" where
  "map_subscript m k = (case m k of Some v \<Rightarrow> (v, m) | None \<Rightarrow> (0, m(k \<mapsto> 0)))"

text \<open>\<open>std::vector::operator[]\<close> out of range is undefined behaviour; the model reads
  it through this checked accessor, whose failure the callers turn into an error.\<close>

definition vector_at :: "'a list \<Rightarrow> nat \<Rightarrow> 'a option" where
  "vector_at xs i = (if i < length xs then Some (xs ! i) else None)"

text \<open>The same subscript with an \<open>int\<close> argument: the \<open>int\<close> converts to
  \<open>size_t\<close>, and a negative value becomes at least \<open>2^63\<close>, past the end of
  any vector.\<close>

definition vector_at_int :: "'a list \<Rightarrow> int \<Rightarrow> 'a option" where
  "vector_at_int xs i = (if 0 \<le> i then vector_at xs (nat i) else None)"

subsection \<open>Lemmas on the containers\<close>

lemma length_vector_resize [simp]: "length (vector_resize n d xs) = n"
  by (simp add: vector_resize_def)

lemma nth_vector_resize:
  "i < n \<Longrightarrow> vector_resize n d xs ! i = (if i < length xs then xs ! i else d)"
  by (auto simp: vector_resize_def nth_append)

lemma map_subscript_present [simp]: "m k = Some v \<Longrightarrow> map_subscript m k = (v, m)"
  by (simp add: map_subscript_def)

lemma map_subscript_absent [simp]: "m k = None \<Longrightarrow> map_subscript m k = (0, m(k \<mapsto> 0))"
  by (simp add: map_subscript_def)

lemma vector_at_Some_iff [simp]: "vector_at xs i = Some x \<longleftrightarrow> i < length xs \<and> xs ! i = x"
  by (auto simp: vector_at_def)

lemma vector_at_None_iff [simp]: "vector_at xs i = None \<longleftrightarrow> length xs \<le> i"
  by (simp add: vector_at_def)

subsection \<open>Unsigned indices read as \<open>int\<close>\<close>

text \<open>\<open>int x = u\<close> for an \<open>unsigned int u\<close> keeps the bits (C++20; two's
  complement on every target before): the value is \<open>sint u\<close>, negative from
  \<open>2^31\<close> on.\<close>

lemma sint32_uint: "sint (b::32 word) = (if uint b < 2^31 then uint b else uint b - 2^32)"
proof -
  have r: "- (2^31) \<le> sint b" "sint b < 2^31"
    using sint_range_size [of b] by (simp_all add: word_size)
  have u: "uint b = sint b mod 2^32"
    by (simp add: uint_sint take_bit_eq_mod)
  show ?thesis
  proof (cases "0 \<le> sint b")
    case True
    with r u show ?thesis by simp
  next
    case False
    have "(sint b + 2^32) mod 2^32 = sint b + 2^32"
      using r False by (intro mod_pos_pos_trivial) simp_all
    then have "sint b mod 2^32 = sint b + 2^32" by simp
    with r u False show ?thesis by simp
  qed
qed

lemma sint32_unat: "sint (b::32 word) = (if unat b < 2^31 then int (unat b) else int (unat b) - 2^32)"
proof -
  have e: "uint b = int (unat b)" by simp
  show ?thesis unfolding sint32_uint e by (simp del: of_nat_unat)
qed

lemma vector_at_int_sint32 [simp]:
  "vector_at_int xs (sint (b::32 word)) = (if unat b < 2^31 then vector_at xs (unat b) else None)"
proof (cases "unat b < 2^31")
  case True
  then show ?thesis by (simp add: vector_at_int_def sint32_unat)
next
  case False
  have "unat b < 2^32" using unsigned_less [of b] by simp
  moreover have "sint b = int (unat b) - 2^32"
    using False by (simp add: sint32_unat del: of_nat_unat)
  ultimately have "sint b < 0" by (simp del: of_nat_unat)
  with False show ?thesis by (simp add: vector_at_int_def)
qed

subsection \<open>Results\<close>

text \<open>A result passed on unchanged on error and mapped on success.\<close>

lemma map_sum_id_Inr_iff [simp]: "map_sum id f r = Inr y \<longleftrightarrow> (\<exists>x. r = Inr x \<and> y = f x)"
  by (cases r) auto

lemma map_sum_id_Inl_iff [simp]: "map_sum id f r = Inl e \<longleftrightarrow> r = Inl e"
  by (cases r) auto

end
