(* ===== verification/Float_Model.thy ===== *)
theory Float_Model
  imports Prelude
begin

text \<open>
  C++ \<open>float\<close> arithmetic as the source uses it (\<open>+\<close>, \<open>*\<close>, \<open>/\<close>, \<open>>\<close>).
  The special values of IEEE 754 are kept: a division by zero gives an infinity
  or NaN, an infinity absorbs finite summands, NaN propagates, and every
  comparison with NaN is false. Finite values are reals computed exactly: the
  model does not round and does not overflow, and it has one zero (no \<open>-0\<close>).
  The arithmetic operators are the class operations of HOL, so the model reads
  like the source; no algebraic law is claimed for them.
\<close>

datatype float = Fin real | PInf | NInf | NaN

fun is_finite :: "float \<Rightarrow> bool" where
  "is_finite (Fin _) = True"
| "is_finite _ = False"

instantiation float :: "{zero, one, plus, times, inverse, ord}"
begin

definition zero_float :: float where
  "zero_float = Fin 0"

definition one_float :: float where
  "one_float = Fin 1"

fun plus_float :: "float \<Rightarrow> float \<Rightarrow> float" where
  "plus_float (Fin x) (Fin y) = Fin (x + y)"
| "plus_float NaN _ = NaN"
| "plus_float _ NaN = NaN"
| "plus_float PInf NInf = NaN"
| "plus_float NInf PInf = NaN"
| "plus_float PInf _ = PInf"
| "plus_float _ PInf = PInf"
| "plus_float NInf _ = NInf"
| "plus_float _ NInf = NInf"

fun times_float :: "float \<Rightarrow> float \<Rightarrow> float" where
  "times_float (Fin x) (Fin y) = Fin (x * y)"
| "times_float NaN _ = NaN"
| "times_float _ NaN = NaN"
| "times_float (Fin x) PInf = (if x = 0 then NaN else if 0 < x then PInf else NInf)"
| "times_float (Fin x) NInf = (if x = 0 then NaN else if 0 < x then NInf else PInf)"
| "times_float PInf (Fin y) = (if y = 0 then NaN else if 0 < y then PInf else NInf)"
| "times_float NInf (Fin y) = (if y = 0 then NaN else if 0 < y then NInf else PInf)"
| "times_float PInf PInf = PInf"
| "times_float NInf NInf = PInf"
| "times_float PInf NInf = NInf"
| "times_float NInf PInf = NInf"

fun divide_float :: "float \<Rightarrow> float \<Rightarrow> float" where
  "divide_float (Fin x) (Fin y) =
     (if y \<noteq> 0 then Fin (x / y)
      else if x = 0 then NaN else if 0 < x then PInf else NInf)"
| "divide_float NaN _ = NaN"
| "divide_float _ NaN = NaN"
| "divide_float (Fin x) _ = Fin 0"
| "divide_float PInf (Fin y) = (if 0 \<le> y then PInf else NInf)"
| "divide_float NInf (Fin y) = (if 0 \<le> y then NInf else PInf)"
| "divide_float _ _ = NaN"

definition inverse_float :: "float \<Rightarrow> float" where
  "inverse_float x = divide (Fin 1) x"

fun less_float :: "float \<Rightarrow> float \<Rightarrow> bool" where
  "less_float (Fin x) (Fin y) = (x < y)"
| "less_float NInf (Fin _) = True"
| "less_float (Fin _) PInf = True"
| "less_float NInf PInf = True"
| "less_float _ _ = False"

fun less_eq_float :: "float \<Rightarrow> float \<Rightarrow> bool" where
  "less_eq_float (Fin x) (Fin y) = (x \<le> y)"
| "less_eq_float NInf NInf = True"
| "less_eq_float PInf PInf = True"
| "less_eq_float NInf (Fin _) = True"
| "less_eq_float (Fin _) PInf = True"
| "less_eq_float NInf PInf = True"
| "less_eq_float _ _ = False"

instance ..

end

lemmas float_arith [float_simps] =
  zero_float_def one_float_def plus_float.simps times_float.simps divide_float.simps
  less_float.simps less_eq_float.simps

text \<open>Facts the playback proofs use about comparisons and finiteness.\<close>

lemma NaN_not_less [simp]: "\<not> NaN < y" "\<not> x < NaN"
  by (cases x; simp)+

lemma PInf_not_less [simp]: "\<not> PInf < y"
  by (cases y) simp_all

lemma not_less_NInf [simp]: "\<not> x < NInf"
  by (cases x) simp_all

lemma zero_float_Fin [simp]: "(0::float) = Fin 0"
  by (simp add: zero_float_def)

lemma one_float_Fin [simp]: "(1::float) = Fin 1"
  by (simp add: one_float_def)

lemma is_finite_iff: "is_finite x \<longleftrightarrow> (\<exists>r. x = Fin r)"
  by (cases x) simp_all

lemma is_finite_plus [intro]: "is_finite x \<Longrightarrow> is_finite y \<Longrightarrow> is_finite (x + y)"
  by (auto simp: is_finite_iff)

lemma is_finite_times [intro]: "is_finite x \<Longrightarrow> is_finite y \<Longrightarrow> is_finite (x * y)"
  by (auto simp: is_finite_iff)

lemma not_less_self [simp]: "\<not> (x::float) < x"
  by (cases x) simp_all

end
