(* ===== verification/Assets.thy ===== *)
theory Assets
  imports Float_Model
begin

text \<open>
  The collaborators \<open>AnimatedGameObject.cpp\<close> calls but does not define: glm's
  \<open>vec3\<close>, the engine's \<open>Transform\<close>, the asset types \<open>Animation\<close>,
  \<open>SkinnedModel\<close> and \<open>MeshEntry\<close>, and \<open>AssetManager\<close>. They are
  modelled from the spec (section 6) with exactly the fields the source reads.
  Matrix algebra and skeleton sampling are left abstract in an \<open>engine\<close>
  record: a client theorem that needs a law of them takes it as a hypothesis.
\<close>

subsection \<open>Vectors and transforms\<close>

record vec3 =
  vec_x :: float
  vec_y :: float
  vec_z :: float

text \<open>\<open>glm::vec3(s)\<close>: all three components \<open>s\<close>.\<close>

definition vec3_splat :: "float \<Rightarrow> vec3" where
  "vec3_splat v = \<lparr>vec_x = v, vec_y = v, vec_z = v\<rparr>"

record transform =
  position :: vec3
  rotation :: vec3
  scale :: vec3

text \<open>A default-constructed \<open>Transform\<close>: at the origin, unrotated, unit scale.\<close>

definition default_transform :: transform where
  "default_transform =
     \<lparr>position = vec3_splat 0, rotation = vec3_splat 0, scale = vec3_splat 1\<rparr>"

subsection \<open>Assets\<close>

text \<open>
  An \<open>Animation\<close> is referred to by pointer; \<open>anim_id\<close> is its address, so
  two clips are the same object exactly when the records are equal.
  \<open>m_duration\<close> counts ticks, \<open>m_ticksPerSecond\<close> gives the rate.
\<close>

record animation =
  anim_id :: nat
  anim_filename :: string
  anim_duration :: float
  anim_ticks_per_second :: float

record mesh_entry =
  mesh_name :: string

text \<open>\<open>m_BoneMapping\<close> is a \<open>std::map<std::string, unsigned int>\<close>: bone
  indices are 32-bit unsigned values.\<close>

record skinned_model =
  model_filename :: string
  animations :: "animation list"
  mesh_entries :: "mesh_entry list"
  bone_mapping :: "string \<rightharpoonup> 32 word"

text \<open>
  A \<open>SkinnedModel*\<close> is an index into the asset manager's model table; the
  models are owned by the table and outlive every object that points at them.
\<close>

type_synonym model_ptr = nat

record asset_manager =
  skinned_models :: "skinned_model list"
  material_index_of :: "string \<Rightarrow> int"

fun find_model_from :: "skinned_model list \<Rightarrow> string \<Rightarrow> nat \<Rightarrow> model_ptr option" where
  "find_model_from [] name i = None"
| "find_model_from (m # ms) name i =
     (if model_filename m = name then Some i else find_model_from ms name (Suc i))"

text \<open>\<open>AssetManager::GetSkinnedModel(name)\<close>: the first model with that file name,
  or \<open>nullptr\<close>.\<close>

definition get_skinned_model :: "asset_manager \<Rightarrow> string \<Rightarrow> model_ptr option" where
  "get_skinned_model am name = find_model_from (skinned_models am) name 0"

text \<open>\<open>AssetManager::GetMaterialIndex(name)\<close>: the material table's answer,
  whatever it returns for an unknown name.\<close>

definition get_material_index :: "asset_manager \<Rightarrow> string \<Rightarrow> int" where
  "get_material_index am name = material_index_of am name"

text \<open>Dereferencing a model pointer: \<open>None\<close> is a dangling pointer.\<close>

definition deref_model :: "asset_manager \<Rightarrow> model_ptr \<Rightarrow> skinned_model option" where
  "deref_model am p = vector_at (skinned_models am) p"

subsection \<open>The engine interface\<close>

text \<open>
  \<open>to_mat4\<close> is \<open>Transform::to_mat4\<close>, \<open>mat_mul\<close> glm's matrix product,
  \<open>mat_translation m\<close> the column \<open>m[3][0..2]\<close>, and
  \<open>update_bone_transforms model time clip camera\<close> the world-space pose that
  \<open>SkinnedModel::UpdateBoneTransformsFromAnimation\<close> writes: a deterministic
  function of its arguments with no effect on the assets (spec 4.2).
\<close>

record 'm engine =
  to_mat4 :: "transform \<Rightarrow> 'm"
  mat_mul :: "'m \<Rightarrow> 'm \<Rightarrow> 'm"
  mat_translation :: "'m \<Rightarrow> vec3"
  update_bone_transforms :: "skinned_model \<Rightarrow> float \<Rightarrow> animation \<Rightarrow> 'm \<Rightarrow> 'm list"

subsection \<open>Lemmas\<close>

lemma find_model_from_bound:
  "find_model_from ms name i = Some p \<Longrightarrow> i \<le> p \<and> p < i + length ms"
  by (induction ms arbitrary: i) (fastforce split: if_splits)+

lemma find_model_from_found:
  "find_model_from ms name i = Some p \<Longrightarrow> model_filename (ms ! (p - i)) = name"
proof (induction ms arbitrary: i)
  case Nil
  then show ?case by simp
next
  case (Cons m ms)
  show ?case
  proof (cases "model_filename m = name")
    case True
    with Cons.prems show ?thesis by simp
  next
    case False
    with Cons.prems have "find_model_from ms name (Suc i) = Some p" by simp
    moreover from this have "Suc i \<le> p" by (blast dest: find_model_from_bound)
    ultimately show ?thesis using Cons.IH by (simp add: nth_Cons')
  qed
qed

lemma get_skinned_model_valid:
  "get_skinned_model am name = Some p \<Longrightarrow>
     p < length (skinned_models am) \<and> model_filename (skinned_models am ! p) = name"
  using find_model_from_bound [of _ name 0] find_model_from_found [of _ name 0]
  by (fastforce simp: get_skinned_model_def)

lemma deref_model_Some_iff [simp]:
  "deref_model am p = Some m \<longleftrightarrow> p < length (skinned_models am) \<and> skinned_models am ! p = m"
  by (simp add: deref_model_def)

lemma deref_model_None_iff [simp]:
  "deref_model am p = None \<longleftrightarrow> length (skinned_models am) \<le> p"
  by (simp add: deref_model_def)

end
