(* ===== verification/Game_Object.thy ===== *)
theory Game_Object
  imports Assets
begin

text \<open>
  The state of one \<open>AnimatedGameObject\<close>: the members the source reads and
  writes (their declarations are in \<open>AnimatedGameObject.h\<close>), the errors the
  source can run into, and the pointer dereference all operations share.
  The record is polymorphic in the matrix type \<open>'m\<close> (\<open>glm::mat4\<close>).
\<close>

record 'm animated_game_object =
  obj_name :: string
  skinned_model :: "model_ptr option"
  material_indices :: "int list"
  obj_transform :: transform
  current_animation :: "animation option"
  current_animation_time :: float
  current_animation_time_previous :: float
  animation_speed :: float
  animation_paused :: bool
  loop_animation :: bool
  animation_is_complete :: bool
  motion_blur :: bool
  animated_transforms :: "'m list"
  animated_transforms_previous :: "'m list"
  camera_matrix :: 'm

text \<open>
  What the source does not guard against. Each is undefined behaviour in C++
  (a crash in practice); the model makes each one a result value.
\<close>

datatype error =
    NullSkinnedModel       \<comment> \<open>\<open>_skinnedModel->\<close> with \<open>_skinnedModel == nullptr\<close>\<close>
  | NullAnimation          \<comment> \<open>\<open>_currentAnimation->\<close> with no clip selected\<close>
  | DanglingModel          \<comment> \<open>a model pointer outside the asset table\<close>
  | VectorIndexOutOfRange  \<comment> \<open>\<open>std::vector::operator[]\<close> past the end\<close>

type_synonym 'a result = "error + 'a"

text \<open>\<open>_skinnedModel->\<dots>\<close>: the model the object points at.\<close>

definition object_model :: "asset_manager \<Rightarrow> 'm animated_game_object \<Rightarrow> skinned_model result" where
  "object_model am s =
     (case skinned_model s of
        None \<Rightarrow> Inl NullSkinnedModel
      | Some p \<Rightarrow> (case deref_model am p of None \<Rightarrow> Inl DanglingModel | Some m \<Rightarrow> Inr m))"

text \<open>A freshly constructed object: no model, no clip, no material slots.\<close>

definition fresh_object :: "'m animated_game_object \<Rightarrow> bool" where
  "fresh_object s \<longleftrightarrow>
     skinned_model s = None \<and> current_animation s = None \<and> material_indices s = [] \<and>
     \<not> animation_is_complete s"

text \<open>Concrete assets and an object, used by the witnesses of the component
  theories: a model \<open>Glock\<close> with a two-second clip \<open>walk\<close> (2 ticks at
  1 tick/s) and a one-second clip \<open>fire\<close> (30 ticks at 30 ticks/s).\<close>

definition demo_walk :: animation where
  "demo_walk = \<lparr>anim_id = 1, anim_filename = ''walk'', anim_duration = Fin 2,
                anim_ticks_per_second = Fin 1\<rparr>"

definition demo_fire :: animation where
  "demo_fire = \<lparr>anim_id = 2, anim_filename = ''fire'', anim_duration = Fin 30,
                anim_ticks_per_second = Fin 30\<rparr>"

definition demo_model :: skinned_model where
  "demo_model = \<lparr>model_filename = ''Glock'', animations = [demo_walk, demo_fire],
     mesh_entries = [\<lparr>mesh_name = ''body''\<rparr>, \<lparr>mesh_name = ''slide''\<rparr>, \<lparr>mesh_name = ''body''\<rparr>],
     bone_mapping = [''Barrel'' \<mapsto> 1]\<rparr>"

definition demo_assets :: asset_manager where
  "demo_assets = \<lparr>skinned_models = [demo_model],
     material_index_of = (\<lambda>n. if n = ''Gold'' then 7 else -1)\<rparr>"

definition demo_object :: "float animated_game_object" where
  "demo_object = \<lparr>obj_name = ''Glock'', skinned_model = Some 0, material_indices = [0, 0, 0],
     obj_transform = default_transform, current_animation = None,
     current_animation_time = 0, current_animation_time_previous = 0, animation_speed = 1,
     animation_paused = False, loop_animation = False, animation_is_complete = False,
     motion_blur = False, animated_transforms = [], animated_transforms_previous = [],
     camera_matrix = 0\<rparr>"

lemmas demo_defs = demo_walk_def demo_fire_def demo_model_def demo_assets_def demo_object_def

lemma object_model_Inr_iff:
  "object_model am s = Inr m \<longleftrightarrow>
     (\<exists>p. skinned_model s = Some p \<and> p < length (skinned_models am) \<and> skinned_models am ! p = m)"
  by (auto simp: object_model_def deref_model_def vector_at_def split: option.splits)

lemma object_model_None [simp]: "skinned_model s = None \<Longrightarrow> object_model am s = Inl NullSkinnedModel"
  by (simp add: object_model_def)

lemma object_model_valid [simp]:
  "skinned_model s = Some p \<Longrightarrow> p < length (skinned_models am) \<Longrightarrow>
     object_model am s = Inr (skinned_models am ! p)"
  by (simp add: object_model_def deref_model_def vector_at_def)

end
