(* ===== verification/Playback.thy ===== *)
theory Playback
  imports Game_Object
begin

text \<open>
  The animation playback state machine of \<open>AnimatedGameObject.cpp\<close>:
  selecting a clip by name (\<open>PlayAndLoopAnimation\<close>, \<open>PlayAnimation\<close>),
  pausing (\<open>PauseAnimation\<close>, \<open>ToggleAnimationPause\<close>), the motion-blur
  switch, advancing the clock (\<open>UpdateAnimation\<close>) and the two queries on
  it (\<open>IsAnimationComplete\<close>, \<open>AnimationIsPastPercentage\<close>). The lemmas give
  each operation's result on every branch, the flags' behaviour at the end of
  a clip, and that the clip search loop stops at the first clip with the
  requested name.
\<close>

subsection \<open>Operations\<close>

text \<open>The search loop of both play operations:
  \<open>for (int i = 0; i < m_animations.size(); i++) if (m_animations[i]->_filename == name) \<dots>\<close>\<close>

function find_animation_from :: "animation list \<Rightarrow> string \<Rightarrow> nat \<Rightarrow> nat option" where
  "find_animation_from anims name i =
     (if i < length anims then
        (if anim_filename (anims ! i) = name then Some i
         else find_animation_from anims name (Suc i))
      else None)"
  by pat_completeness auto
termination
  by (relation "measure (\<lambda>(anims, name, i). length anims - i)") auto

declare find_animation_from.simps [simp del]

definition toggle_animation_pause :: "'m animated_game_object \<Rightarrow> 'm animated_game_object" where
  "toggle_animation_pause s = s\<lparr>animation_paused := \<not> animation_paused s\<rparr>"

text \<open>The line \<open>std::cout << animationName << " not found!\n"\<close>.\<close>

definition not_found_message :: "string \<Rightarrow> string" where
  "not_found_message name = name @ '' not found!''"

definition play_and_loop_animation ::
  "asset_manager \<Rightarrow> string \<Rightarrow> float \<Rightarrow> 'm animated_game_object \<Rightarrow>
     ('m animated_game_object \<times> string list) result" where
  "play_and_loop_animation am name speed s =
     (case skinned_model s of
        None \<Rightarrow> Inr (s, [])
      | Some p \<Rightarrow>
          (case deref_model am p of
             None \<Rightarrow> Inl DanglingModel
           | Some m \<Rightarrow>
               (case find_animation_from (animations m) name 0 of
                  None \<Rightarrow> Inr (s, [not_found_message name])
                | Some i \<Rightarrow>
                    let anim = animations m ! i;
                        s1 = (if current_animation s \<noteq> Some anim
                              then s\<lparr>current_animation_time := 0, animation_paused := False\<rparr>
                              else s)
                    in Inr (s1\<lparr>current_animation := Some anim, loop_animation := True,
                               animation_is_complete := False, animation_speed := speed\<rparr>, []))))"

definition pause_animation :: "'m animated_game_object \<Rightarrow> 'm animated_game_object" where
  "pause_animation s = s\<lparr>animation_paused := True\<rparr>"

definition enable_motion_blur :: "'m animated_game_object \<Rightarrow> 'm animated_game_object" where
  "enable_motion_blur s = s\<lparr>motion_blur := True\<rparr>"

definition disable_motion_blur :: "'m animated_game_object \<Rightarrow> 'm animated_game_object" where
  "disable_motion_blur s = s\<lparr>motion_blur := False\<rparr>"

text \<open>\<open>PlayAnimation\<close> has no null check on \<open>_skinnedModel\<close>, unlike
  \<open>PlayAndLoopAnimation\<close>: the model pointer is dereferenced unconditionally.\<close>

definition play_animation ::
  "asset_manager \<Rightarrow> string \<Rightarrow> float \<Rightarrow> 'm animated_game_object \<Rightarrow>
     ('m animated_game_object \<times> string list) result" where
  "play_animation am name speed s =
     (case object_model am s of
        Inl e \<Rightarrow> Inl e
      | Inr m \<Rightarrow>
          (case find_animation_from (animations m) name 0 of
             None \<Rightarrow> Inr (s, [not_found_message name])
           | Some i \<Rightarrow>
               Inr (s\<lparr>current_animation_time := 0, current_animation := Some (animations m ! i),
                      loop_animation := False, animation_speed := speed,
                      animation_paused := False, animation_is_complete := False\<rparr>, [])))"

text \<open>\<open>UpdateAnimation\<close> in three pieces: the clip length in seconds, the clock
  advance when not paused, and the end-of-clip check.\<close>

definition clip_duration :: "animation \<Rightarrow> float" where
  "clip_duration anim = anim_duration anim / anim_ticks_per_second anim"

definition advance_animation_time ::
  "float \<Rightarrow> 'm animated_game_object \<Rightarrow> 'm animated_game_object" where
  "advance_animation_time dt s =
     (if \<not> animation_paused s
      then s\<lparr>current_animation_time_previous := current_animation_time s,
             current_animation_time := current_animation_time s + dt * animation_speed s\<rparr>
      else s)"

definition end_of_clip :: "float \<Rightarrow> 'm animated_game_object \<Rightarrow> 'm animated_game_object" where
  "end_of_clip duration s =
     (if current_animation_time s > duration
      then (let s1 = s\<lparr>current_animation_time := 0\<rparr>
            in if \<not> loop_animation s1
               then s1\<lparr>animation_paused := True, animation_is_complete := True\<rparr>
               else s1)
      else s)"

definition update_animation ::
  "float \<Rightarrow> 'm animated_game_object \<Rightarrow> 'm animated_game_object result" where
  "update_animation dt s =
     (case current_animation s of
        None \<Rightarrow> Inl NullAnimation
      | Some anim \<Rightarrow> Inr (end_of_clip (clip_duration anim) (advance_animation_time dt s)))"

definition is_animation_complete :: "'m animated_game_object \<Rightarrow> bool" where
  "is_animation_complete s = animation_is_complete s"

definition animation_is_past_percentage :: "float \<Rightarrow> 'm animated_game_object \<Rightarrow> bool result" where
  "animation_is_past_percentage percent s =
     (case current_animation s of
        None \<Rightarrow> Inl NullAnimation
      | Some anim \<Rightarrow>
          Inr (current_animation_time s * anim_ticks_per_second anim
                 > anim_duration anim * (percent / Fin 100)))"

text \<open>The abstract contract of the search: the first clip of the model with that
  file name (spec 4.1, "exact name match").\<close>

definition lookup_clip :: "skinned_model \<Rightarrow> string \<Rightarrow> animation option" where
  "lookup_clip m name = find (\<lambda>a. anim_filename a = name) (animations m)"

lemmas playback_defs [op_defs] =
  toggle_animation_pause_def play_and_loop_animation_def pause_animation_def
  enable_motion_blur_def disable_motion_blur_def play_animation_def
  update_animation_def is_animation_complete_def animation_is_past_percentage_def

subsection \<open>The clip search\<close>

lemma find_animation_from_drop:
  "map_option (nth anims) (find_animation_from anims name i) =
     find (\<lambda>a. anim_filename a = name) (drop i anims)"
proof (induction anims name i rule: find_animation_from.induct)
  case (1 anims name i)
  show ?case
  proof (cases "i < length anims")
    case True
    then have "drop i anims = anims ! i # drop (Suc i) anims"
      by (simp add: Cons_nth_drop_Suc)
    with True "1" show ?thesis
      by (simp add: find_animation_from.simps [of anims name i])
  next
    case False
    then show ?thesis by (simp add: find_animation_from.simps [of anims name i])
  qed
qed

lemma find_animation_from_Some_iff:
  "find_animation_from anims name k = Some i \<longleftrightarrow>
     k \<le> i \<and> i < length anims \<and> anim_filename (anims ! i) = name \<and>
     (\<forall>j. k \<le> j \<and> j < i \<longrightarrow> anim_filename (anims ! j) \<noteq> name)"
proof (induction anims name k rule: find_animation_from.induct)
  case (1 anims name k)
  show ?case
  proof (cases "k < length anims \<and> anim_filename (anims ! k) \<noteq> name")
    case True
    have step: "(\<forall>j. k \<le> j \<and> j < i \<longrightarrow> anim_filename (anims ! j) \<noteq> name) \<longleftrightarrow>
          (\<forall>j. Suc k \<le> j \<and> j < i \<longrightarrow> anim_filename (anims ! j) \<noteq> name)"
    proof (intro iffI allI impI)
      fix j
      assume "\<forall>j. Suc k \<le> j \<and> j < i \<longrightarrow> anim_filename (anims ! j) \<noteq> name"
        and "k \<le> j \<and> j < i"
      with True show "anim_filename (anims ! j) \<noteq> name"
        by (cases "j = k") auto
    qed auto
    have "k \<le> i \<and> anim_filename (anims ! i) = name \<longleftrightarrow> Suc k \<le> i \<and> anim_filename (anims ! i) = name"
      using True by (auto simp: Suc_le_eq le_less)
    with step True "1" show ?thesis
      by (simp add: find_animation_from.simps [of anims name k]) blast
  next
    case False
    then show ?thesis
      by (auto simp: find_animation_from.simps [of anims name k] le_less)
  qed
qed

lemma find_animation_from_lookup_clip:
  "find_animation_from (animations m) name 0 = None \<longleftrightarrow> lookup_clip m name = None"
  "find_animation_from (animations m) name 0 = Some i \<Longrightarrow>
     lookup_clip m name = Some (animations m ! i)"
  using find_animation_from_drop [of "animations m" name 0]
  by (auto simp: lookup_clip_def)

subsection \<open>Advancing the clock\<close>

text \<open>What each piece of the tick reads and writes, field by field.\<close>

lemma advance_animation_time_sel [simp]:
  "current_animation_time (advance_animation_time dt s) =
     (if animation_paused s then current_animation_time s
      else current_animation_time s + dt * animation_speed s)"
  "current_animation_time_previous (advance_animation_time dt s) =
     (if animation_paused s then current_animation_time_previous s else current_animation_time s)"
  "current_animation (advance_animation_time dt s) = current_animation s"
  "animation_paused (advance_animation_time dt s) = animation_paused s"
  "loop_animation (advance_animation_time dt s) = loop_animation s"
  "animation_is_complete (advance_animation_time dt s) = animation_is_complete s"
  "animation_speed (advance_animation_time dt s) = animation_speed s"
  "motion_blur (advance_animation_time dt s) = motion_blur s"
  "skinned_model (advance_animation_time dt s) = skinned_model s"
  "material_indices (advance_animation_time dt s) = material_indices s"
  "obj_name (advance_animation_time dt s) = obj_name s"
  "obj_transform (advance_animation_time dt s) = obj_transform s"
  by (simp_all add: advance_animation_time_def)

lemma end_of_clip_sel [simp]:
  "current_animation_time (end_of_clip d s) =
     (if current_animation_time s > d then 0 else current_animation_time s)"
  "animation_paused (end_of_clip d s) =
     (animation_paused s \<or> current_animation_time s > d \<and> \<not> loop_animation s)"
  "animation_is_complete (end_of_clip d s) =
     (animation_is_complete s \<or> current_animation_time s > d \<and> \<not> loop_animation s)"
  "current_animation_time_previous (end_of_clip d s) = current_animation_time_previous s"
  "current_animation (end_of_clip d s) = current_animation s"
  "loop_animation (end_of_clip d s) = loop_animation s"
  "animation_speed (end_of_clip d s) = animation_speed s"
  "motion_blur (end_of_clip d s) = motion_blur s"
  "skinned_model (end_of_clip d s) = skinned_model s"
  "material_indices (end_of_clip d s) = material_indices s"
  "obj_name (end_of_clip d s) = obj_name s"
  "obj_transform (end_of_clip d s) = obj_transform s"
  by (simp_all add: end_of_clip_def Let_def)

lemma end_of_clip_within [simp]:
  "\<not> current_animation_time s > d \<Longrightarrow> end_of_clip d s = s"
  by (simp add: end_of_clip_def)

lemma advance_animation_time_paused [simp]:
  "animation_paused s \<Longrightarrow> advance_animation_time dt s = s"
  by (simp add: advance_animation_time_def)

lemma update_animation_Some:
  "current_animation s = Some a \<Longrightarrow>
     update_animation dt s = Inr (end_of_clip (clip_duration a) (advance_animation_time dt s))"
  by (simp add: update_animation_def)

lemma update_animation_Inr_iff:
  "update_animation dt s = Inr s' \<longleftrightarrow>
     (\<exists>a. current_animation s = Some a \<and>
          s' = end_of_clip (clip_duration a) (advance_animation_time dt s))"
  by (auto simp: update_animation_def split: option.splits)

text \<open>C1. \<open>UpdateAnimation\<close> returns whenever a clip is selected, and its result
  is: the clock advanced by \<open>deltaTime * speed\<close> unless paused (the old time
  saved as the previous time), then reset to 0 if it passed the clip's length,
  a non-looping clip becoming paused and complete there; nothing else changes.\<close>

theorem update_animation_result:
  assumes "current_animation s = Some a"
  shows "\<exists>s'. update_animation dt s = Inr s' \<and>
    (let t = (if animation_paused s then current_animation_time s
              else current_animation_time s + dt * animation_speed s);
         over = t > clip_duration a
     in current_animation_time s' = (if over then 0 else t) \<and>
        current_animation_time_previous s' =
          (if animation_paused s then current_animation_time_previous s
           else current_animation_time s) \<and>
        animation_paused s' = (animation_paused s \<or> over \<and> \<not> loop_animation s) \<and>
        animation_is_complete s' = (animation_is_complete s \<or> over \<and> \<not> loop_animation s) \<and>
        current_animation s' = current_animation s \<and> loop_animation s' = loop_animation s \<and>
        animation_speed s' = animation_speed s \<and> motion_blur s' = motion_blur s)"
  using assms by (simp add: update_animation_Some Let_def)

theorem update_animation_result_witness:
  "current_animation (demo_object\<lparr>current_animation := Some demo_walk\<rparr>) = Some demo_walk \<and>
   (\<exists>s'. update_animation (Fin 3) (demo_object\<lparr>current_animation := Some demo_walk\<rparr>) = Inr s' \<and>
        current_animation_time s' = 0 \<and> animation_paused s' \<and> animation_is_complete s')"
proof -
  have h: "current_animation (demo_object\<lparr>current_animation := Some demo_walk\<rparr>) = Some demo_walk"
    by simp
  from update_animation_result [OF h, of "Fin 3"] show ?thesis
    by (auto simp: demo_defs clip_duration_def Let_def)
qed

text \<open>C2. A looping clip never becomes complete and is never paused by the clock:
  \<open>UpdateAnimation\<close> leaves both flags as they were (spec 8, first property).\<close>

theorem update_animation_looping:
  "update_animation dt s = Inr s' \<Longrightarrow> loop_animation s \<Longrightarrow>
     animation_is_complete s' = animation_is_complete s \<and> animation_paused s' = animation_paused s"
  by (auto simp: update_animation_Inr_iff)

theorem update_animation_looping_witness:
  "update_animation (Fin 3) (demo_object\<lparr>current_animation := Some demo_walk, loop_animation := True\<rparr>) =
     Inr (demo_object\<lparr>current_animation := Some demo_walk, loop_animation := True\<rparr>) \<and>
   loop_animation (demo_object\<lparr>current_animation := Some demo_walk, loop_animation := True\<rparr>) \<and>
   \<not> animation_is_complete (demo_object\<lparr>current_animation := Some demo_walk, loop_animation := True\<rparr>)"
proof -
  have u: "update_animation (Fin 3) (demo_object\<lparr>current_animation := Some demo_walk, loop_animation := True\<rparr>) =
     Inr (demo_object\<lparr>current_animation := Some demo_walk, loop_animation := True\<rparr>)"
    by (simp add: update_animation_Some advance_animation_time_def end_of_clip_def Let_def
        demo_defs clip_duration_def)
  have l: "loop_animation (demo_object\<lparr>current_animation := Some demo_walk, loop_animation := True\<rparr>)"
    by simp
  from update_animation_looping [OF u l] u l show ?thesis
    by (simp add: demo_object_def)
qed

text \<open>C3. When a running non-looping clip's clock passes its length,
  \<open>UpdateAnimation\<close> resets the clock to 0 and sets both \<open>paused\<close> and
  \<open>complete\<close>; the previous time keeps the pre-tick time, so for one frame
  the previous time is ahead of the current one (spec 9, open question).\<close>

theorem update_animation_completes:
  "update_animation dt s = Inr s' \<Longrightarrow> current_animation s = Some a \<Longrightarrow>
   \<not> loop_animation s \<Longrightarrow> \<not> animation_paused s \<Longrightarrow>
   current_animation_time s + dt * animation_speed s > clip_duration a \<Longrightarrow>
     current_animation_time s' = 0 \<and> animation_paused s' \<and> animation_is_complete s' \<and>
     current_animation_time_previous s' = current_animation_time s"
  by (auto simp: update_animation_Inr_iff)

theorem update_animation_completes_witness:
  "current_animation_time (demo_object\<lparr>current_animation := Some demo_walk,
       current_animation_time := Fin 1\<rparr>) + Fin 1.5 * Fin 1 > clip_duration demo_walk \<and>
   (\<exists>s'. update_animation (Fin 1.5) (demo_object\<lparr>current_animation := Some demo_walk,
       current_animation_time := Fin 1\<rparr>) = Inr s' \<and>
     current_animation_time s' = 0 \<and> animation_paused s' \<and> animation_is_complete s' \<and>
     current_animation_time_previous s' = Fin 1)"
proof -
  let ?s = "demo_object\<lparr>current_animation := Some demo_walk, current_animation_time := Fin 1\<rparr>"
  have c: "current_animation ?s = Some demo_walk" by simp
  have l: "\<not> loop_animation ?s" and p: "\<not> animation_paused ?s"
    by (simp_all add: demo_object_def)
  have sp: "animation_speed ?s = Fin 1" by (simp add: demo_object_def)
  have o: "current_animation_time ?s + Fin 1.5 * animation_speed ?s > clip_duration demo_walk"
    by (simp add: demo_object_def demo_walk_def clip_duration_def)
  obtain s' where u: "update_animation (Fin 1.5) ?s = Inr s'"
    using c by (simp add: update_animation_Some)
  from update_animation_completes [OF u c l p o] u o sp show ?thesis
    by auto
qed

text \<open>C4. A paused clip whose clock is inside the clip is left exactly as it is
  by \<open>UpdateAnimation\<close>: neither the time nor the previous time moves
  (spec 8, fifth property).\<close>

theorem update_animation_paused:
  "current_animation s = Some a \<Longrightarrow> animation_paused s \<Longrightarrow>
   \<not> current_animation_time s > clip_duration a \<Longrightarrow> update_animation dt s = Inr s"
  by (simp add: update_animation_Some)

theorem update_animation_paused_witness:
  "current_animation (demo_object\<lparr>current_animation := Some demo_walk, animation_paused := True\<rparr>)
     = Some demo_walk \<and>
   animation_paused (demo_object\<lparr>current_animation := Some demo_walk, animation_paused := True\<rparr>) \<and>
   \<not> current_animation_time (demo_object\<lparr>current_animation := Some demo_walk,
        animation_paused := True\<rparr>) > clip_duration demo_walk \<and>
   update_animation (Fin 5) (demo_object\<lparr>current_animation := Some demo_walk, animation_paused := True\<rparr>)
     = Inr (demo_object\<lparr>current_animation := Some demo_walk, animation_paused := True\<rparr>)"
proof -
  let ?s = "demo_object\<lparr>current_animation := Some demo_walk, animation_paused := True\<rparr>"
  have c: "current_animation ?s = Some demo_walk" and p: "animation_paused ?s" by simp_all
  have t: "\<not> current_animation_time ?s > clip_duration demo_walk"
    by (simp add: demo_object_def demo_walk_def clip_duration_def)
  from c p t update_animation_paused [OF c p t] show ?thesis by blast
qed

subsection \<open>Selecting a clip\<close>

lemma play_animation_lookup:
  assumes o: "object_model am s = Inr m"
  shows "play_animation am name speed s =
     (case lookup_clip m name of
        None \<Rightarrow> Inr (s, [not_found_message name])
      | Some a \<Rightarrow> Inr (s\<lparr>current_animation_time := 0, current_animation := Some a,
                         loop_animation := False, animation_speed := speed,
                         animation_paused := False, animation_is_complete := False\<rparr>, []))"
proof (cases "find_animation_from (animations m) name 0")
  case None
  then have "lookup_clip m name = None" by (simp add: find_animation_from_lookup_clip(1))
  with None o show ?thesis by (simp add: play_animation_def)
next
  case (Some i)
  then have "lookup_clip m name = Some (animations m ! i)" by (rule find_animation_from_lookup_clip(2))
  with Some o show ?thesis by (simp add: play_animation_def)
qed

lemma play_and_loop_animation_lookup:
  assumes o: "object_model am s = Inr m"
  shows "play_and_loop_animation am name speed s =
     (case lookup_clip m name of
        None \<Rightarrow> Inr (s, [not_found_message name])
      | Some a \<Rightarrow>
          let s1 = (if current_animation s \<noteq> Some a
                    then s\<lparr>current_animation_time := 0, animation_paused := False\<rparr> else s)
          in Inr (s1\<lparr>current_animation := Some a, loop_animation := True,
                     animation_is_complete := False, animation_speed := speed\<rparr>, []))"
proof -
  from o obtain p where p: "skinned_model s = Some p" "deref_model am p = Some m"
    by (auto simp: object_model_def split: option.splits sum.splits)
  show ?thesis
  proof (cases "find_animation_from (animations m) name 0")
    case None
    then have "lookup_clip m name = None" by (simp add: find_animation_from_lookup_clip(1))
    with None p show ?thesis by (simp add: play_and_loop_animation_def del: deref_model_Some_iff)
  next
    case (Some i)
    then have "lookup_clip m name = Some (animations m ! i)" by (rule find_animation_from_lookup_clip(2))
    with Some p show ?thesis by (simp add: play_and_loop_animation_def del: deref_model_Some_iff)
  qed
qed

lemma demo_object_model: "object_model demo_assets demo_object = Inr demo_model"
  by (simp add: demo_assets_def demo_object_def)

lemma demo_lookup_clip:
  "lookup_clip demo_model ''walk'' = Some demo_walk"
  "lookup_clip demo_model ''fire'' = Some demo_fire"
  "lookup_clip demo_model ''reload'' = None"
  by (simp_all add: lookup_clip_def demo_model_def demo_walk_def demo_fire_def)

text \<open>C5. \<open>PlayAnimation\<close> of a clip the model has always restarts it: time 0,
  unpaused, not looping, not complete, the given speed, even when that clip
  is already the current one (spec 8, third property).\<close>

theorem play_animation_restarts:
  "object_model am s = Inr m \<Longrightarrow> lookup_clip m name = Some a \<Longrightarrow>
   play_animation am name speed s =
     Inr (s\<lparr>current_animation_time := 0, current_animation := Some a, loop_animation := False,
            animation_speed := speed, animation_paused := False, animation_is_complete := False\<rparr>, [])"
  by (simp add: play_animation_lookup)

theorem play_animation_restarts_witness:
  "object_model demo_assets (demo_object\<lparr>current_animation := Some demo_walk,
       current_animation_time := Fin 1.5, animation_paused := True\<rparr>) = Inr demo_model \<and>
   lookup_clip demo_model ''walk'' = Some demo_walk \<and>
   play_animation demo_assets ''walk'' (Fin 2) (demo_object\<lparr>current_animation := Some demo_walk,
       current_animation_time := Fin 1.5, animation_paused := True\<rparr>) =
     Inr (demo_object\<lparr>current_animation := Some demo_walk, animation_speed := Fin 2\<rparr>, [])"
proof -
  let ?s = "demo_object\<lparr>current_animation := Some demo_walk, current_animation_time := Fin 1.5,
              animation_paused := True\<rparr>"
  have o: "object_model demo_assets ?s = Inr demo_model"
    by (simp add: demo_assets_def demo_object_def)
  from o demo_lookup_clip(1) play_animation_restarts [OF o demo_lookup_clip(1), of "Fin 2"]
  show ?thesis by (simp add: demo_object_def)
qed

text \<open>C6. \<open>PlayAndLoopAnimation\<close> of the clip already current keeps its time and
  its paused flag and only sets looping, clears complete and takes the new
  speed: a speed change without a restart (spec 8, fourth property).\<close>

theorem play_and_loop_same_clip:
  "object_model am s = Inr m \<Longrightarrow> lookup_clip m name = Some a \<Longrightarrow> current_animation s = Some a \<Longrightarrow>
   play_and_loop_animation am name speed s =
     Inr (s\<lparr>loop_animation := True, animation_is_complete := False, animation_speed := speed\<rparr>, [])"
proof -
  assume o: "object_model am s = Inr m" and l: "lookup_clip m name = Some a"
    and c: "current_animation s = Some a"
  have "s\<lparr>current_animation := Some a\<rparr> = s" using c by simp
  then show ?thesis using o l c by (simp add: play_and_loop_animation_lookup)
qed

theorem play_and_loop_same_clip_witness:
  "object_model demo_assets (demo_object\<lparr>current_animation := Some demo_walk,
       current_animation_time := Fin 1.5\<rparr>) = Inr demo_model \<and>
   lookup_clip demo_model ''walk'' = Some demo_walk \<and>
   current_animation (demo_object\<lparr>current_animation := Some demo_walk,
       current_animation_time := Fin 1.5\<rparr>) = Some demo_walk \<and>
   play_and_loop_animation demo_assets ''walk'' (Fin 2) (demo_object\<lparr>current_animation := Some demo_walk,
       current_animation_time := Fin 1.5\<rparr>) =
     Inr (demo_object\<lparr>current_animation := Some demo_walk, current_animation_time := Fin 1.5,
            loop_animation := True, animation_speed := Fin 2\<rparr>, [])"
proof -
  let ?s = "demo_object\<lparr>current_animation := Some demo_walk, current_animation_time := Fin 1.5\<rparr>"
  have o: "object_model demo_assets ?s = Inr demo_model"
    by (simp add: demo_assets_def demo_object_def)
  have c: "current_animation ?s = Some demo_walk" by simp
  from o c demo_lookup_clip(1) play_and_loop_same_clip [OF o demo_lookup_clip(1) c, of "Fin 2"]
  show ?thesis by (simp add: demo_object_def)
qed

text \<open>C7. \<open>PlayAndLoopAnimation\<close> of a clip other than the current one restarts
  it at time 0, unpaused, looping, not complete, at the given speed.\<close>

theorem play_and_loop_new_clip:
  "object_model am s = Inr m \<Longrightarrow> lookup_clip m name = Some a \<Longrightarrow> current_animation s \<noteq> Some a \<Longrightarrow>
   play_and_loop_animation am name speed s =
     Inr (s\<lparr>current_animation_time := 0, animation_paused := False, current_animation := Some a,
            loop_animation := True, animation_is_complete := False, animation_speed := speed\<rparr>, [])"
  by (simp add: play_and_loop_animation_lookup)

theorem play_and_loop_new_clip_witness:
  "object_model demo_assets (demo_object\<lparr>current_animation := Some demo_walk,
       current_animation_time := Fin 1.5, animation_paused := True\<rparr>) = Inr demo_model \<and>
   lookup_clip demo_model ''fire'' = Some demo_fire \<and>
   current_animation (demo_object\<lparr>current_animation := Some demo_walk,
       current_animation_time := Fin 1.5, animation_paused := True\<rparr>) \<noteq> Some demo_fire \<and>
   play_and_loop_animation demo_assets ''fire'' (Fin 1) (demo_object\<lparr>current_animation := Some demo_walk,
       current_animation_time := Fin 1.5, animation_paused := True\<rparr>) =
     Inr (demo_object\<lparr>current_animation := Some demo_fire, loop_animation := True\<rparr>, [])"
proof -
  let ?s = "demo_object\<lparr>current_animation := Some demo_walk, current_animation_time := Fin 1.5,
              animation_paused := True\<rparr>"
  have o: "object_model demo_assets ?s = Inr demo_model"
    by (simp add: demo_assets_def demo_object_def)
  have c: "current_animation ?s \<noteq> Some demo_fire" by (simp add: demo_walk_def demo_fire_def)
  from o c demo_lookup_clip(2) play_and_loop_new_clip [OF o demo_lookup_clip(2) c, of "Fin 1"]
  show ?thesis by (simp add: demo_object_def)
qed

text \<open>C8. A clip name the model does not have leaves the object unchanged for both
  play operations; each prints \<open><name> not found!\<close> (spec 7).\<close>

theorem play_not_found:
  "object_model am s = Inr m \<Longrightarrow> lookup_clip m name = None \<Longrightarrow>
   play_animation am name speed s = Inr (s, [not_found_message name]) \<and>
   play_and_loop_animation am name speed' s = Inr (s, [not_found_message name])"
  by (simp add: play_animation_lookup play_and_loop_animation_lookup)

theorem play_not_found_witness:
  "object_model demo_assets demo_object = Inr demo_model \<and>
   lookup_clip demo_model ''reload'' = None \<and>
   play_animation demo_assets ''reload'' (Fin 1) demo_object =
     Inr (demo_object, [''reload not found!'']) \<and>
   play_and_loop_animation demo_assets ''reload'' (Fin 2) demo_object =
     Inr (demo_object, [''reload not found!''])"
  using demo_object_model demo_lookup_clip(3)
    play_not_found [OF demo_object_model demo_lookup_clip(3), of "Fin 1" "Fin 2"]
  by (simp add: not_found_message_def)

text \<open>C9. Without a skinned model \<open>PlayAndLoopAnimation\<close> returns silently with
  the object unchanged, but \<open>PlayAnimation\<close>, which has no such check,
  dereferences the null model pointer.\<close>

theorem play_without_model:
  "skinned_model s = None \<Longrightarrow>
   play_and_loop_animation am name speed s = Inr (s, []) \<and>
   play_animation am name speed s = Inl NullSkinnedModel"
  by (simp add: play_and_loop_animation_def play_animation_def)

theorem play_without_model_witness:
  "skinned_model (demo_object\<lparr>skinned_model := None\<rparr>) = None \<and>
   play_and_loop_animation demo_assets ''walk'' (Fin 1) (demo_object\<lparr>skinned_model := None\<rparr>) =
     Inr (demo_object\<lparr>skinned_model := None\<rparr>, []) \<and>
   play_animation demo_assets ''walk'' (Fin 1) (demo_object\<lparr>skinned_model := None\<rparr>) =
     Inl NullSkinnedModel"
proof -
  have h: "skinned_model (demo_object\<lparr>skinned_model := None\<rparr>) = None" by simp
  from h play_without_model [OF h, of demo_assets "''walk''" "Fin 1"] show ?thesis by blast
qed

text \<open>C10. The search loop of the play operations finds the first clip whose file
  name is the requested one: it returns \<open>i\<close> exactly when clip \<open>i\<close> has
  that name and no earlier clip has.\<close>

theorem find_animation_first_match:
  "find_animation_from anims name 0 = Some i \<longleftrightarrow>
     i < length anims \<and> anim_filename (anims ! i) = name \<and>
     (\<forall>j<i. anim_filename (anims ! j) \<noteq> name)"
  by (simp add: find_animation_from_Some_iff)

theorem find_animation_first_match_witness:
  "find_animation_from [demo_fire, demo_fire, demo_walk] ''walk'' 0 = Some 2 \<and>
   anim_filename ([demo_fire, demo_fire, demo_walk] ! 2) = ''walk'' \<and>
   anim_filename ([demo_fire, demo_fire, demo_walk] ! 0) \<noteq> ''walk'' \<and>
   anim_filename ([demo_fire, demo_fire, demo_walk] ! 1) \<noteq> ''walk''"
proof -
  have h: "(2::nat) < length [demo_fire, demo_fire, demo_walk] \<and>
     anim_filename ([demo_fire, demo_fire, demo_walk] ! 2) = ''walk'' \<and>
     (\<forall>j<2. anim_filename ([demo_fire, demo_fire, demo_walk] ! j) \<noteq> ''walk'')"
    by (auto simp: demo_walk_def demo_fire_def less_Suc_eq numeral_2_eq_2)
  with find_animation_first_match [of "[demo_fire, demo_fire, demo_walk]" "''walk''" 2]
  show ?thesis by (simp add: demo_fire_def)
qed

text \<open>C11. \<open>AnimationIsPastPercentage(p)\<close> with a selected clip of finite length
  and a positive finite rate answers whether the clock is past \<open>p\<close> percent of
  the clip's length in seconds; with no clip selected it dereferences a null
  clip pointer.\<close>

theorem animation_is_past_percentage_seconds:
  "current_animation s = Some a \<Longrightarrow> anim_ticks_per_second a = Fin r \<Longrightarrow> 0 < r \<Longrightarrow>
   anim_duration a = Fin d \<Longrightarrow> current_animation_time s = Fin t \<Longrightarrow>
   animation_is_past_percentage (Fin p) s = Inr (t > d / r * (p / 100)) \<and>
   animation_is_past_percentage (Fin p) (s\<lparr>current_animation := None\<rparr>) = Inl NullAnimation"
  by (simp add: animation_is_past_percentage_def field_simps)

theorem animation_is_past_percentage_seconds_witness:
  "current_animation (demo_object\<lparr>current_animation := Some demo_fire,
       current_animation_time := Fin 0.75\<rparr>) = Some demo_fire \<and>
   anim_ticks_per_second demo_fire = Fin 30 \<and> (0::real) < 30 \<and> anim_duration demo_fire = Fin 30 \<and>
   current_animation_time (demo_object\<lparr>current_animation := Some demo_fire,
       current_animation_time := Fin 0.75\<rparr>) = Fin 0.75 \<and>
   animation_is_past_percentage (Fin 50) (demo_object\<lparr>current_animation := Some demo_fire,
       current_animation_time := Fin 0.75\<rparr>) = Inr True"
proof -
  let ?s = "demo_object\<lparr>current_animation := Some demo_fire, current_animation_time := Fin 0.75\<rparr>"
  have h: "current_animation ?s = Some demo_fire" "anim_ticks_per_second demo_fire = Fin 30"
    "(0::real) < 30" "anim_duration demo_fire = Fin 30" "current_animation_time ?s = Fin 0.75"
    by (simp_all add: demo_fire_def)
  from h animation_is_past_percentage_seconds [OF h, of 50] show ?thesis by simp
qed

end
