(* ===== verification/Pose.thy ===== *)
theory Pose
  imports Playback
begin

text \<open>
  The pose evaluator: \<open>CalculateBoneTransforms\<close> samples the model's skeleton
  twice through the engine's \<open>update_bone_transforms\<close> (a current pose into
  \<open>_animatedTransforms\<close> and a previous pose into
  \<open>_animatedTransformsPrevious\<close>), and \<open>Update\<close> composes the playback
  clock with it. The lemmas give the sampled times on both motion-blur
  settings and the composition of the frame update.
\<close>

subsection \<open>Operations\<close>

text \<open>The time the current pose is sampled at: the current time with motion blur,
  the previous time without it.\<close>

definition current_pose_time :: "'m animated_game_object \<Rightarrow> float" where
  "current_pose_time s =
     (if motion_blur s then current_animation_time s else current_animation_time_previous s)"

definition calculate_bone_transforms ::
  "'m engine \<Rightarrow> asset_manager \<Rightarrow> 'm animated_game_object \<Rightarrow> 'm animated_game_object result" where
  "calculate_bone_transforms eng am s =
     (case object_model am s of
        Inl e \<Rightarrow> Inl e
      | Inr m \<Rightarrow>
          (case current_animation s of
             None \<Rightarrow> Inl NullAnimation
           | Some anim \<Rightarrow>
               let s1 = s\<lparr>animated_transforms :=
                          update_bone_transforms eng m (current_pose_time s) anim (camera_matrix s)\<rparr>
               in Inr (s1\<lparr>animated_transforms_previous :=
                          update_bone_transforms eng m (current_animation_time_previous s1) anim
                            (camera_matrix s1)\<rparr>)))"

text \<open>\<open>Update(deltaTime)\<close>: nothing without a clip; otherwise the clock, then the poses.\<close>

definition update ::
  "'m engine \<Rightarrow> asset_manager \<Rightarrow> float \<Rightarrow> 'm animated_game_object \<Rightarrow> 'm animated_game_object result" where
  "update eng am dt s =
     (if current_animation s \<noteq> None
      then (case update_animation dt s of
              Inl e \<Rightarrow> Inl e
            | Inr s1 \<Rightarrow> calculate_bone_transforms eng am s1)
      else Inr s)"

lemmas pose_defs [op_defs] = calculate_bone_transforms_def update_def

text \<open>A concrete engine for the witnesses: a pose is the one-element list of the
  time it was sampled at, so two poses are equal exactly when they were
  sampled at the same time.\<close>

definition demo_engine :: "float engine" where
  "demo_engine = \<lparr>to_mat4 = (\<lambda>t. vec_y (rotation t)), mat_mul = (+),
     mat_translation = vec3_splat, update_bone_transforms = (\<lambda>m t a cam. [t])\<rparr>"

subsection \<open>Lemmas\<close>

lemma calculate_bone_transforms_Some:
  "object_model am s = Inr m \<Longrightarrow> current_animation s = Some a \<Longrightarrow>
   calculate_bone_transforms eng am s =
     Inr (s\<lparr>animated_transforms := update_bone_transforms eng m (current_pose_time s) a (camera_matrix s),
            animated_transforms_previous :=
              update_bone_transforms eng m (current_animation_time_previous s) a (camera_matrix s)\<rparr>)"
  by (simp add: calculate_bone_transforms_def)

text \<open>What a frame leaves for later queries: the model and the transform as
  they were, and the current pose sampled at the new pose time.\<close>

lemma update_Some_fields:
  assumes u: "update eng am dt s = Inr s'" and c: "current_animation s = Some a"
    and o: "object_model am s = Inr m"
  shows "object_model am s' = Inr m \<and> obj_transform s' = obj_transform s \<and>
    obj_name s' = obj_name s \<and>
    animated_transforms s' = update_bone_transforms eng m (current_pose_time s') a (camera_matrix s)"
proof -
  let ?s1 = "end_of_clip (clip_duration a) (advance_animation_time dt s)"
  have o1: "object_model am ?s1 = Inr m" and c1: "current_animation ?s1 = Some a"
    using o c by (simp_all add: object_model_def end_of_clip_def advance_animation_time_def Let_def)
  from u c have "calculate_bone_transforms eng am ?s1 = Inr s'"
    by (simp add: update_def update_animation_Some)
  with calculate_bone_transforms_Some [OF o1 c1, of eng] o1 show ?thesis
    by (auto simp: current_pose_time_def end_of_clip_def advance_animation_time_def Let_def
        object_model_def)
qed

lemma calculate_bone_transforms_Inr_iff:
  "calculate_bone_transforms eng am s = Inr s' \<longleftrightarrow>
     (\<exists>m a. object_model am s = Inr m \<and> current_animation s = Some a \<and>
        s' = s\<lparr>animated_transforms := update_bone_transforms eng m (current_pose_time s) a (camera_matrix s),
               animated_transforms_previous :=
                 update_bone_transforms eng m (current_animation_time_previous s) a (camera_matrix s)\<rparr>)"
  by (auto simp: calculate_bone_transforms_def split: sum.splits option.splits)

text \<open>C12. \<open>CalculateBoneTransforms\<close> samples the previous pose at the previous
  time and the current pose at the current time with motion blur, at the
  previous time without it; nothing but the two poses changes.\<close>

theorem calculate_bone_transforms_poses:
  "object_model am s = Inr m \<Longrightarrow> current_animation s = Some a \<Longrightarrow>
   calculate_bone_transforms eng am s =
     Inr (s\<lparr>animated_transforms :=
              update_bone_transforms eng m
                (if motion_blur s then current_animation_time s else current_animation_time_previous s)
                a (camera_matrix s),
            animated_transforms_previous :=
              update_bone_transforms eng m (current_animation_time_previous s) a (camera_matrix s)\<rparr>)"
  by (simp add: calculate_bone_transforms_Some current_pose_time_def)

theorem calculate_bone_transforms_poses_witness:
  "object_model demo_assets (demo_object\<lparr>current_animation := Some demo_walk, motion_blur := True,
      current_animation_time := Fin 1\<rparr>) = Inr demo_model \<and>
   current_animation (demo_object\<lparr>current_animation := Some demo_walk, motion_blur := True,
      current_animation_time := Fin 1\<rparr>) = Some demo_walk \<and>
   calculate_bone_transforms demo_engine demo_assets
     (demo_object\<lparr>current_animation := Some demo_walk, motion_blur := True,
        current_animation_time := Fin 1\<rparr>) =
   Inr (demo_object\<lparr>current_animation := Some demo_walk, motion_blur := True,
        current_animation_time := Fin 1,
        animated_transforms := [Fin 1], animated_transforms_previous := [Fin 0]\<rparr>)"
proof -
  let ?s = "demo_object\<lparr>current_animation := Some demo_walk, motion_blur := True,
              current_animation_time := Fin 1\<rparr>"
  have o: "object_model demo_assets ?s = Inr demo_model"
    by (simp add: demo_assets_def demo_object_def)
  have c: "current_animation ?s = Some demo_walk" by simp
  have o': "object_model demo_assets (demo_object\<lparr>current_animation := Some demo_walk, motion_blur := True,
      current_animation_time := Fin 1\<rparr>) = Inr demo_model"
    by (simp add: demo_assets_def demo_object_def)
  from o' calculate_bone_transforms_poses [OF o c, of demo_engine] show ?thesis
    by (simp add: demo_engine_def demo_object_def demo_walk_def)
qed

text \<open>With motion blur disabled both poses are the same sample: the current pose
  equals the previous one (spec 8, sixth property; a corollary of the claim above).\<close>

lemma calculate_bone_transforms_no_blur:
  "\<not> motion_blur s \<Longrightarrow> calculate_bone_transforms eng am s = Inr s' \<Longrightarrow>
     animated_transforms s' = animated_transforms_previous s'"
  by (auto simp: calculate_bone_transforms_Inr_iff current_pose_time_def)

text \<open>With a clip selected and a valid model, \<open>Update\<close> is the clock step of
  \<open>UpdateAnimation\<close> followed by sampling both poses at the new times.\<close>

lemma update_frame:
  "current_animation s = Some a \<Longrightarrow> object_model am s = Inr m \<Longrightarrow>
   update eng am dt s =
     (let s1 = end_of_clip (clip_duration a) (advance_animation_time dt s)
      in Inr (s1\<lparr>animated_transforms :=
                  update_bone_transforms eng m
                    (if motion_blur s then current_animation_time s1
                     else current_animation_time_previous s1) a (camera_matrix s),
                animated_transforms_previous :=
                  update_bone_transforms eng m (current_animation_time_previous s1) a
                    (camera_matrix s)\<rparr>))"
proof -
  assume c: "current_animation s = Some a" and o: "object_model am s = Inr m"
  let ?s1 = "end_of_clip (clip_duration a) (advance_animation_time dt s)"
  have "object_model am ?s1 = Inr m" and "current_animation ?s1 = Some a"
    and "motion_blur ?s1 = motion_blur s" and "camera_matrix ?s1 = camera_matrix s"
    using o c by (simp_all add: object_model_def end_of_clip_def advance_animation_time_def Let_def)
  with c show ?thesis
    by (simp add: update_def update_animation_Some calculate_bone_transforms_Some current_pose_time_def)
qed

end
