(* ===== verification/Placement.thy ===== *)
theory Placement
  imports Pose
begin

text \<open>
  Placement and queries: the setters of the object's \<open>Transform\<close> and name,
  \<open>GetModelMatrix\<close> with its per-model corrective rotation, and the three
  barrel-position queries, which read a bone of the current pose through the
  model's \<open>std::map\<close> bone table (inserting the bone name when it is missing)
  and through \<open>int boneIndex\<close> (an unsigned index from \<open>2^31\<close> on turns
  negative and reads out of range).
  The lemmas give the model matrix for flipped and unflipped models and the
  barrel position on each branch, the missing-bone and missing-pose ones
  included, and the exact bounds of the bone read.
\<close>

subsection \<open>Operations\<close>

text \<open>\<open>HELL_PI\<close>, the engine's constant for \<open>\<pi>\<close>.\<close>

definition hell_pi :: float where
  "hell_pi = Fin pi"

text \<open>The \<open>Transform correction\<close> of \<open>GetModelMatrix\<close>: a half turn about the
  vertical axis for the models authored backwards, the identity otherwise.\<close>

definition model_correction :: "string \<Rightarrow> transform" where
  "model_correction name =
     (if name = ''AKS74U'' \<or> name = ''Glock'' \<or> name = ''Shotgun''
      then default_transform\<lparr>rotation := (rotation default_transform)\<lparr>vec_y := hell_pi\<rparr>\<rparr>
      else default_transform)"

definition get_model_matrix ::
  "'m engine \<Rightarrow> asset_manager \<Rightarrow> 'm animated_game_object \<Rightarrow> 'm result" where
  "get_model_matrix eng am s =
     (case object_model am s of
        Inl e \<Rightarrow> Inl e
      | Inr m \<Rightarrow> Inr (mat_mul eng (to_mat4 eng (obj_transform s))
                        (to_mat4 eng (model_correction (model_filename m)))))"

text \<open>Writing a model back into the asset table (the model is shared: every
  object pointing at it sees the change).\<close>

definition store_model :: "asset_manager \<Rightarrow> model_ptr \<Rightarrow> skinned_model \<Rightarrow> asset_manager" where
  "store_model am p m = am\<lparr>skinned_models := (skinned_models am)[p := m]\<rparr>"

text \<open>The body the three barrel queries share: look the bone up with
  \<open>m_BoneMapping[bone]\<close>, store the unsigned index in \<open>int boneIndex\<close> (read
  as \<open>sint\<close>), read \<open>worldspace[boneIndex]\<close> from the current pose (the
  \<open>int\<close> converted to \<open>size_t\<close>), and take the translation of
  \<open>GetModelMatrix() * boneMatrix * offset.to_mat4()\<close>.\<close>

definition barrel_position ::
  "'m engine \<Rightarrow> asset_manager \<Rightarrow> 'm animated_game_object \<Rightarrow> string \<Rightarrow> vec3 \<Rightarrow>
     (vec3 \<times> asset_manager) result" where
  "barrel_position eng am s bone offset_pos =
     (case object_model am s of
        Inl e \<Rightarrow> Inl e
      | Inr m \<Rightarrow>
          (let (bone_index, mapping) = map_subscript (bone_mapping m) bone;
               am1 = store_model am (the (skinned_model s)) (m\<lparr>bone_mapping := mapping\<rparr>)
           in case vector_at_int (animated_transforms s) (sint bone_index) of
                None \<Rightarrow> Inl VectorIndexOutOfRange
              | Some bone_matrix \<Rightarrow>
                  (case get_model_matrix eng am1 s of
                     Inl e \<Rightarrow> Inl e
                   | Inr model_matrix \<Rightarrow>
                       let offset = default_transform\<lparr>position := offset_pos\<rparr>;
                           mat = mat_mul eng (mat_mul eng model_matrix bone_matrix) (to_mat4 eng offset)
                       in Inr (mat_translation eng mat, am1))))"

definition get_glock_barrel_position ::
  "'m engine \<Rightarrow> asset_manager \<Rightarrow> 'm animated_game_object \<Rightarrow> (vec3 \<times> asset_manager) result" where
  "get_glock_barrel_position eng am s =
     (if obj_name s = ''Glock''
      then barrel_position eng am s ''Barrel'' \<lparr>vec_x = Fin 0, vec_y = Fin (2 + 2), vec_z = Fin 11\<rparr>
      else Inr (vec3_splat 0, am))"

definition get_aks74u_barrel_position ::
  "'m engine \<Rightarrow> asset_manager \<Rightarrow> 'm animated_game_object \<Rightarrow> (vec3 \<times> asset_manager) result" where
  "get_aks74u_barrel_position eng am s =
     (if obj_name s = ''AKS74U''
      then barrel_position eng am s ''Weapon'' \<lparr>vec_x = Fin 0, vec_y = Fin (0 + 1), vec_z = Fin 36\<rparr>
      else Inr (vec3_splat 0, am))"

definition get_shotgun_barrel_position ::
  "'m engine \<Rightarrow> asset_manager \<Rightarrow> 'm animated_game_object \<Rightarrow> (vec3 \<times> asset_manager) result" where
  "get_shotgun_barrel_position eng am s =
     (if obj_name s = ''Shotgun''
      then barrel_position eng am s ''Weapon'' \<lparr>vec_x = Fin 0, vec_y = Fin (0 + 1), vec_z = Fin 58\<rparr>
      else Inr (vec3_splat 0, am))"

definition get_name :: "'m animated_game_object \<Rightarrow> string" where
  "get_name s = obj_name s"

definition set_name :: "string \<Rightarrow> 'm animated_game_object \<Rightarrow> 'm animated_game_object" where
  "set_name name s = s\<lparr>obj_name := name\<rparr>"

definition set_scale :: "float \<Rightarrow> 'm animated_game_object \<Rightarrow> 'm animated_game_object" where
  "set_scale sc s = s\<lparr>obj_transform := (obj_transform s)\<lparr>scale := vec3_splat sc\<rparr>\<rparr>"

definition set_position :: "vec3 \<Rightarrow> 'm animated_game_object \<Rightarrow> 'm animated_game_object" where
  "set_position pos s = s\<lparr>obj_transform := (obj_transform s)\<lparr>position := pos\<rparr>\<rparr>"

definition set_rotation_x :: "float \<Rightarrow> 'm animated_game_object \<Rightarrow> 'm animated_game_object" where
  "set_rotation_x r s =
     s\<lparr>obj_transform := (obj_transform s)\<lparr>rotation := (rotation (obj_transform s))\<lparr>vec_x := r\<rparr>\<rparr>\<rparr>"

definition set_rotation_y :: "float \<Rightarrow> 'm animated_game_object \<Rightarrow> 'm animated_game_object" where
  "set_rotation_y r s =
     s\<lparr>obj_transform := (obj_transform s)\<lparr>rotation := (rotation (obj_transform s))\<lparr>vec_y := r\<rparr>\<rparr>\<rparr>"

definition set_rotation_z :: "float \<Rightarrow> 'm animated_game_object \<Rightarrow> 'm animated_game_object" where
  "set_rotation_z r s =
     s\<lparr>obj_transform := (obj_transform s)\<lparr>rotation := (rotation (obj_transform s))\<lparr>vec_z := r\<rparr>\<rparr>\<rparr>"

lemmas placement_defs [op_defs] =
  get_model_matrix_def get_glock_barrel_position_def get_aks74u_barrel_position_def
  get_shotgun_barrel_position_def set_name_def set_scale_def set_position_def
  set_rotation_x_def set_rotation_y_def set_rotation_z_def

text \<open>The demo assets with the model renamed to one that is not flipped.\<close>

definition demo_zombie_assets :: asset_manager where
  "demo_zombie_assets = demo_assets\<lparr>skinned_models := [demo_model\<lparr>model_filename := ''Zombie''\<rparr>]\<rparr>"

text \<open>A rifle model whose \<open>Weapon\<close> bone is the first bone of the pose, and an
  object with that one-bone pose.\<close>

definition demo_weapon_assets :: "string \<Rightarrow> asset_manager" where
  "demo_weapon_assets name = demo_assets\<lparr>skinned_models :=
     [demo_model\<lparr>model_filename := name, bone_mapping := [''Weapon'' \<mapsto> 0]\<rparr>]\<rparr>"

definition demo_weapon :: "string \<Rightarrow> float animated_game_object" where
  "demo_weapon name = demo_object\<lparr>obj_name := name, animated_transforms := [Fin 5]\<rparr>"

subsection \<open>Lemmas\<close>

lemma store_model_same [simp]:
  "p < length (skinned_models am) \<Longrightarrow> store_model am p (skinned_models am ! p) = am"
  by (simp add: store_model_def)

lemma length_store_model [simp]:
  "length (skinned_models (store_model am p m)) = length (skinned_models am)"
  by (simp add: store_model_def)

text \<open>The model matrix reads only the model's file name, which writing back a
  bone table does not change.\<close>

lemma get_model_matrix_store_bones:
  assumes "object_model am s = Inr m" and "skinned_model s = Some p"
  shows "get_model_matrix eng (store_model am p (m\<lparr>bone_mapping := b\<rparr>)) s = get_model_matrix eng am s"
  using assms by (auto simp: get_model_matrix_def object_model_Inr_iff store_model_def)

text \<open>The barrel body once the model is found: the pose is read at the signed
  index, and the bone table the subscript returns is written back.\<close>

lemma barrel_position_read:
  assumes o: "object_model am s = Inr m" and p: "skinned_model s = Some p"
    and b: "map_subscript (bone_mapping m) bone = (i, b')"
    and mm: "get_model_matrix eng am s = Inr M"
  shows "barrel_position eng am s bone off =
     (case vector_at_int (animated_transforms s) (sint i) of
        None \<Rightarrow> Inl VectorIndexOutOfRange
      | Some bm \<Rightarrow> Inr (mat_translation eng (mat_mul eng (mat_mul eng M bm)
            (to_mat4 eng (default_transform\<lparr>position := off\<rparr>))),
          store_model am p (m\<lparr>bone_mapping := b'\<rparr>)))"
  using get_model_matrix_store_bones [OF o p, of eng b'] o p b mm
  by (simp add: barrel_position_def del: vector_at_int_sint32 split: option.split)

lemma barrel_position_bone:
  assumes o: "object_model am s = Inr m" and p: "skinned_model s = Some p"
    and b: "map_subscript (bone_mapping m) bone = (i, b')"
    and i: "unat i < 2^31" "unat i < length (animated_transforms s)"
    and mm: "get_model_matrix eng am s = Inr M"
  shows "barrel_position eng am s bone off =
     Inr (mat_translation eng (mat_mul eng (mat_mul eng M (animated_transforms s ! unat i))
            (to_mat4 eng (default_transform\<lparr>position := off\<rparr>))),
          store_model am p (m\<lparr>bone_mapping := b'\<rparr>))"
  using barrel_position_read [OF o p b mm, of off] i by (simp add: vector_at_def)

lemma object_model_Inr_ptr:
  "object_model am s = Inr m \<Longrightarrow> \<exists>p. skinned_model s = Some p \<and> p < length (skinned_models am) \<and>
     skinned_models am ! p = m"
  by (simp add: object_model_Inr_iff)

text \<open>A barrel query on a bone the model already maps reads that bone of the
  current pose and leaves the assets unchanged.\<close>

lemma barrel_position_mapped:
  assumes o: "object_model am s = Inr m" and b: "bone_mapping m bone = Some i"
    and i: "unat i < 2^31" "unat i < length (animated_transforms s)"
    and mm: "get_model_matrix eng am s = Inr M"
  shows "barrel_position eng am s bone off =
     Inr (mat_translation eng (mat_mul eng (mat_mul eng M (animated_transforms s ! unat i))
            (to_mat4 eng (default_transform\<lparr>position := off\<rparr>))), am)"
proof -
  from o obtain p where p: "skinned_model s = Some p" "p < length (skinned_models am)"
    "skinned_models am ! p = m" by (blast dest: object_model_Inr_ptr)
  from b have "map_subscript (bone_mapping m) bone = (i, bone_mapping m)" by simp
  moreover have "store_model am p m = am"
    using store_model_same [OF p(2)] p(3) by simp
  ultimately show ?thesis using barrel_position_bone [OF o p(1) _ i mm] by simp
qed

lemma object_model_rename [simp]: "object_model am (s\<lparr>obj_name := n\<rparr>) = object_model am s"
  by (simp add: object_model_def)

lemma get_model_matrix_rename [simp]:
  "get_model_matrix eng am (s\<lparr>obj_name := n\<rparr>) = get_model_matrix eng am s"
  by (simp add: get_model_matrix_def split: sum.split)

lemma demo_weapon_facts:
  "object_model (demo_weapon_assets n) (demo_weapon n') =
     Inr (demo_model\<lparr>model_filename := n, bone_mapping := [''Weapon'' \<mapsto> 0]\<rparr>)"
  "obj_name (demo_weapon n') = n'"
  "animated_transforms (demo_weapon n') = [Fin 5]"
  by (simp_all add: demo_weapon_assets_def demo_weapon_def demo_assets_def demo_object_def)

lemma demo_weapon_model_matrix:
  "n \<in> {''AKS74U'', ''Glock'', ''Shotgun''} \<Longrightarrow>
   get_model_matrix demo_engine (demo_weapon_assets n) (demo_weapon n') = Inr (Fin pi)"
  by (auto simp: get_model_matrix_def demo_weapon_assets_def demo_weapon_def demo_assets_def
      model_correction_def demo_model_def demo_engine_def demo_object_def default_transform_def
      vec3_splat_def hell_pi_def)

text \<open>C13. For the models authored backwards (\<open>AKS74U\<close>, \<open>Glock\<close>,
  \<open>Shotgun\<close>) the model matrix is the object's transform composed with a
  half turn about the vertical axis (spec 8, last scenario).\<close>

theorem get_model_matrix_flipped:
  "object_model am s = Inr m \<Longrightarrow> model_filename m \<in> {''AKS74U'', ''Glock'', ''Shotgun''} \<Longrightarrow>
   get_model_matrix eng am s =
     Inr (mat_mul eng (to_mat4 eng (obj_transform s))
            (to_mat4 eng (default_transform\<lparr>rotation :=
               \<lparr>vec_x = Fin 0, vec_y = hell_pi, vec_z = Fin 0\<rparr>\<rparr>)))"
  by (auto simp: get_model_matrix_def model_correction_def default_transform_def vec3_splat_def)

theorem get_model_matrix_flipped_witness:
  "object_model demo_assets demo_object = Inr demo_model \<and>
   model_filename demo_model \<in> {''AKS74U'', ''Glock'', ''Shotgun''} \<and>
   get_model_matrix demo_engine demo_assets demo_object = Inr (Fin pi)"
proof -
  have o: "object_model demo_assets demo_object = Inr demo_model"
    by (simp add: demo_assets_def demo_object_def)
  have n: "model_filename demo_model \<in> {''AKS74U'', ''Glock'', ''Shotgun''}"
    by (simp add: demo_model_def)
  from o n get_model_matrix_flipped [OF o n, of demo_engine] show ?thesis
    by (simp add: demo_engine_def demo_object_def default_transform_def vec3_splat_def hell_pi_def)
qed

text \<open>C14. For any other model the correction is the default transform, so with
  an engine whose default transform is a right unit of the matrix product the
  model matrix is the object's own transform.\<close>

theorem get_model_matrix_unflipped:
  "object_model am s = Inr m \<Longrightarrow> model_filename m \<notin> {''AKS74U'', ''Glock'', ''Shotgun''} \<Longrightarrow>
   (\<forall>x. mat_mul eng x (to_mat4 eng default_transform) = x) \<Longrightarrow>
   get_model_matrix eng am s = Inr (to_mat4 eng (obj_transform s))"
  by (simp add: get_model_matrix_def model_correction_def)

theorem get_model_matrix_unflipped_witness:
  "object_model demo_zombie_assets demo_object = Inr (demo_model\<lparr>model_filename := ''Zombie''\<rparr>) \<and>
   model_filename (demo_model\<lparr>model_filename := ''Zombie''\<rparr>) \<notin> {''AKS74U'', ''Glock'', ''Shotgun''} \<and>
   (\<forall>x. mat_mul demo_engine x (to_mat4 demo_engine default_transform) = x) \<and>
   get_model_matrix demo_engine demo_zombie_assets (demo_object\<lparr>obj_transform :=
      default_transform\<lparr>rotation := vec3_splat (Fin 1)\<rparr>\<rparr>) = Inr (Fin 1)"
proof -
  let ?s = "demo_object\<lparr>obj_transform := default_transform\<lparr>rotation := vec3_splat (Fin 1)\<rparr>\<rparr>"
  have o: "object_model demo_zombie_assets ?s = Inr (demo_model\<lparr>model_filename := ''Zombie''\<rparr>)"
    by (simp add: demo_zombie_assets_def demo_assets_def demo_object_def)
  have o': "object_model demo_zombie_assets demo_object = Inr (demo_model\<lparr>model_filename := ''Zombie''\<rparr>)"
    by (simp add: demo_zombie_assets_def demo_assets_def demo_object_def)
  have n: "model_filename (demo_model\<lparr>model_filename := ''Zombie''\<rparr>) \<notin> {''AKS74U'', ''Glock'', ''Shotgun''}"
    by simp
  have u: "\<forall>x. mat_mul demo_engine x (to_mat4 demo_engine default_transform) = x"
  proof
    fix x :: float
    show "mat_mul demo_engine x (to_mat4 demo_engine default_transform) = x"
      by (cases x) (simp_all add: demo_engine_def default_transform_def vec3_splat_def)
  qed
  from o' n u get_model_matrix_unflipped [OF o n u] show ?thesis
    by (simp add: demo_engine_def vec3_splat_def)
qed

text \<open>C15. \<open>GetGlockBarrelPostion\<close> on an object named \<open>Glock\<close> whose model maps
  \<open>Barrel\<close> to a bone of the current pose returns the translation of
  \<open>GetModelMatrix() * bone * translate(0, 4, 11)\<close> and leaves the assets as
  they were.\<close>

theorem glock_barrel_position:
  "obj_name s = ''Glock'' \<Longrightarrow> object_model am s = Inr m \<Longrightarrow> bone_mapping m ''Barrel'' = Some i \<Longrightarrow>
   unat i < 2^31 \<Longrightarrow> unat i < length (animated_transforms s) \<Longrightarrow>
   get_model_matrix eng am s = Inr M \<Longrightarrow>
   get_glock_barrel_position eng am s =
     Inr (mat_translation eng (mat_mul eng (mat_mul eng M (animated_transforms s ! unat i))
            (to_mat4 eng (default_transform\<lparr>position :=
               \<lparr>vec_x = Fin 0, vec_y = Fin 4, vec_z = Fin 11\<rparr>\<rparr>))), am)"
  by (simp add: get_glock_barrel_position_def barrel_position_mapped)

theorem glock_barrel_position_witness:
  "obj_name (demo_object\<lparr>animated_transforms := [Fin 5, Fin 7]\<rparr>) = ''Glock'' \<and>
   object_model demo_assets (demo_object\<lparr>animated_transforms := [Fin 5, Fin 7]\<rparr>) = Inr demo_model \<and>
   bone_mapping demo_model ''Barrel'' = Some 1 \<and>
   unat (1::32 word) < 2^31 \<and>
   unat (1::32 word) < length (animated_transforms (demo_object\<lparr>animated_transforms := [Fin 5, Fin 7]\<rparr>)) \<and>
   get_model_matrix demo_engine demo_assets (demo_object\<lparr>animated_transforms := [Fin 5, Fin 7]\<rparr>)
     = Inr (Fin pi) \<and>
   get_glock_barrel_position demo_engine demo_assets (demo_object\<lparr>animated_transforms := [Fin 5, Fin 7]\<rparr>)
     = Inr (vec3_splat (Fin (pi + 7)), demo_assets)"
proof -
  let ?s = "demo_object\<lparr>animated_transforms := [Fin 5, Fin 7]\<rparr>"
  have n: "obj_name ?s = ''Glock''" by (simp add: demo_object_def)
  have o: "object_model demo_assets ?s = Inr demo_model"
    by (simp add: demo_assets_def demo_object_def)
  have b: "bone_mapping demo_model ''Barrel'' = Some 1" by (simp add: demo_model_def)
  have i: "unat (1::32 word) < 2^31" "unat (1::32 word) < length (animated_transforms ?s)" by simp_all
  have mm: "get_model_matrix demo_engine demo_assets ?s = Inr (Fin pi)"
    by (simp add: get_model_matrix_def demo_assets_def model_correction_def demo_model_def
        demo_engine_def demo_object_def default_transform_def vec3_splat_def hell_pi_def)
  from n o b i mm glock_barrel_position [OF n o b i mm] show ?thesis
    by (simp add: demo_engine_def default_transform_def vec3_splat_def)
qed

text \<open>C18. When the model has no bone named \<open>Barrel\<close>, \<open>m_BoneMapping["Barrel"]\<close>
  inserts \<open>Barrel \<mapsto> 0\<close> into the shared model's table and the query reads
  bone 0: it neither fails nor reports the missing bone (spec 4.3 and 7 ask
  for a fail-fast error).\<close>

theorem glock_barrel_missing_bone:
  "obj_name s = ''Glock'' \<Longrightarrow> object_model am s = Inr m \<Longrightarrow> skinned_model s = Some p \<Longrightarrow>
   bone_mapping m ''Barrel'' = None \<Longrightarrow> animated_transforms s \<noteq> [] \<Longrightarrow>
   get_model_matrix eng am s = Inr M \<Longrightarrow>
   get_glock_barrel_position eng am s =
     Inr (mat_translation eng (mat_mul eng (mat_mul eng M (hd (animated_transforms s)))
            (to_mat4 eng (default_transform\<lparr>position :=
               \<lparr>vec_x = Fin 0, vec_y = Fin 4, vec_z = Fin 11\<rparr>\<rparr>))),
          store_model am p (m\<lparr>bone_mapping := (bone_mapping m)(''Barrel'' \<mapsto> 0)\<rparr>))"
proof -
  assume n: "obj_name s = ''Glock''" and o: "object_model am s = Inr m"
    and p: "skinned_model s = Some p" and b: "bone_mapping m ''Barrel'' = None"
    and ne: "animated_transforms s \<noteq> []" and mm: "get_model_matrix eng am s = Inr M"
  from b have "map_subscript (bone_mapping m) ''Barrel'' = (0, (bone_mapping m)(''Barrel'' \<mapsto> 0))"
    by simp
  moreover from ne have "0 < length (animated_transforms s)" by simp
  ultimately show ?thesis using barrel_position_bone [OF o p _ _ _ mm] n ne
    by (simp add: get_glock_barrel_position_def hd_conv_nth)
qed

theorem glock_barrel_missing_bone_witness:
  "obj_name (demo_object\<lparr>animated_transforms := [Fin 5, Fin 7]\<rparr>) = ''Glock'' \<and>
   object_model (demo_assets\<lparr>skinned_models := [demo_model\<lparr>bone_mapping := Map.empty\<rparr>]\<rparr>)
     (demo_object\<lparr>animated_transforms := [Fin 5, Fin 7]\<rparr>) = Inr (demo_model\<lparr>bone_mapping := Map.empty\<rparr>) \<and>
   skinned_model (demo_object\<lparr>animated_transforms := [Fin 5, Fin 7]\<rparr>) = Some 0 \<and>
   bone_mapping (demo_model\<lparr>bone_mapping := Map.empty\<rparr>) ''Barrel'' = None \<and>
   animated_transforms (demo_object\<lparr>animated_transforms := [Fin 5, Fin 7]\<rparr>) \<noteq> [] \<and>
   get_model_matrix demo_engine (demo_assets\<lparr>skinned_models := [demo_model\<lparr>bone_mapping := Map.empty\<rparr>]\<rparr>)
     (demo_object\<lparr>animated_transforms := [Fin 5, Fin 7]\<rparr>) = Inr (Fin pi) \<and>
   get_glock_barrel_position demo_engine
     (demo_assets\<lparr>skinned_models := [demo_model\<lparr>bone_mapping := Map.empty\<rparr>]\<rparr>)
     (demo_object\<lparr>animated_transforms := [Fin 5, Fin 7]\<rparr>) =
   Inr (vec3_splat (Fin (pi + 5)),
        demo_assets\<lparr>skinned_models := [demo_model\<lparr>bone_mapping := [''Barrel'' \<mapsto> 0]\<rparr>]\<rparr>)"
proof -
  let ?am = "demo_assets\<lparr>skinned_models := [demo_model\<lparr>bone_mapping := Map.empty\<rparr>]\<rparr>"
  let ?m = "demo_model\<lparr>bone_mapping := Map.empty\<rparr>"
  let ?s = "demo_object\<lparr>animated_transforms := [Fin 5, Fin 7]\<rparr>"
  have n: "obj_name ?s = ''Glock''" by (simp add: demo_object_def)
  have o: "object_model ?am ?s = Inr ?m" by (simp add: demo_object_def)
  have p: "skinned_model ?s = Some 0" by (simp add: demo_object_def)
  have b: "bone_mapping ?m ''Barrel'' = None" by simp
  have ne: "animated_transforms ?s \<noteq> []" by simp
  have mm: "get_model_matrix demo_engine ?am ?s = Inr (Fin pi)"
    by (simp add: get_model_matrix_def demo_assets_def model_correction_def demo_model_def
        demo_engine_def demo_object_def default_transform_def vec3_splat_def hell_pi_def)
  from n o p b ne mm glock_barrel_missing_bone [OF n o p b ne mm] show ?thesis
    by (simp add: demo_engine_def default_transform_def vec3_splat_def store_model_def)
qed

text \<open>C19. Before the first \<open>Update\<close> has sampled a pose, the current pose is
  empty and \<open>GetGlockBarrelPostion\<close> reads past the end of
  \<open>_animatedTransforms.worldspace\<close>.\<close>

theorem glock_barrel_without_pose:
  "obj_name s = ''Glock'' \<Longrightarrow> object_model am s = Inr m \<Longrightarrow> animated_transforms s = [] \<Longrightarrow>
   get_glock_barrel_position eng am s = Inl VectorIndexOutOfRange"
  by (simp add: get_glock_barrel_position_def barrel_position_def vector_at_def split: prod.splits)

theorem glock_barrel_without_pose_witness:
  "obj_name demo_object = ''Glock'' \<and> object_model demo_assets demo_object = Inr demo_model \<and>
   animated_transforms demo_object = [] \<and>
   get_glock_barrel_position demo_engine demo_assets demo_object = Inl VectorIndexOutOfRange"
proof -
  have h: "obj_name demo_object = ''Glock''" "object_model demo_assets demo_object = Inr demo_model"
    "animated_transforms demo_object = []"
    by (simp_all add: demo_object_def demo_assets_def)
  from h glock_barrel_without_pose [OF h, of demo_engine] show ?thesis by blast
qed

text \<open>C16. \<open>GetAKS74UBarrelPostion\<close> and \<open>GetShotgunBarrelPostion\<close> on an object
  whose model maps \<open>Weapon\<close> to a bone of the current pose: named \<open>AKS74U\<close>,
  the first returns the translation of
  \<open>GetModelMatrix() * bone * translate(0, 1, 36)\<close>; named \<open>Shotgun\<close>, the
  second returns that of \<open>GetModelMatrix() * bone * translate(0, 1, 58)\<close>;
  both leave the assets unchanged.\<close>

theorem rifle_barrel_positions:
  "object_model am s = Inr m \<Longrightarrow> bone_mapping m ''Weapon'' = Some i \<Longrightarrow>
   unat i < 2^31 \<Longrightarrow> unat i < length (animated_transforms s) \<Longrightarrow>
   get_model_matrix eng am s = Inr M \<Longrightarrow>
   get_aks74u_barrel_position eng am (s\<lparr>obj_name := ''AKS74U''\<rparr>) =
     Inr (mat_translation eng (mat_mul eng (mat_mul eng M (animated_transforms s ! unat i))
            (to_mat4 eng (default_transform\<lparr>position :=
               \<lparr>vec_x = Fin 0, vec_y = Fin 1, vec_z = Fin 36\<rparr>\<rparr>))), am) \<and>
   get_shotgun_barrel_position eng am (s\<lparr>obj_name := ''Shotgun''\<rparr>) =
     Inr (mat_translation eng (mat_mul eng (mat_mul eng M (animated_transforms s ! unat i))
            (to_mat4 eng (default_transform\<lparr>position :=
               \<lparr>vec_x = Fin 0, vec_y = Fin 1, vec_z = Fin 58\<rparr>\<rparr>))), am)"
  by (simp add: get_aks74u_barrel_position_def get_shotgun_barrel_position_def
      barrel_position_mapped)

theorem rifle_barrel_positions_witness:
  "get_aks74u_barrel_position demo_engine (demo_weapon_assets ''AKS74U'')
     ((demo_weapon ''AKS74U'')\<lparr>obj_name := ''AKS74U''\<rparr>) =
     Inr (vec3_splat (Fin (pi + 5)), demo_weapon_assets ''AKS74U'') \<and>
   get_shotgun_barrel_position demo_engine (demo_weapon_assets ''AKS74U'')
     ((demo_weapon ''AKS74U'')\<lparr>obj_name := ''Shotgun''\<rparr>) =
     Inr (vec3_splat (Fin (pi + 5)), demo_weapon_assets ''AKS74U'')"
proof -
  have mm: "get_model_matrix demo_engine (demo_weapon_assets ''AKS74U'') (demo_weapon ''AKS74U'')
      = Inr (Fin pi)" by (simp add: demo_weapon_model_matrix)
  show ?thesis
    using rifle_barrel_positions [OF demo_weapon_facts(1) _ _ _ mm, of 0] demo_weapon_facts(3)
    by (simp add: demo_engine_def default_transform_def vec3_splat_def)
qed

text \<open>C20. Bounds of the bone read shared by the three barrel queries. For a
  bone the model maps to the unsigned index \<open>b\<close>, the query reads past the
  pose exactly when \<open>b\<close> is at least \<open>2^31\<close> (stored in \<open>int boneIndex\<close>
  it turns negative, and as a \<open>size_t\<close> subscript lies past any vector) or
  at least the number of bones in the current pose.\<close>

theorem barrel_bone_index_bounds:
  "object_model am s = Inr m \<Longrightarrow> bone_mapping m bone = Some b \<Longrightarrow>
   isl (barrel_position eng am s bone off) \<longleftrightarrow>
     2^31 \<le> unat b \<or> length (animated_transforms s) \<le> unat b"
proof -
  assume o: "object_model am s = Inr m" and b: "bone_mapping m bone = Some b"
  from o obtain p where p: "skinned_model s = Some p"
    by (blast dest: object_model_Inr_ptr)
  from b have sub: "map_subscript (bone_mapping m) bone = (b, bone_mapping m)" by simp
  from o have mm: "get_model_matrix eng am s = Inr (mat_mul eng (to_mat4 eng (obj_transform s))
      (to_mat4 eng (model_correction (model_filename m))))"
    by (simp add: get_model_matrix_def)
  show ?thesis
    using barrel_position_read [OF o p sub mm, of off] by (auto simp: vector_at_def)
qed

theorem barrel_bone_index_bounds_witness:
  "isl (barrel_position demo_engine
      (demo_assets\<lparr>skinned_models := [demo_model\<lparr>bone_mapping := [''Barrel'' \<mapsto> 0x80000000]\<rparr>]\<rparr>)
      (demo_object\<lparr>animated_transforms := [Fin 5, Fin 7]\<rparr>) ''Barrel'' (vec3_splat 0)) \<and>
   \<not> isl (barrel_position demo_engine demo_assets
      (demo_object\<lparr>animated_transforms := [Fin 5, Fin 7]\<rparr>) ''Barrel'' (vec3_splat 0))"
proof -
  let ?s = "demo_object\<lparr>animated_transforms := [Fin 5, Fin 7]\<rparr>"
  let ?am = "demo_assets\<lparr>skinned_models := [demo_model\<lparr>bone_mapping := [''Barrel'' \<mapsto> 0x80000000]\<rparr>]\<rparr>"
  have o1: "object_model ?am ?s = Inr (demo_model\<lparr>bone_mapping := [''Barrel'' \<mapsto> 0x80000000]\<rparr>)"
    by (simp add: demo_assets_def demo_object_def)
  have o2: "object_model demo_assets ?s = Inr demo_model"
    by (simp add: demo_assets_def demo_object_def)
  have b2: "bone_mapping demo_model ''Barrel'' = Some 1" by (simp add: demo_model_def)
  show ?thesis
    using barrel_bone_index_bounds [OF o1, of "''Barrel''" "0x80000000" demo_engine "vec3_splat 0"]
      barrel_bone_index_bounds [OF o2 b2, of demo_engine "vec3_splat 0"]
    by simp
qed

text \<open>C17. Composition of the frame update and the barrel queries: after
  \<open>Update\<close>, a barrel query on a mapped bone reads that bone from the pose
  sampled at the frame's pose time (the new current time with motion blur,
  the new previous time without, so the barrel then lags one frame) and
  composes it with the unchanged model matrix.\<close>

theorem barrel_position_after_update:
  "update eng am dt s = Inr s' \<Longrightarrow> current_animation s = Some a \<Longrightarrow> object_model am s = Inr m \<Longrightarrow>
   bone_mapping m bone = Some i \<Longrightarrow> unat i < 2^31 \<Longrightarrow>
   unat i < length (update_bone_transforms eng m (current_pose_time s') a (camera_matrix s)) \<Longrightarrow>
   get_model_matrix eng am s = Inr M \<Longrightarrow>
   barrel_position eng am s' bone off =
     Inr (mat_translation eng (mat_mul eng (mat_mul eng M
            (update_bone_transforms eng m (current_pose_time s') a (camera_matrix s) ! unat i))
            (to_mat4 eng (default_transform\<lparr>position := off\<rparr>))), am)"
proof -
  assume u: "update eng am dt s = Inr s'" and c: "current_animation s = Some a"
    and o: "object_model am s = Inr m" and b: "bone_mapping m bone = Some i"
    and i: "unat i < 2^31"
    and l: "unat i < length (update_bone_transforms eng m (current_pose_time s') a (camera_matrix s))"
    and mm: "get_model_matrix eng am s = Inr M"
  note f = update_Some_fields [OF u c o]
  from f mm o have mm': "get_model_matrix eng am s' = Inr M"
    by (simp add: get_model_matrix_def)
  from f l have "unat i < length (animated_transforms s')" by simp
  from barrel_position_mapped [OF conjunct1 [OF f] b i this mm'] f show ?thesis by simp
qed

theorem barrel_position_after_update_witness:
  "update demo_engine (demo_weapon_assets ''AKS74U'') (Fin 0.5)
      ((demo_weapon ''AKS74U'')\<lparr>current_animation := Some demo_walk\<rparr>) =
     Inr ((demo_weapon ''AKS74U'')\<lparr>current_animation := Some demo_walk,
       current_animation_time := Fin 0.5, animated_transforms := [Fin 0],
       animated_transforms_previous := [Fin 0]\<rparr>) \<and>
   barrel_position demo_engine (demo_weapon_assets ''AKS74U'')
     ((demo_weapon ''AKS74U'')\<lparr>current_animation := Some demo_walk,
       current_animation_time := Fin 0.5, animated_transforms := [Fin 0],
       animated_transforms_previous := [Fin 0]\<rparr>) ''Weapon'' (vec3_splat 0) =
     Inr (vec3_splat (Fin pi), demo_weapon_assets ''AKS74U'')"
proof -
  let ?s = "(demo_weapon ''AKS74U'')\<lparr>current_animation := Some demo_walk\<rparr>"
  let ?s' = "(demo_weapon ''AKS74U'')\<lparr>current_animation := Some demo_walk,
       current_animation_time := Fin 0.5, animated_transforms := [Fin 0],
       animated_transforms_previous := [Fin 0]\<rparr>"
  let ?am = "demo_weapon_assets ''AKS74U''"
  let ?m = "demo_model\<lparr>model_filename := ''AKS74U'', bone_mapping := [''Weapon'' \<mapsto> 0]\<rparr>"
  have c: "current_animation ?s = Some demo_walk" by simp
  have o: "object_model ?am ?s = Inr ?m"
    by (simp add: demo_weapon_assets_def demo_weapon_def demo_assets_def demo_object_def)
  have u: "update demo_engine ?am (Fin 0.5) ?s = Inr ?s'"
    by (simp add: update_def update_animation_Some calculate_bone_transforms_def
        object_model_def deref_model_def vector_at_def demo_weapon_assets_def demo_assets_def
        demo_weapon_def demo_object_def demo_walk_def demo_engine_def clip_duration_def
        advance_animation_time_def end_of_clip_def current_pose_time_def)
  have b: "bone_mapping ?m ''Weapon'' = Some 0" by simp
  have i: "unat (0::32 word) < 2^31" by simp
  have l: "unat (0::32 word) < length (update_bone_transforms demo_engine ?m (current_pose_time ?s')
      demo_walk (camera_matrix ?s))" by (simp add: demo_engine_def)
  have mm: "get_model_matrix demo_engine ?am ?s = Inr (Fin pi)"
    by (simp add: get_model_matrix_def demo_weapon_assets_def demo_weapon_def demo_assets_def
        model_correction_def demo_model_def demo_engine_def demo_object_def default_transform_def
        vec3_splat_def hell_pi_def)
  from barrel_position_after_update [OF u c o b i l mm, of "vec3_splat 0"] u show ?thesis
    by (simp add: demo_engine_def current_pose_time_def demo_weapon_def demo_object_def
        default_transform_def vec3_splat_def)
qed

end
