(* ===== verification/Materials.thy ===== *)
theory Materials
  imports Game_Object
begin

text \<open>
  Model assignment and the per-mesh material table: \<open>SetSkinnedModel\<close>
  (which resizes \<open>_materialIndices\<close> to the new model's mesh count),
  \<open>SetMeshMaterial\<close> (every mesh with the given name, the early \<open>return\<close>
  being commented out in the source), \<open>SetMeshMaterialByIndex\<close> (bounds
  checked) and \<open>SetMaterial\<close> (every mesh). The two loops are proved equal to
  pointwise reference definitions; their writes are in range whenever the
  table is at least as long as the mesh list.
\<close>

subsection \<open>Operations\<close>

definition model_not_found_message :: "string \<Rightarrow> string" where
  "model_not_found_message name =
     ''Could not SetSkinnedModel(name) with name: '' @ [CHR 0x22] @ name @ [CHR 0x22] @
     '', it does not exist''"

definition set_skinned_model ::
  "asset_manager \<Rightarrow> string \<Rightarrow> 'm animated_game_object \<Rightarrow> 'm animated_game_object \<times> string list" where
  "set_skinned_model am name s =
     (case get_skinned_model am name of
        Some p \<Rightarrow>
          (s\<lparr>skinned_model := Some p,
             material_indices := vector_resize (length (mesh_entries (skinned_models am ! p))) 0
                                   (material_indices s)\<rparr>, [])
      | None \<Rightarrow> (s, [model_not_found_message name]))"

text \<open>The loop of \<open>SetMeshMaterial\<close>, from mesh \<open>i\<close> on; a write past the end of
  \<open>_materialIndices\<close> is an error.\<close>

function set_mesh_material_from ::
  "asset_manager \<Rightarrow> mesh_entry list \<Rightarrow> string \<Rightarrow> string \<Rightarrow> nat \<Rightarrow> int list \<Rightarrow> int list result" where
  "set_mesh_material_from am meshes mesh_nm material_nm i mats =
     (if i < length meshes then
        (if mesh_name (meshes ! i) = mesh_nm then
           (if i < length mats
            then set_mesh_material_from am meshes mesh_nm material_nm (Suc i)
                   (mats[i := get_material_index am material_nm])
            else Inl VectorIndexOutOfRange)
         else set_mesh_material_from am meshes mesh_nm material_nm (Suc i) mats)
      else Inr mats)"
  by pat_completeness auto
termination
  by (relation "measure (\<lambda>(am, meshes, mesh_nm, material_nm, i, mats). length meshes - i)") auto

declare set_mesh_material_from.simps [simp del]

definition set_mesh_material ::
  "asset_manager \<Rightarrow> string \<Rightarrow> string \<Rightarrow> 'm animated_game_object \<Rightarrow> 'm animated_game_object result" where
  "set_mesh_material am mesh_nm material_nm s =
     (if skinned_model s = None then Inr s
      else case object_model am s of
             Inl e \<Rightarrow> Inl e
           | Inr m \<Rightarrow>
               (case set_mesh_material_from am (mesh_entries m) mesh_nm material_nm 0 (material_indices s) of
                  Inl e \<Rightarrow> Inl e
                | Inr mats \<Rightarrow> Inr (s\<lparr>material_indices := mats\<rparr>)))"

definition set_mesh_material_by_index ::
  "asset_manager \<Rightarrow> int \<Rightarrow> string \<Rightarrow> 'm animated_game_object \<Rightarrow> 'm animated_game_object" where
  "set_mesh_material_by_index am mesh_index material_nm s =
     (if skinned_model s = None then s
      else if mesh_index \<ge> 0 \<and> nat mesh_index < length (material_indices s)
      then s\<lparr>material_indices :=
               (material_indices s)[nat mesh_index := get_material_index am material_nm]\<rparr>
      else s)"

function set_material_from ::
  "asset_manager \<Rightarrow> mesh_entry list \<Rightarrow> string \<Rightarrow> nat \<Rightarrow> int list \<Rightarrow> int list result" where
  "set_material_from am meshes material_nm i mats =
     (if i < length meshes then
        (if i < length mats
         then set_material_from am meshes material_nm (Suc i) (mats[i := get_material_index am material_nm])
         else Inl VectorIndexOutOfRange)
      else Inr mats)"
  by pat_completeness auto
termination
  by (relation "measure (\<lambda>(am, meshes, material_nm, i, mats). length meshes - i)") auto

declare set_material_from.simps [simp del]

definition set_material ::
  "asset_manager \<Rightarrow> string \<Rightarrow> 'm animated_game_object \<Rightarrow> 'm animated_game_object result" where
  "set_material am material_nm s =
     (if skinned_model s = None then Inr s
      else case object_model am s of
             Inl e \<Rightarrow> Inl e
           | Inr m \<Rightarrow>
               (case set_material_from am (mesh_entries m) material_nm 0 (material_indices s) of
                  Inl e \<Rightarrow> Inl e
                | Inr mats \<Rightarrow> Inr (s\<lparr>material_indices := mats\<rparr>)))"

text \<open>Reference definitions of the two loops: the table after the loop, slot by
  slot.\<close>

definition mesh_material_table :: "mesh_entry list \<Rightarrow> string \<Rightarrow> int \<Rightarrow> nat \<Rightarrow> int list \<Rightarrow> int list" where
  "mesh_material_table meshes mesh_nm idx i mats =
     map (\<lambda>j. if i \<le> j \<and> j < length meshes \<and> mesh_name (meshes ! j) = mesh_nm then idx else mats ! j)
       [0..<length mats]"

definition material_table :: "mesh_entry list \<Rightarrow> int \<Rightarrow> nat \<Rightarrow> int list \<Rightarrow> int list" where
  "material_table meshes idx i mats =
     map (\<lambda>j. if i \<le> j \<and> j < length meshes then idx else mats ! j) [0..<length mats]"

lemmas material_defs [op_defs] =
  set_skinned_model_def set_mesh_material_def set_mesh_material_by_index_def set_material_def

subsection \<open>The loops against their reference tables\<close>

lemma mesh_material_table_done:
  "length meshes \<le> i \<Longrightarrow> mesh_material_table meshes nm idx i mats = mats"
  unfolding mesh_material_table_def by (rule nth_equalityI) auto

lemma mesh_material_table_match:
  assumes "i < length mats" "i < length meshes" "mesh_name (meshes ! i) = nm"
  shows "mesh_material_table meshes nm idx (Suc i) (mats[i := idx]) = mesh_material_table meshes nm idx i mats"
  unfolding mesh_material_table_def
proof (rule nth_equalityI)
  fix j
  assume "j < length (map (\<lambda>j. if Suc i \<le> j \<and> j < length meshes \<and> mesh_name (meshes ! j) = nm
      then idx else mats[i := idx] ! j) [0..<length (mats[i := idx])])"
  then show "map (\<lambda>j. if Suc i \<le> j \<and> j < length meshes \<and> mesh_name (meshes ! j) = nm
      then idx else mats[i := idx] ! j) [0..<length (mats[i := idx])] ! j =
    map (\<lambda>j. if i \<le> j \<and> j < length meshes \<and> mesh_name (meshes ! j) = nm then idx else mats ! j)
      [0..<length mats] ! j"
    using assms by (cases "j = i") auto
qed simp

lemma mesh_material_table_skip:
  "mesh_name (meshes ! i) \<noteq> nm \<Longrightarrow>
   mesh_material_table meshes nm idx (Suc i) mats = mesh_material_table meshes nm idx i mats"
  unfolding mesh_material_table_def
  by (rule map_cong [OF refl]) (auto simp: Suc_le_eq le_less)

lemma set_mesh_material_from_table:
  "length meshes \<le> length mats \<Longrightarrow>
   set_mesh_material_from am meshes nm material_nm i mats =
     Inr (mesh_material_table meshes nm (get_material_index am material_nm) i mats)"
proof (induction am meshes nm material_nm i mats rule: set_mesh_material_from.induct)
  case (1 am meshes nm material_nm i mats)
  let ?idx = "get_material_index am material_nm"
  show ?case
  proof (cases "i < length meshes")
    case False
    then show ?thesis
      by (simp add: set_mesh_material_from.simps [of am meshes nm material_nm i mats]
          mesh_material_table_done)
  next
    case True
    show ?thesis
    proof (cases "mesh_name (meshes ! i) = nm")
      case match: True
      from True "1.prems" have i: "i < length mats" by simp
      from "1.prems" have "length meshes \<le> length (mats[i := ?idx])" by simp
      with "1.IH"(1) [OF True match i] True match i show ?thesis
        by (simp add: set_mesh_material_from.simps [of am meshes nm material_nm i mats]
            mesh_material_table_match)
    next
      case skip: False
      with "1.IH"(2) [OF True skip "1.prems"] True show ?thesis
        by (simp add: set_mesh_material_from.simps [of am meshes nm material_nm i mats]
            mesh_material_table_skip)
    qed
  qed
qed

lemma material_table_done:
  "length meshes \<le> i \<Longrightarrow> material_table meshes idx i mats = mats"
  unfolding material_table_def by (rule nth_equalityI) auto

lemma material_table_step:
  assumes "i < length mats" "i < length meshes"
  shows "material_table meshes idx (Suc i) (mats[i := idx]) = material_table meshes idx i mats"
  unfolding material_table_def
proof (rule nth_equalityI)
  fix j
  assume "j < length (map (\<lambda>j. if Suc i \<le> j \<and> j < length meshes then idx else mats[i := idx] ! j)
      [0..<length (mats[i := idx])])"
  then show "map (\<lambda>j. if Suc i \<le> j \<and> j < length meshes then idx else mats[i := idx] ! j)
      [0..<length (mats[i := idx])] ! j =
    map (\<lambda>j. if i \<le> j \<and> j < length meshes then idx else mats ! j) [0..<length mats] ! j"
    using assms by (cases "j = i") auto
qed simp

lemma set_material_from_table:
  "length meshes \<le> length mats \<Longrightarrow>
   set_material_from am meshes material_nm i mats =
     Inr (material_table meshes (get_material_index am material_nm) i mats)"
proof (induction am meshes material_nm i mats rule: set_material_from.induct)
  case (1 am meshes material_nm i mats)
  show ?case
  proof (cases "i < length meshes")
    case False
    then show ?thesis
      by (simp add: set_material_from.simps [of am meshes material_nm i mats] material_table_done)
  next
    case True
    with "1.prems" have i: "i < length mats" by simp
    from "1.prems" "1.IH" [OF True i] True i show ?thesis
      by (simp add: set_material_from.simps [of am meshes material_nm i mats] material_table_step)
  qed
qed

lemma material_table_full:
  "length meshes = length mats \<Longrightarrow> material_table meshes idx 0 mats = replicate (length mats) idx"
  unfolding material_table_def by (rule nth_equalityI) simp_all

text \<open>The loop's whole behaviour: it fails exactly when some mesh with the name
  lies at or after \<open>i\<close> and beyond the table; otherwise it fills the table.\<close>

lemma set_mesh_material_from_exact:
  "set_mesh_material_from am meshes nm matn i mats =
     (if \<exists>j. i \<le> j \<and> length mats \<le> j \<and> j < length meshes \<and> mesh_name (meshes ! j) = nm
      then Inl VectorIndexOutOfRange
      else Inr (mesh_material_table meshes nm (get_material_index am matn) i mats))"
proof (induction am meshes nm matn i mats rule: set_mesh_material_from.induct)
  case (1 am meshes nm matn i mats)
  let ?idx = "get_material_index am matn"
  let ?bad = "\<lambda>k xs. \<exists>j. k \<le> j \<and> length xs \<le> j \<and> j < length meshes \<and> mesh_name (meshes ! j) = nm"
  show ?case
  proof (cases "i < length meshes")
    case False
    then have "\<not> ?bad i mats" by auto
    with False show ?thesis
      by (simp add: set_mesh_material_from.simps [of am meshes nm matn i mats]
          mesh_material_table_done)
  next
    case True
    show ?thesis
    proof (cases "mesh_name (meshes ! i) = nm")
      case match: True
      show ?thesis
      proof (cases "i < length mats")
        case i: True
        have "?bad (Suc i) (mats[i := ?idx]) \<longleftrightarrow> ?bad i mats"
          using i by (intro ex_cong1) auto
        with "1.IH"(1) [OF True match i] True match i show ?thesis
          by (auto simp add: set_mesh_material_from.simps [of am meshes nm matn i mats]
              mesh_material_table_match)
      next
        case False
        with True match have "?bad i mats" by auto
        with True match False show ?thesis
          by (simp add: set_mesh_material_from.simps [of am meshes nm matn i mats])
      qed
    next
      case skip: False
      have "?bad (Suc i) mats \<longleftrightarrow> ?bad i mats"
        using skip by (intro ex_cong1) (auto simp: Suc_le_eq le_eq_less_or_eq)
      with "1.IH"(2) [OF True skip] True skip show ?thesis
        by (auto simp add: set_mesh_material_from.simps [of am meshes nm matn i mats]
            mesh_material_table_skip)
    qed
  qed
qed

subsection \<open>Properties\<close>

lemma demo_get_skinned_model: "get_skinned_model demo_assets ''Glock'' = Some 0"
  by (simp add: get_skinned_model_def demo_assets_def demo_model_def)

text \<open>C21. \<open>SetMeshMaterial\<close> gives the material to every mesh with the given name,
  not only the first (the early \<open>return\<close> is commented out), and leaves the
  other slots alone, when the table covers the mesh list.\<close>

theorem set_mesh_material_every_match:
  "object_model am s = Inr m \<Longrightarrow> length (mesh_entries m) \<le> length (material_indices s) \<Longrightarrow>
   set_mesh_material am mesh_nm material_nm s =
     Inr (s\<lparr>material_indices :=
            map (\<lambda>j. if j < length (mesh_entries m) \<and> mesh_name (mesh_entries m ! j) = mesh_nm
                      then get_material_index am material_nm else material_indices s ! j)
              [0..<length (material_indices s)]\<rparr>)"
  by (auto simp: set_mesh_material_def set_mesh_material_from_table mesh_material_table_def
      object_model_Inr_iff)

theorem set_mesh_material_every_match_witness:
  "object_model demo_assets demo_object = Inr demo_model \<and>
   length (mesh_entries demo_model) \<le> length (material_indices demo_object) \<and>
   set_mesh_material demo_assets ''body'' ''Gold'' demo_object =
     Inr (demo_object\<lparr>material_indices := [7, 0, 7]\<rparr>)"
proof -
  have o: "object_model demo_assets demo_object = Inr demo_model"
    by (simp add: demo_assets_def demo_object_def)
  have l: "length (mesh_entries demo_model) \<le> length (material_indices demo_object)"
    by (simp add: demo_model_def demo_object_def)
  from o l set_mesh_material_every_match [OF o l, of "''body''" "''Gold''"] show ?thesis
    by (simp add: demo_model_def demo_object_def get_material_index_def demo_assets_def
        upt_conv_Cons)
qed

text \<open>C22. \<open>SetMaterial\<close> on an object whose table has one slot per mesh sets
  every slot to the material's index.\<close>

theorem set_material_all:
  "object_model am s = Inr m \<Longrightarrow> length (mesh_entries m) = length (material_indices s) \<Longrightarrow>
   set_material am material_nm s =
     Inr (s\<lparr>material_indices :=
            replicate (length (material_indices s)) (get_material_index am material_nm)\<rparr>)"
  by (auto simp: set_material_def set_material_from_table material_table_full object_model_Inr_iff)

theorem set_material_all_witness:
  "object_model demo_assets demo_object = Inr demo_model \<and>
   length (mesh_entries demo_model) = length (material_indices demo_object) \<and>
   set_material demo_assets ''Gold'' demo_object = Inr (demo_object\<lparr>material_indices := [7, 7, 7]\<rparr>)"
proof -
  have o: "object_model demo_assets demo_object = Inr demo_model"
    by (simp add: demo_assets_def demo_object_def)
  have l: "length (mesh_entries demo_model) = length (material_indices demo_object)"
    by (simp add: demo_model_def demo_object_def)
  from o l set_material_all [OF o l, of "''Gold''"] show ?thesis
    by (simp add: demo_object_def get_material_index_def demo_assets_def numeral_3_eq_3)
qed

text \<open>C24. \<open>SetSkinnedModel\<close> of a model the asset manager has points the object
  at it and resizes the material table to the model's mesh count, keeping the
  old slots that fit and filling new ones with 0. The current clip is kept,
  even though it belongs to the previous model.\<close>

theorem set_skinned_model_found:
  "get_skinned_model am name = Some p \<Longrightarrow> set_skinned_model am name s = (s', out) \<Longrightarrow>
   out = [] \<and> skinned_model s' = Some p \<and> model_filename (skinned_models am ! p) = name \<and>
   length (material_indices s') = length (mesh_entries (skinned_models am ! p)) \<and>
   (\<forall>i < length (material_indices s').
      material_indices s' ! i = (if i < length (material_indices s) then material_indices s ! i else 0)) \<and>
   current_animation s' = current_animation s"
  by (auto simp: set_skinned_model_def nth_vector_resize dest: get_skinned_model_valid)

theorem set_skinned_model_found_witness:
  "get_skinned_model demo_assets ''Glock'' = Some 0 \<and>
   set_skinned_model demo_assets ''Glock'' (demo_object\<lparr>skinned_model := None, material_indices := [5]\<rparr>) =
     (demo_object\<lparr>material_indices := [5, 0, 0]\<rparr>, [])"
proof -
  let ?s = "demo_object\<lparr>skinned_model := None, material_indices := [5]\<rparr>"
  have "set_skinned_model demo_assets ''Glock'' ?s =
      (?s\<lparr>skinned_model := Some 0, material_indices :=
         vector_resize (length (mesh_entries (skinned_models demo_assets ! 0))) 0 [5]\<rparr>, [])"
    by (simp add: set_skinned_model_def demo_get_skinned_model)
  also have "\<dots> = (demo_object\<lparr>material_indices := [5, 0, 0]\<rparr>, [])"
    by (simp add: demo_assets_def demo_model_def demo_object_def vector_resize_def numeral_2_eq_2)
  finally have e: "set_skinned_model demo_assets ''Glock'' ?s = (demo_object\<lparr>material_indices := [5, 0, 0]\<rparr>, [])" .
  from set_skinned_model_found [OF demo_get_skinned_model e] e demo_get_skinned_model
  show ?thesis by simp
qed

text \<open>C25. An unknown model name leaves the object unchanged and prints the
  diagnostic of \<open>SetSkinnedModel\<close> (spec 7).\<close>

theorem set_skinned_model_not_found:
  "get_skinned_model am name = None \<Longrightarrow>
   set_skinned_model am name s = (s, [model_not_found_message name])"
  by (simp add: set_skinned_model_def)

theorem set_skinned_model_not_found_witness:
  "get_skinned_model demo_assets ''Zombie'' = None \<and>
   set_skinned_model demo_assets ''Zombie'' demo_object =
     (demo_object, [''Could not SetSkinnedModel(name) with name: '' @ [CHR 0x22] @ ''Zombie'' @
       [CHR 0x22] @ '', it does not exist''])"
proof -
  have h: "get_skinned_model demo_assets ''Zombie'' = None"
    by (simp add: get_skinned_model_def demo_assets_def demo_model_def)
  from h set_skinned_model_not_found [OF h, of demo_object] show ?thesis
    by (simp add: model_not_found_message_def)
qed

text \<open>C23. The loop of \<open>SetMeshMaterial\<close> writes past the end of
  \<open>_materialIndices\<close> exactly when a mesh with the requested name sits at an
  index the table does not have: the only way the loop reaches undefined
  behaviour.\<close>

theorem set_mesh_material_out_of_range:
  "set_mesh_material_from am meshes nm matn 0 mats = Inl VectorIndexOutOfRange \<longleftrightarrow>
     (\<exists>j. length mats \<le> j \<and> j < length meshes \<and> mesh_name (meshes ! j) = nm)"
  by (simp add: set_mesh_material_from_exact)

text \<open>C26. \<open>SetSkinnedModel\<close> is idempotent: setting the same model twice is
  setting it once, the material table and the printed lines included.\<close>

theorem set_skinned_model_idempotent:
  "set_skinned_model am name (fst (set_skinned_model am name s)) =
     (fst (set_skinned_model am name s), snd (set_skinned_model am name s))"
  by (auto simp: set_skinned_model_def vector_resize_def split: option.splits)

end
