(* ===== verification/Object_API.thy ===== *)
theory Object_API
  imports Placement Materials
begin

text \<open>
  The whole object as the game loop and the rest of the engine drive it: every
  public member function of \<open>AnimatedGameObject\<close> that changes state, as a
  constructor of \<open>api_call\<close>, and \<open>api_step\<close>, which runs one call on a world
  made of the asset table, the object and the console. The barrel queries are
  calls too, since they can write the shared bone table. \<open>reachable\<close> is the
  set of worlds a freshly constructed object can get to, and \<open>obj_inv\<close> the
  invariant every reachable world satisfies: the model pointer is valid, the
  material table has one slot per mesh, a clip is only selected together with
  a model, a complete clip is a non-looping one, and the clock is within the
  clip (or 0). The calls outside playback are shown to leave the clip, the
  clock and the flags alone (\<open>api_step_playback_frame\<close>).
\<close>

subsection \<open>Calls, worlds and steps\<close>

datatype api_call =
    Update float
  | ToggleAnimationPause
  | PlayAndLoopAnimation string float
  | PauseAnimation
  | EnableMotionBlur
  | DisableMotionBlur
  | SetMeshMaterial string string
  | SetMeshMaterialByIndex int string
  | SetMaterial string
  | PlayAnimation string float
  | SetName string
  | SetSkinnedModel string
  | SetScale float
  | SetPosition vec3
  | SetRotationX float
  | SetRotationY float
  | SetRotationZ float
  | GetGlockBarrelPosition
  | GetAKS74UBarrelPosition
  | GetShotgunBarrelPosition

record 'm world =
  assets :: asset_manager
  obj :: "'m animated_game_object"
  console :: "string list"

definition set_obj :: "'m world \<Rightarrow> 'm animated_game_object \<Rightarrow> 'm world" where
  "set_obj w s = w\<lparr>obj := s\<rparr>"

definition set_obj_printed :: "'m world \<Rightarrow> 'm animated_game_object \<times> string list \<Rightarrow> 'm world" where
  "set_obj_printed w r = w\<lparr>obj := fst r, console := console w @ snd r\<rparr>"

definition set_assets :: "'m world \<Rightarrow> vec3 \<times> asset_manager \<Rightarrow> 'm world" where
  "set_assets w r = w\<lparr>assets := snd r\<rparr>"

fun api_step :: "'m engine \<Rightarrow> api_call \<Rightarrow> 'm world \<Rightarrow> 'm world result" where
  "api_step eng (Update dt) w = map_sum id (set_obj w) (update eng (assets w) dt (obj w))"
| "api_step eng ToggleAnimationPause w = Inr (set_obj w (toggle_animation_pause (obj w)))"
| "api_step eng (PlayAndLoopAnimation n sp) w =
     map_sum id (set_obj_printed w) (play_and_loop_animation (assets w) n sp (obj w))"
| "api_step eng PauseAnimation w = Inr (set_obj w (pause_animation (obj w)))"
| "api_step eng EnableMotionBlur w = Inr (set_obj w (enable_motion_blur (obj w)))"
| "api_step eng DisableMotionBlur w = Inr (set_obj w (disable_motion_blur (obj w)))"
| "api_step eng (SetMeshMaterial mn matn) w =
     map_sum id (set_obj w) (set_mesh_material (assets w) mn matn (obj w))"
| "api_step eng (SetMeshMaterialByIndex i matn) w =
     Inr (set_obj w (set_mesh_material_by_index (assets w) i matn (obj w)))"
| "api_step eng (SetMaterial matn) w = map_sum id (set_obj w) (set_material (assets w) matn (obj w))"
| "api_step eng (PlayAnimation n sp) w =
     map_sum id (set_obj_printed w) (play_animation (assets w) n sp (obj w))"
| "api_step eng (SetName n) w = Inr (set_obj w (set_name n (obj w)))"
| "api_step eng (SetSkinnedModel n) w = Inr (set_obj_printed w (set_skinned_model (assets w) n (obj w)))"
| "api_step eng (SetScale x) w = Inr (set_obj w (set_scale x (obj w)))"
| "api_step eng (SetPosition v) w = Inr (set_obj w (set_position v (obj w)))"
| "api_step eng (SetRotationX x) w = Inr (set_obj w (set_rotation_x x (obj w)))"
| "api_step eng (SetRotationY x) w = Inr (set_obj w (set_rotation_y x (obj w)))"
| "api_step eng (SetRotationZ x) w = Inr (set_obj w (set_rotation_z x (obj w)))"
| "api_step eng GetGlockBarrelPosition w =
     map_sum id (set_assets w) (get_glock_barrel_position eng (assets w) (obj w))"
| "api_step eng GetAKS74UBarrelPosition w =
     map_sum id (set_assets w) (get_aks74u_barrel_position eng (assets w) (obj w))"
| "api_step eng GetShotgunBarrelPosition w =
     map_sum id (set_assets w) (get_shotgun_barrel_position eng (assets w) (obj w))"

text \<open>A sequence of calls, stopping at the first undefined behaviour.\<close>

fun api_run :: "'m engine \<Rightarrow> api_call list \<Rightarrow> 'm world \<Rightarrow> 'm world result" where
  "api_run eng [] w = Inr w"
| "api_run eng (c # cs) w = (case api_step eng c w of Inl e \<Rightarrow> Inl e | Inr w' \<Rightarrow> api_run eng cs w')"

inductive reachable :: "'m engine \<Rightarrow> 'm world \<Rightarrow> bool" for eng where
  init: "fresh_object s \<Longrightarrow> reachable eng \<lparr>assets = am, obj = s, console = []\<rparr>"
| step: "reachable eng w \<Longrightarrow> api_step eng c w = Inr w' \<Longrightarrow> reachable eng w'"

text \<open>The world of a newly constructed object beside the demo assets.\<close>

definition demo_world :: "float world" where
  "demo_world = \<lparr>assets = demo_assets,
     obj = demo_object\<lparr>skinned_model := None, material_indices := []\<rparr>, console = []\<rparr>"

text \<open>The calls that cannot reach undefined behaviour from a reachable world:
  all but \<open>PlayAnimation\<close> (no model check) and the barrel queries (no bounds
  check on the pose).\<close>

fun guarded_call :: "api_call \<Rightarrow> bool" where
  "guarded_call (PlayAnimation _ _) = False"
| "guarded_call GetGlockBarrelPosition = False"
| "guarded_call GetAKS74UBarrelPosition = False"
| "guarded_call GetShotgunBarrelPosition = False"
| "guarded_call _ = True"

text \<open>Two asset tables with the same models up to their bone tables.\<close>

definition same_meshes :: "asset_manager \<Rightarrow> asset_manager \<Rightarrow> bool" where
  "same_meshes am am' \<longleftrightarrow>
     length (skinned_models am') = length (skinned_models am) \<and>
     (\<forall>q < length (skinned_models am).
        mesh_entries (skinned_models am' ! q) = mesh_entries (skinned_models am ! q) \<and>
        model_filename (skinned_models am' ! q) = model_filename (skinned_models am ! q) \<and>
        animations (skinned_models am' ! q) = animations (skinned_models am ! q))"

definition obj_inv :: "asset_manager \<Rightarrow> 'm animated_game_object \<Rightarrow> bool" where
  "obj_inv am s \<longleftrightarrow>
     (case skinned_model s of
        None \<Rightarrow> current_animation s = None \<and> material_indices s = []
      | Some p \<Rightarrow> p < length (skinned_models am) \<and>
                  length (material_indices s) = length (mesh_entries (skinned_models am ! p))) \<and>
     (animation_is_complete s \<longrightarrow> \<not> loop_animation s \<and> current_animation s \<noteq> None) \<and>
     (\<forall>a. current_animation s = Some a \<longrightarrow>
          \<not> current_animation_time s > clip_duration a \<or> current_animation_time s = 0)"

text \<open>The playback part of the object (clip, clock and flags), and the calls
  that may change it.\<close>

definition playback_fields ::
  "'m animated_game_object \<Rightarrow> animation option \<times> float \<times> float \<times> float \<times> bool \<times> bool \<times> bool" where
  "playback_fields s = (current_animation s, current_animation_time s, current_animation_time_previous s,
     animation_speed s, animation_paused s, loop_animation s, animation_is_complete s)"

fun playback_call :: "api_call \<Rightarrow> bool" where
  "playback_call (Update _) = True"
| "playback_call ToggleAnimationPause = True"
| "playback_call (PlayAndLoopAnimation _ _) = True"
| "playback_call PauseAnimation = True"
| "playback_call (PlayAnimation _ _) = True"
| "playback_call _ = False"

subsection \<open>Each operation keeps the invariant\<close>

lemma obj_inv_same_meshes:
  "same_meshes am am' \<Longrightarrow> obj_inv am' s = obj_inv am s"
  by (auto simp: obj_inv_def same_meshes_def split: option.splits)

lemma same_meshes_refl [simp]: "same_meshes am am"
  by (simp add: same_meshes_def)

lemma same_meshes_store_bones:
  "p < length (skinned_models am) \<Longrightarrow>
   same_meshes am (store_model am p ((skinned_models am ! p)\<lparr>bone_mapping := b\<rparr>))"
  by (auto simp: same_meshes_def store_model_def nth_list_update)

lemma barrel_position_same_meshes:
  "barrel_position eng am s bone off = Inr (v, am') \<Longrightarrow> same_meshes am am'"
  by (auto simp: barrel_position_def object_model_Inr_iff same_meshes_store_bones Let_def
      split: sum.splits option.splits prod.splits)

lemma barrel_queries_same_meshes:
  "get_glock_barrel_position eng am s = Inr (v, am') \<Longrightarrow> same_meshes am am'"
  "get_aks74u_barrel_position eng am s = Inr (v, am') \<Longrightarrow> same_meshes am am'"
  "get_shotgun_barrel_position eng am s = Inr (v, am') \<Longrightarrow> same_meshes am am'"
  by (auto simp: get_glock_barrel_position_def get_aks74u_barrel_position_def
      get_shotgun_barrel_position_def dest: barrel_position_same_meshes split: if_splits)

lemma obj_inv_frame:
  "obj_inv am (toggle_animation_pause s) = obj_inv am s"
  "obj_inv am (pause_animation s) = obj_inv am s"
  "obj_inv am (enable_motion_blur s) = obj_inv am s"
  "obj_inv am (disable_motion_blur s) = obj_inv am s"
  "obj_inv am (set_name n s) = obj_inv am s"
  "obj_inv am (set_scale x s) = obj_inv am s"
  "obj_inv am (set_position v s) = obj_inv am s"
  "obj_inv am (set_rotation_x x s) = obj_inv am s"
  "obj_inv am (set_rotation_y x s) = obj_inv am s"
  "obj_inv am (set_rotation_z x s) = obj_inv am s"
  by (simp_all add: obj_inv_def op_defs split: option.splits)

lemma obj_inv_play_and_loop:
  "play_and_loop_animation am n sp s = Inr (s', out) \<Longrightarrow> obj_inv am s \<Longrightarrow> obj_inv am s'"
  by (auto simp: play_and_loop_animation_def obj_inv_def Let_def
      split: option.splits if_splits)

lemma obj_inv_play:
  "play_animation am n sp s = Inr (s', out) \<Longrightarrow> obj_inv am s \<Longrightarrow> obj_inv am s'"
  by (auto simp: play_animation_def obj_inv_def object_model_def
      split: option.splits sum.splits)

lemma obj_inv_update_animation:
  "update_animation dt s = Inr s' \<Longrightarrow> obj_inv am s \<Longrightarrow> obj_inv am s'"
  by (auto simp: update_animation_Inr_iff obj_inv_def split: option.splits)

lemma obj_inv_calculate_bone_transforms:
  "calculate_bone_transforms eng am s = Inr s' \<Longrightarrow> obj_inv am s \<Longrightarrow> obj_inv am s'"
  by (auto simp: calculate_bone_transforms_Inr_iff obj_inv_def split: option.splits)

lemma obj_inv_update:
  "update eng am dt s = Inr s' \<Longrightarrow> obj_inv am s \<Longrightarrow> obj_inv am s'"
  by (auto simp: update_def split: if_splits sum.splits
      dest: obj_inv_update_animation obj_inv_calculate_bone_transforms)

lemma set_mesh_material_from_length:
  "set_mesh_material_from am meshes nm matn i mats = Inr mats' \<Longrightarrow> length mats' = length mats"
proof (induction am meshes nm matn i mats rule: set_mesh_material_from.induct)
  case (1 am meshes nm matn i mats)
  then show ?case
    by (auto simp: set_mesh_material_from.simps [of am meshes nm matn i mats] split: if_splits)
qed

lemma set_material_from_length:
  "set_material_from am meshes matn i mats = Inr mats' \<Longrightarrow> length mats' = length mats"
proof (induction am meshes matn i mats rule: set_material_from.induct)
  case (1 am meshes matn i mats)
  then show ?case
    by (auto simp: set_material_from.simps [of am meshes matn i mats] split: if_splits)
qed

lemma obj_inv_materials:
  "set_mesh_material am mn matn s = Inr s' \<Longrightarrow> obj_inv am s \<Longrightarrow> obj_inv am s'"
  "set_material am matn s = Inr s' \<Longrightarrow> obj_inv am s \<Longrightarrow> obj_inv am s'"
  "obj_inv am s \<Longrightarrow> obj_inv am (set_mesh_material_by_index am i matn s)"
  by (auto simp: set_mesh_material_def set_material_def set_mesh_material_by_index_def obj_inv_def
      dest!: set_mesh_material_from_length set_material_from_length
      split: if_splits sum.splits option.splits)

lemma obj_inv_set_skinned_model:
  "obj_inv am s \<Longrightarrow> obj_inv am (fst (set_skinned_model am n s))"
  by (auto simp: set_skinned_model_def obj_inv_def dest: get_skinned_model_valid
      split: option.splits)

text \<open>The summary: every call that returns keeps the invariant.\<close>

lemma api_step_obj_inv:
  assumes "api_step eng c w = Inr w'" and "obj_inv (assets w) (obj w)"
  shows "obj_inv (assets w') (obj w')"
proof (cases c)
  case (Update dt)
  with assms show ?thesis by (auto simp: set_obj_def intro: obj_inv_update)
next
  case (PlayAndLoopAnimation n sp)
  with assms show ?thesis by (auto simp: set_obj_printed_def intro: obj_inv_play_and_loop)
next
  case (PlayAnimation n sp)
  with assms show ?thesis by (auto simp: set_obj_printed_def intro: obj_inv_play)
next
  case (SetMeshMaterial mn matn)
  with assms show ?thesis by (auto simp: set_obj_def intro: obj_inv_materials(1))
next
  case (SetMaterial matn)
  with assms show ?thesis by (auto simp: set_obj_def intro: obj_inv_materials(2))
next
  case (SetMeshMaterialByIndex i matn)
  with assms show ?thesis by (auto simp: set_obj_def intro: obj_inv_materials(3))
next
  case (SetSkinnedModel n)
  with assms show ?thesis by (auto simp: set_obj_printed_def intro: obj_inv_set_skinned_model)
next
  case GetGlockBarrelPosition
  with assms show ?thesis
    by (auto simp: set_assets_def obj_inv_same_meshes dest!: barrel_queries_same_meshes(1))
next
  case GetAKS74UBarrelPosition
  with assms show ?thesis
    by (auto simp: set_assets_def obj_inv_same_meshes dest!: barrel_queries_same_meshes(2))
next
  case GetShotgunBarrelPosition
  with assms show ?thesis
    by (auto simp: set_assets_def obj_inv_same_meshes dest!: barrel_queries_same_meshes(3))
qed (use assms in \<open>auto simp: set_obj_def obj_inv_frame\<close>)

lemma obj_inv_fresh: "fresh_object s \<Longrightarrow> obj_inv am s"
  by (simp add: fresh_object_def obj_inv_def)

lemma reachable_obj_inv: "reachable eng w \<Longrightarrow> obj_inv (assets w) (obj w)"
proof (induction rule: reachable.induct)
  case (init s am)
  then show ?case by (simp add: obj_inv_fresh)
next
  case (step w c w')
  from step.hyps(2) step.IH show ?case by (rule api_step_obj_inv)
qed

subsection \<open>Guarded calls return\<close>

lemma obj_inv_clip_model:
  "obj_inv am s \<Longrightarrow> current_animation s = Some a \<Longrightarrow> \<exists>m. object_model am s = Inr m"
  by (auto simp: obj_inv_def split: option.splits)

lemma object_model_tick [simp]:
  "object_model am (end_of_clip d (advance_animation_time dt s)) = object_model am s"
  by (simp add: object_model_def)

lemma obj_inv_update_returns:
  assumes "obj_inv am s" shows "\<exists>s'. update eng am dt s = Inr s'"
proof (cases "current_animation s")
  case None
  then show ?thesis by (simp add: update_def)
next
  case (Some a)
  with assms obtain m where "object_model am s = Inr m" by (blast dest: obj_inv_clip_model)
  with Some show ?thesis
    by (simp add: update_def update_animation_Some calculate_bone_transforms_Some)
qed

lemma obj_inv_materials_return:
  assumes "obj_inv am s"
  shows "\<exists>s'. set_mesh_material am mn matn s = Inr s'" and "\<exists>s'. set_material am matn s = Inr s'"
  using assms
  by (auto simp: set_mesh_material_def set_material_def obj_inv_def set_mesh_material_from_table
      set_material_from_table split: option.splits)

lemma obj_inv_play_and_loop_returns:
  "obj_inv am s \<Longrightarrow> \<exists>r. play_and_loop_animation am n sp s = Inr r"
  by (auto simp: play_and_loop_animation_def obj_inv_def Let_def split: option.splits)

lemma guarded_call_returns:
  assumes "obj_inv (assets w) (obj w)" and "guarded_call c"
  shows "\<exists>w'. api_step eng c w = Inr w'"
proof (cases c)
  case (Update dt)
  with obj_inv_update_returns [OF assms(1)] show ?thesis by fastforce
next
  case (PlayAndLoopAnimation n sp)
  with obj_inv_play_and_loop_returns [OF assms(1)] show ?thesis by fastforce
next
  case (SetMeshMaterial mn matn)
  with obj_inv_materials_return(1) [OF assms(1)] show ?thesis by fastforce
next
  case (SetMaterial matn)
  with obj_inv_materials_return(2) [OF assms(1)] show ?thesis by fastforce
qed (use assms(2) in simp_all)

text \<open>A property that every call with a side condition keeps holds along every
  run whose calls all meet it.\<close>

lemma api_run_invariant:
  assumes step: "\<And>c w w'. api_step eng c w = Inr w' \<Longrightarrow> P c \<Longrightarrow> Q w \<Longrightarrow> Q w'"
  shows "api_run eng cs w = Inr w' \<Longrightarrow> list_all P cs \<Longrightarrow> Q w \<Longrightarrow> Q w'"
proof (induction cs arbitrary: w)
  case Nil
  then show ?case by simp
next
  case (Cons c cs)
  from Cons.prems(1) obtain w1 where s: "api_step eng c w = Inr w1" and r: "api_run eng cs w1 = Inr w'"
    by (auto split: sum.splits)
  from Cons.prems(2) have "P c" "list_all P cs" by simp_all
  with step [OF s _ Cons.prems(3)] Cons.IH [OF r] show ?case by blast
qed

lemma reachable_api_run:
  "reachable eng w \<Longrightarrow> api_run eng cs w = Inr w' \<Longrightarrow> reachable eng w'"
  using api_run_invariant [of eng "\<lambda>_. True" "reachable eng" cs w w'] reachable.step
  by (simp add: list_all_iff) blast

lemma reachable_demo_world: "reachable eng demo_world"
  unfolding demo_world_def by (rule reachable.init) (simp add: fresh_object_def demo_object_def)

text \<open>The unfoldings that evaluate a run of calls on the demo world.\<close>

lemmas demo_eval = demo_world_def set_obj_def set_obj_printed_def set_assets_def op_defs
  get_skinned_model_def demo_defs demo_engine_def find_animation_from.simps vector_resize_def update_animation_Some
  calculate_bone_transforms_Some current_pose_time_def clip_duration_def object_model_def
  deref_model_def vector_at_def advance_animation_time_def end_of_clip_def Let_def

subsection \<open>Runs of frame updates\<close>

lemma update_clock:
  assumes "update eng am dt s = Inr s'" and "current_animation s = Some a"
  shows "current_animation s' = Some a \<and> loop_animation s' = loop_animation s \<and>
    animation_speed s' = animation_speed s \<and>
    current_animation_time s' = current_animation_time (end_of_clip (clip_duration a) (advance_animation_time dt s)) \<and>
    animation_paused s' = animation_paused (end_of_clip (clip_duration a) (advance_animation_time dt s)) \<and>
    animation_is_complete s' = animation_is_complete (end_of_clip (clip_duration a) (advance_animation_time dt s)) \<and>
    current_animation_time_previous s' =
      current_animation_time_previous (end_of_clip (clip_duration a) (advance_animation_time dt s))"
  using assms by (auto simp: update_def update_animation_Some calculate_bone_transforms_Inr_iff)

lemma api_step_update:
  "api_step eng (Update dt) w = Inr w' \<longleftrightarrow>
     (\<exists>s'. update eng (assets w) dt (obj w) = Inr s' \<and> w' = w\<lparr>obj := s'\<rparr>)"
  by (auto simp: set_obj_def)

lemma api_run_Suc_updates:
  "api_step eng (Update dt) w = Inr w1 \<Longrightarrow>
   api_run eng (replicate (Suc n) (Update dt)) w = api_run eng (replicate n (Update dt)) w1"
  by (simp del: api_step.simps)

text \<open>A paused clip whose clock is within the clip stays frozen: any number of
  frames return from an invariant world and change neither the clock nor the
  flags.\<close>

lemma run_updates_paused:
  assumes "obj_inv (assets w) (obj w)" and "current_animation (obj w) = Some a"
    and "animation_paused (obj w)" and "\<not> current_animation_time (obj w) > clip_duration a"
  shows "\<exists>w'. api_run eng (replicate n (Update dt)) w = Inr w' \<and> current_animation (obj w') = Some a \<and>
    animation_paused (obj w') \<and> current_animation_time (obj w') = current_animation_time (obj w) \<and>
    animation_is_complete (obj w') = animation_is_complete (obj w) \<and>
    loop_animation (obj w') = loop_animation (obj w)"
  using assms
proof (induction n arbitrary: w)
  case 0
  then show ?case by simp
next
  case (Suc n)
  obtain w1 where s1: "api_step eng (Update dt) w = Inr w1"
    using guarded_call_returns [OF Suc.prems(1), where c = "Update dt" and eng = eng] by auto
  then obtain s' where u: "update eng (assets w) dt (obj w) = Inr s'" and w1: "w1 = w\<lparr>obj := s'\<rparr>"
    by (auto simp: api_step_update set_obj_def)
  have inv1: "obj_inv (assets w1) (obj w1)" using s1 Suc.prems(1) by (rule api_step_obj_inv)
  from update_clock [OF u Suc.prems(2)] Suc.prems(3,4) have
    "current_animation (obj w1) = Some a" "animation_paused (obj w1)"
    "current_animation_time (obj w1) = current_animation_time (obj w)"
    "animation_is_complete (obj w1) = animation_is_complete (obj w)"
    "loop_animation (obj w1) = loop_animation (obj w)"
    by (simp_all add: w1)
  with Suc.IH [OF inv1] Suc.prems(4) show ?case unfolding api_run_Suc_updates [OF s1] by auto
qed

text \<open>When every clock value in some set \<open>P\<close> is within the clip and the set is
  closed under one frame's advance, a clip that is not complete never becomes
  complete, however many frames run.\<close>

lemma run_updates_never_complete:
  assumes "obj_inv (assets w) (obj w)" and "current_animation (obj w) = Some a"
    and "\<not> animation_is_complete (obj w)" and "P (current_animation_time (obj w))"
    and within: "\<And>\<tau>. P \<tau> \<Longrightarrow> \<not> \<tau> > clip_duration a"
    and closed: "\<And>\<tau>. P \<tau> \<Longrightarrow> P (\<tau> + dt * animation_speed (obj w))"
  shows "\<exists>w'. api_run eng (replicate n (Update dt)) w = Inr w' \<and> \<not> animation_is_complete (obj w')"
  using assms(1-4) closed
proof (induction n arbitrary: w)
  case 0
  then show ?case by simp
next
  case (Suc n)
  obtain w1 where s1: "api_step eng (Update dt) w = Inr w1"
    using guarded_call_returns [OF Suc.prems(1), where c = "Update dt" and eng = eng] by auto
  then obtain s' where u: "update eng (assets w) dt (obj w) = Inr s'" and w1: "w1 = w\<lparr>obj := s'\<rparr>"
    by (auto simp: api_step_update set_obj_def)
  have inv1: "obj_inv (assets w1) (obj w1)" using s1 Suc.prems(1) by (rule api_step_obj_inv)
  note clk = update_clock [OF u Suc.prems(2)]
  have P1: "P (current_animation_time s')"
    using clk Suc.prems(4) Suc.prems(5) within by auto
  have "\<not> animation_is_complete s'"
    using clk Suc.prems(3,4) Suc.prems(5) within by auto
  moreover have "\<And>\<tau>. P \<tau> \<Longrightarrow> P (\<tau> + dt * animation_speed s')"
    using clk Suc.prems(5) by simp
  ultimately obtain w' where "api_run eng (replicate n (Update dt)) w1 = Inr w'"
    "\<not> animation_is_complete (obj w')"
    using Suc.IH [OF inv1] clk P1 by (auto simp: w1)
  then show ?case unfolding api_run_Suc_updates [OF s1] by blast
qed

subsection \<open>Errors of the unguarded calls\<close>

text \<open>Under the invariant the model pointer is never dangling: dereferencing the
  model fails only when there is none.\<close>

lemma obj_inv_object_model_Inl:
  "obj_inv am s \<Longrightarrow> object_model am s = Inl e \<Longrightarrow> e = NullSkinnedModel \<and> skinned_model s = None"
  by (auto simp: obj_inv_def object_model_def deref_model_def vector_at_def split: option.splits if_splits)

text \<open>With a model, the only failure of the barrel body is the pose read.\<close>

lemma barrel_position_Inl:
  assumes o: "object_model am s = Inr m" and r: "barrel_position eng am s bone off = Inl e"
  shows "e = VectorIndexOutOfRange"
proof -
  from o obtain p where p: "skinned_model s = Some p" by (blast dest: object_model_Inr_ptr)
  obtain i b' where b: "map_subscript (bone_mapping m) bone = (i, b')" by (cases "map_subscript (bone_mapping m) bone")
  from o have mm: "get_model_matrix eng am s = Inr (mat_mul eng (to_mat4 eng (obj_transform s))
      (to_mat4 eng (model_correction (model_filename m))))"
    by (simp add: get_model_matrix_def)
  from r barrel_position_read [OF o p b mm, of off] show ?thesis by (simp split: option.splits)
qed

lemma barrel_query_Inl:
  assumes "obj_inv am s" and "barrel_position eng am s bone off = Inl e"
  shows "e = NullSkinnedModel \<and> skinned_model s = None \<or> e = VectorIndexOutOfRange"
proof (cases "object_model am s")
  case (Inl e')
  with assms show ?thesis
    by (auto simp: barrel_position_def dest: obj_inv_object_model_Inl)
next
  case (Inr m)
  with assms(2) show ?thesis by (blast dest: barrel_position_Inl)
qed

text \<open>Under the invariant a call fails only by a missing model (\<open>PlayAnimation\<close>
  or a barrel query) or by a barrel query reading past the pose.\<close>

lemma obj_inv_call_errors:
  assumes inv: "obj_inv (assets w) (obj w)" and r: "api_step eng c w = Inl e"
  shows "e = NullSkinnedModel \<and> skinned_model (obj w) = None \<or>
    e = VectorIndexOutOfRange \<and> c \<in> {GetGlockBarrelPosition, GetAKS74UBarrelPosition, GetShotgunBarrelPosition}"
proof (cases "guarded_call c")
  case True
  with guarded_call_returns [OF inv True, of eng] r show ?thesis by auto
next
  case False
  then consider n sp where "c = PlayAnimation n sp" | "c = GetGlockBarrelPosition"
    | "c = GetAKS74UBarrelPosition" | "c = GetShotgunBarrelPosition"
    by (cases c) auto
  then show ?thesis
  proof cases
    case 1
    with r inv show ?thesis
      by (auto simp: play_animation_def dest: obj_inv_object_model_Inl split: sum.splits option.splits)
  next
    case 2
    with r inv show ?thesis
      by (auto simp: get_glock_barrel_position_def dest: barrel_query_Inl split: if_splits)
  next
    case 3
    with r inv show ?thesis
      by (auto simp: get_aks74u_barrel_position_def dest: barrel_query_Inl split: if_splits)
  next
    case 4
    with r inv show ?thesis
      by (auto simp: get_shotgun_barrel_position_def dest: barrel_query_Inl split: if_splits)
  qed
qed

subsection \<open>Calls outside playback\<close>

text \<open>The material, model, placement and query calls leave the clip, the clock
  and the playback flags as they were.\<close>

lemma materials_playback_frame:
  "set_mesh_material am mn matn s = Inr s' \<Longrightarrow> playback_fields s' = playback_fields s"
  "set_material am matn s = Inr s' \<Longrightarrow> playback_fields s' = playback_fields s"
  "playback_fields (fst (set_skinned_model am n s)) = playback_fields s"
  "playback_fields (set_mesh_material_by_index am i matn s) = playback_fields s"
  by (auto simp: set_mesh_material_def set_material_def set_skinned_model_def
      set_mesh_material_by_index_def playback_fields_def split: if_splits sum.splits option.splits)

lemma api_step_playback_frame:
  assumes "api_step eng c w = Inr w'" and "\<not> playback_call c"
  shows "playback_fields (obj w') = playback_fields (obj w)"
proof (cases c)
  case (SetMeshMaterial mn matn)
  with assms show ?thesis by (auto simp: set_obj_def materials_playback_frame(1))
next
  case (SetMaterial matn)
  with assms show ?thesis by (auto simp: set_obj_def materials_playback_frame(2))
next
  case (SetSkinnedModel n)
  with assms show ?thesis by (auto simp: set_obj_printed_def materials_playback_frame(3))
next
  case (SetMeshMaterialByIndex i matn)
  with assms show ?thesis by (auto simp: set_obj_def materials_playback_frame(4))
next
  case GetGlockBarrelPosition
  with assms show ?thesis by (auto simp: set_assets_def)
next
  case GetAKS74UBarrelPosition
  with assms show ?thesis by (auto simp: set_assets_def)
next
  case GetShotgunBarrelPosition
  with assms show ?thesis by (auto simp: set_assets_def)
next
  case EnableMotionBlur
  with assms show ?thesis by (auto simp: set_obj_def playback_fields_def enable_motion_blur_def)
next
  case DisableMotionBlur
  with assms show ?thesis by (auto simp: set_obj_def playback_fields_def disable_motion_blur_def)
next
  case (SetName n)
  with assms show ?thesis by (auto simp: set_obj_def playback_fields_def set_name_def)
next
  case (SetScale x)
  with assms show ?thesis by (auto simp: set_obj_def playback_fields_def set_scale_def)
next
  case (SetPosition v)
  with assms show ?thesis by (auto simp: set_obj_def playback_fields_def set_position_def)
next
  case (SetRotationX x)
  with assms show ?thesis by (auto simp: set_obj_def playback_fields_def set_rotation_x_def)
next
  case (SetRotationY x)
  with assms show ?thesis by (auto simp: set_obj_def playback_fields_def set_rotation_y_def)
next
  case (SetRotationZ x)
  with assms show ?thesis by (auto simp: set_obj_def playback_fields_def set_rotation_z_def)
qed (use assms in simp_all)

end
