(* ===== verification/Playback_Spec.thy ===== *)
theory Playback_Spec
  imports Object_API
begin

text \<open>
  The playback state machine of spec section 4.1 as an abstract specification,
  and the refinement of it by the object's calls. An abstract state is one of
  \<open>NoClip\<close>, \<open>Playing\<close>, \<open>Paused\<close> and \<open>Completed\<close> (which implies paused)
  together with the looping flag. The abstract operations are the spec's
  \<open>PlayOnce\<close>, \<open>PlayLooping\<close>, \<open>Pause\<close>, \<open>TogglePause\<close> and \<open>Tick\<close>, every
  other call being \<open>Other\<close>; each carries what the spec's transitions branch
  on: whether the clip was found, whether it is the current clip, and
  whether the tick carried the clock past the clip's length. With these the
  machine is deterministic, a partial function \<open>spec_next\<close> that is undefined
  only for \<open>TogglePause\<close> in \<open>Completed\<close> (where the code leaves the spec's
  states, see the finding on \<open>ToggleAnimationPause\<close>). The refinement is
  proved for one call and then lifted to runs: the object's abstract state
  after a run is exactly the state the machine computes from the run's
  abstract operations.
\<close>

subsection \<open>The abstract machine\<close>

datatype play_state = NoClip | Playing | Paused | Completed

type_synonym spec_st = "play_state \<times> bool"

text \<open>\<open>SPlayOnce found\<close>; \<open>SPlayLooping None\<close> when the clip is not found and
  \<open>SPlayLooping (Some same)\<close> when it is, \<open>same\<close> telling whether it is the
  current clip; \<open>STick overrun\<close>, \<open>overrun\<close> telling whether the advanced clock
  is past the clip's length.\<close>

datatype spec_op = SPlayOnce bool | SPlayLooping "bool option" | SPause | SToggle | STick bool | SOther

fun spec_next :: "spec_st \<Rightarrow> spec_op \<Rightarrow> spec_st option" where
  "spec_next (q, l) (SPlayOnce found) = Some (if found then (Playing, False) else (q, l))"
| "spec_next (q, l) (SPlayLooping None) = Some (q, l)"
| "spec_next (q, l) (SPlayLooping (Some same)) =
     Some (if \<not> same then (Playing, True) else if q = Completed then (Paused, True) else (q, True))"
| "spec_next (q, l) SPause = Some (if q = Playing then (Paused, l) else (q, l))"
| "spec_next (q, l) SToggle =
     (case q of Playing \<Rightarrow> Some (Paused, l) | Paused \<Rightarrow> Some (Playing, l)
      | NoClip \<Rightarrow> Some (NoClip, l) | Completed \<Rightarrow> None)"
| "spec_next (q, l) (STick overrun) =
     Some (if q \<in> {Playing, Paused} \<and> overrun \<and> \<not> l then (Completed, False) else (q, l))"
| "spec_next (q, l) SOther = Some (q, l)"

fun spec_run :: "spec_st \<Rightarrow> spec_op list \<Rightarrow> spec_st option" where
  "spec_run q [] = Some q"
| "spec_run q (x # xs) = Option.bind (spec_next q x) (\<lambda>q'. spec_run q' xs)"

subsection \<open>Abstraction of the object\<close>

text \<open>The spec state an object is in; \<open>None\<close> for a complete clip that runs,
  which the spec's states do not include.\<close>

definition spec_state :: "'m animated_game_object \<Rightarrow> spec_st option" where
  "spec_state s =
     map_option (\<lambda>q. (q, loop_animation s))
       (if current_animation s = None then Some NoClip
        else if animation_is_complete s then (if animation_paused s then Some Completed else None)
        else if animation_paused s then Some Paused else Some Playing)"

text \<open>What a play call finds: nothing without a model or a clip of that name,
  otherwise whether the clip found is the current one.\<close>

definition clip_match :: "asset_manager \<Rightarrow> string \<Rightarrow> 'm animated_game_object \<Rightarrow> bool option" where
  "clip_match am n s =
     (case object_model am s of
        Inl _ \<Rightarrow> None
      | Inr m \<Rightarrow> map_option (\<lambda>a. current_animation s = Some a) (lookup_clip m n))"

definition tick_overruns :: "float \<Rightarrow> 'm animated_game_object \<Rightarrow> bool" where
  "tick_overruns dt s =
     (case current_animation s of
        None \<Rightarrow> False
      | Some a \<Rightarrow> current_animation_time (advance_animation_time dt s) > clip_duration a)"

fun spec_op_of :: "'m world \<Rightarrow> api_call \<Rightarrow> spec_op" where
  "spec_op_of w (Update dt) = STick (tick_overruns dt (obj w))"
| "spec_op_of w ToggleAnimationPause = SToggle"
| "spec_op_of w (PlayAndLoopAnimation n _) = SPlayLooping (clip_match (assets w) n (obj w))"
| "spec_op_of w PauseAnimation = SPause"
| "spec_op_of w (PlayAnimation n _) = SPlayOnce (clip_match (assets w) n (obj w) \<noteq> None)"
| "spec_op_of w _ = SOther"

text \<open>The abstract operations of a run of calls, each read in the world the
  call is made in.\<close>

fun run_ops :: "'m engine \<Rightarrow> api_call list \<Rightarrow> 'm world \<Rightarrow> spec_op list" where
  "run_ops eng [] w = []"
| "run_ops eng (c # cs) w =
     spec_op_of w c # (case api_step eng c w of Inl _ \<Rightarrow> [] | Inr w' \<Rightarrow> run_ops eng cs w')"

subsection \<open>Each operation refines a step of the machine\<close>

lemma spec_state_fields:
  "playback_fields s' = playback_fields s \<Longrightarrow> spec_state s' = spec_state s"
  by (simp add: playback_fields_def spec_state_def)

lemma spec_op_of_other: "\<not> playback_call c \<Longrightarrow> spec_op_of w c = SOther"
  by (cases c) simp_all

text \<open>A frame: with no clip nothing changes; with a clip the flags change as
  \<open>end_of_clip\<close> says, which is the machine's \<open>Tick\<close> with the overrun read
  from the advanced clock.\<close>

lemma spec_tick:
  assumes u: "update eng am dt s = Inr s'" and q: "spec_state s = Some q"
    and n: "spec_next q (STick (tick_overruns dt s)) = Some q'"
  shows "spec_state s' = Some q'"
proof (cases "current_animation s")
  case None
  with u q n show ?thesis by (cases q) (simp add: update_def tick_overruns_def)
next
  case (Some a)
  note clk = update_clock [OF u Some]
  from q n clk Some show ?thesis
    by (auto simp: spec_state_def tick_overruns_def advance_animation_time_def split: if_splits)
qed

text \<open>\<open>PlayAnimation\<close> starts a found clip, playing and not looping, and
  leaves the object alone otherwise.\<close>

lemma spec_play_once:
  assumes r: "play_animation am n sp s = Inr (s', out)" and q: "spec_state s = Some q"
    and x: "spec_next q (SPlayOnce (clip_match am n s \<noteq> None)) = Some q'"
  shows "spec_state s' = Some q'"
proof (cases "object_model am s")
  case (Inl e)
  with r show ?thesis by (simp add: play_animation_def)
next
  case (Inr m)
  show ?thesis
  proof (cases "lookup_clip m n")
    case None
    with Inr r q x show ?thesis by (cases q) (simp add: play_animation_lookup clip_match_def)
  next
    case (Some a)
    with Inr r q x show ?thesis
      by (cases q) (auto simp: play_animation_lookup clip_match_def spec_state_def)
  qed
qed

text \<open>\<open>PlayAndLoopAnimation\<close> leaves the object alone, starts a new clip, or
  keeps the current clip's pause and clears completion; in the last two cases
  the clip loops.\<close>

lemma spec_play_looping:
  assumes r: "play_and_loop_animation am n sp s = Inr (s', out)" and q: "spec_state s = Some q"
    and x: "spec_next q (SPlayLooping (clip_match am n s)) = Some q'"
  shows "spec_state s' = Some q'"
proof (cases "object_model am s")
  case (Inl e)
  with r have "s' = s"
    by (auto simp: play_and_loop_animation_def object_model_def split: option.splits)
  with Inl q x show ?thesis by (cases q) (simp add: clip_match_def)
next
  case (Inr m)
  show ?thesis
  proof (cases "lookup_clip m n")
    case None
    with Inr r q x show ?thesis by (cases q) (simp add: play_and_loop_animation_lookup clip_match_def)
  next
    case (Some a)
    with Inr r q x show ?thesis
      by (cases q) (auto simp: play_and_loop_animation_lookup clip_match_def spec_state_def Let_def
          split: if_splits)
  qed
qed

lemma spec_pause:
  "spec_state s = Some q \<Longrightarrow> spec_next q SPause = Some q' \<Longrightarrow> spec_state (pause_animation s) = Some q'"
  by (cases q) (auto simp: spec_state_def pause_animation_def split: if_splits)

lemma spec_toggle:
  "spec_state s = Some q \<Longrightarrow> spec_next q SToggle = Some q' \<Longrightarrow>
   spec_state (toggle_animation_pause s) = Some q'"
  by (cases q) (auto simp: spec_state_def toggle_animation_pause_def split: if_splits play_state.splits)

subsection \<open>Refinement\<close>

text \<open>One call: every call that returns moves the object from a spec state to
  the state the machine computes for the call's abstract operation.\<close>

lemma api_step_refines_spec:
  assumes r: "api_step eng c w = Inr w'" and q: "spec_state (obj w) = Some q"
    and x: "spec_next q (spec_op_of w c) = Some q'"
  shows "spec_state (obj w') = Some q'"
proof (cases "playback_call c")
  case False
  from spec_state_fields [OF api_step_playback_frame [OF r False]] q x spec_op_of_other [OF False, of w]
  show ?thesis by (cases q) simp
next
  case True
  show ?thesis
  proof (cases c)
    case (Update dt)
    with r q x show ?thesis by (auto simp: set_obj_def intro: spec_tick)
  next
    case (PlayAndLoopAnimation n sp)
    with r obtain s' out where "play_and_loop_animation (assets w) n sp (obj w) = Inr (s', out)"
      and "obj w' = s'" by (auto simp: set_obj_printed_def)
    with PlayAndLoopAnimation q x show ?thesis using spec_play_looping by fastforce
  next
    case (PlayAnimation n sp)
    with r obtain s' out where "play_animation (assets w) n sp (obj w) = Inr (s', out)"
      and "obj w' = s'" by (auto simp: set_obj_printed_def)
    with PlayAnimation q x show ?thesis using spec_play_once by fastforce
  next
    case PauseAnimation
    with r q x show ?thesis by (auto simp: set_obj_def intro: spec_pause)
  next
    case ToggleAnimationPause
    with r q x show ?thesis by (auto simp: set_obj_def intro: spec_toggle)
  qed (use True in simp_all)
qed

text \<open>C31. Refinement of the playback state machine of spec 4.1 by whole runs:
  for a run of calls from an object in a spec state, whenever the abstract
  machine runs the run's abstract operations to a state (it stops only at a
  pause toggle of a completed clip), the object ends in exactly that state.\<close>

theorem api_run_refines_spec:
  "api_run eng cs w = Inr w' \<Longrightarrow> spec_state (obj w) = Some q \<Longrightarrow>
   spec_run q (run_ops eng cs w) = Some q' \<Longrightarrow> spec_state (obj w') = Some q'"
proof (induction cs arbitrary: w q)
  case Nil
  then show ?case by simp
next
  case (Cons c cs)
  from Cons.prems(1) obtain w1 where s: "api_step eng c w = Inr w1"
    and r: "api_run eng cs w1 = Inr w'" by (auto split: sum.splits)
  from Cons.prems(3) s obtain q1 where x: "spec_next q (spec_op_of w c) = Some q1"
    and n: "spec_run q1 (run_ops eng cs w1) = Some q'" by (auto split: Option.bind_splits)
  from Cons.IH [OF r api_step_refines_spec [OF s Cons.prems(2) x] n] show ?case .
qed

theorem api_run_refines_spec_witness:
  "\<exists>w'. api_run demo_engine [SetSkinnedModel ''Glock'', PlayAnimation ''walk'' (Fin 1),
      Update (Fin 3), PlayAndLoopAnimation ''walk'' (Fin 1), ToggleAnimationPause, Update (Fin 1)]
      demo_world = Inr w' \<and>
    spec_state (obj demo_world) = Some (NoClip, False) \<and>
    spec_run (NoClip, False) (run_ops demo_engine [SetSkinnedModel ''Glock'', PlayAnimation ''walk'' (Fin 1),
      Update (Fin 3), PlayAndLoopAnimation ''walk'' (Fin 1), ToggleAnimationPause, Update (Fin 1)]
      demo_world) = Some (Playing, True) \<and>
    spec_state (obj w') = Some (Playing, True)"
proof -
  let ?cs = "[SetSkinnedModel ''Glock'', PlayAnimation ''walk'' (Fin 1),
      Update (Fin 3), PlayAndLoopAnimation ''walk'' (Fin 1), ToggleAnimationPause, Update (Fin 1)]"
  have "\<exists>w'. api_run demo_engine ?cs demo_world = Inr w'" by (simp add: demo_eval)
  then obtain w' where r: "api_run demo_engine ?cs demo_world = Inr w'" ..
  have q: "spec_state (obj demo_world) = Some (NoClip, False)"
    by (simp add: spec_state_def demo_world_def demo_object_def)
  have n: "spec_run (NoClip, False) (run_ops demo_engine ?cs demo_world) = Some (Playing, True)"
    by (simp add: demo_eval clip_match_def tick_overruns_def lookup_clip_def)
  from api_run_refines_spec [OF r q n] r q n show ?thesis by blast
qed

end
