(* ===== verification/Spec2Isabelle.thy ===== *)
theory Spec2Isabelle
  imports Object_API Playback_Spec
begin

text \<open>
  \<^bold>\<open>A verification model of \<open>src/Rogue/Rogue/src/Core/AnimatedGameObject.cpp\<close>.\<close>

  \<^bold>\<open>The program.\<close> One C++ class, \<open>AnimatedGameObject\<close>: an entity that plays
  skeletal animation clips of a shared \<open>SkinnedModel\<close> asset. Each frame
  \<open>Update\<close> advances a playback clock (\<open>UpdateAnimation\<close>: play, pause, loop
  and completion) and samples the skeleton twice (\<open>CalculateBoneTransforms\<close>:
  a current and a previous pose, for motion blur). The object also places
  itself in the world (\<open>GetModelMatrix\<close>, with a half-turn correction for
  three weapon models), answers barrel-position queries from a named bone of
  the current pose, and keeps a per-mesh material table that
  \<open>SetSkinnedModel\<close> resizes. The asset manager, the skeleton sampler and
  the matrix library are collaborators outside \<open>src/\<close>.

  \<^bold>\<open>Theories.\<close> One per part; each operation is one definition named after
  the member function, in the order of the source.
  \<^item> \<open>Prelude\<close>: the named collections \<open>float_simps\<close> and \<open>op_defs\<close>; the
    standard-library behaviour the source relies on: \<open>std::vector::resize\<close>
    (\<open>vector_resize\<close>), \<open>std::map::operator[]\<close>, which inserts a missing
    key (\<open>map_subscript\<close>), and bounds-checked \<open>std::vector::operator[]\<close>
    (\<open>vector_at\<close>; \<open>vector_at_int\<close> for an \<open>int\<close> subscript, which
    converts to \<open>size_t\<close>, so a negative one lies past the end). It also
    holds the reading of a 32-bit unsigned value stored in an \<open>int\<close>
    (\<open>sint32_unat\<close>: negative from \<open>2^31\<close> on).
  \<^item> \<open>Float_Model\<close>: C++ \<open>float\<close> as \<open>Fin r | PInf | NInf | NaN\<close>, with the
    operators \<open>+ * / < \<le>\<close> as class instances, so definitions read like the
    source. The IEEE special values are kept: a comparison with NaN is false,
    and a non-zero value divided by zero is infinite. Finite values are exact
    reals: rounding, overflow to infinity and the sign of zero are not
    modelled, nor the \<open>double\<close> promotion of \<open>percent / 100.0\<close> in
    \<open>AnimationIsPastPercentage\<close>. The clock claims are stated with the
    source's own float operations: the new time is \<open>t + dt * speed\<close>,
    compared with the clip length. Only the percentage claim C11 states
    its answer in exact reals. The proofs of C32 and C33 reason in exact
    reals, but their conclusion (the clip never completes) also holds with
    binary32 rounding. A sum with \<open>+inf\<close> stays \<open>+inf\<close>, and rounding
    never makes a non-positive step increase the clock. Claims that would
    need exact arithmetic are not made. Two examples: that the clock stays finite
    (binary32 overflows to infinity) and that a once-clip completes after
    finitely many frames (in binary32, once the clock is large enough,
    \<open>t + 0.016 = t\<close>).
  \<^item> \<open>Assets\<close> (modelled from spec section 6, not under \<open>src/\<close>):
    \<open>animation\<close>, \<open>mesh_entry\<close>, \<open>skinned_model\<close> (its bone table maps names
    to 32-bit unsigned indices), \<open>asset_manager\<close> (the model table; a
    \<open>SkinnedModel*\<close> is an index into it, and \<open>deref_model\<close> fails on a
    dangling one), \<open>get_skinned_model\<close>, \<open>get_material_index\<close>,
    \<open>transform\<close>, \<open>vec3\<close>, and the \<open>engine\<close> record. That record holds
    \<open>Transform::to_mat4\<close>, the matrix product, the translation column and
    \<open>SkinnedModel::UpdateBoneTransformsFromAnimation\<close> as uninterpreted
    functions. A theorem that needs a law of them takes the law as a
    hypothesis.
  \<^item> \<open>Game_Object\<close>: the members as the record \<open>animated_game_object\<close>,
    polymorphic in the matrix type. It also holds the \<open>error\<close> datatype of the
    undefined behaviours the code does not guard against (null model, null
    clip, dangling model pointer, vector index out of range),
    \<open>object_model\<close> (the \<open>_skinnedModel->\<close> dereference), \<open>fresh_object\<close>
    (a newly constructed object) and the \<open>demo_*\<close> fixtures the witnesses
    evaluate on.
  \<^item> \<open>Playback\<close> (lines 17-132, 161-163, 203-208): \<open>toggle_animation_pause\<close>,
    \<open>play_and_loop_animation\<close>, \<open>pause_animation\<close>,
    \<open>enable_/disable_motion_blur\<close> and \<open>play_animation\<close>. It also holds
    \<open>update_animation\<close>, split as \<open>clip_duration\<close>, then
    \<open>advance_animation_time\<close>, then \<open>end_of_clip\<close>, and the queries
    \<open>is_animation_complete\<close> and \<open>animation_is_past_percentage\<close>. The clip
    search loop is \<open>find_animation_from\<close>, a \<open>function\<close> with a measure,
    which both play operations use (lines 29-30 and 100-101).
  \<^item> \<open>Pose\<close> (lines 9-15, 134-144): \<open>calculate_bone_transforms\<close> (with
    \<open>current_pose_time\<close>, the motion-blur choice) and \<open>update\<close>.
  \<^item> \<open>Placement\<close> (lines 146-201, 211-259): \<open>model_correction\<close>,
    \<open>get_model_matrix\<close>, the shared barrel body \<open>barrel_position\<close> and the
    three \<open>get_*_barrel_position\<close> queries. A query stores the unsigned bone
    index in \<open>int boneIndex\<close> (\<open>sint\<close>), subscripts the pose with it
    (\<open>vector_at_int\<close>), and writes the bone table back into the shared model
    (\<open>store_model\<close>). The file also holds the name and transform setters.
  \<^item> \<open>Materials\<close> (lines 65-95, 173-182): \<open>set_skinned_model\<close>, the loops
    \<open>set_mesh_material_from\<close> and \<open>set_material_from\<close>, and their callers
    \<open>set_mesh_material\<close>, \<open>set_mesh_material_by_index\<close> and
    \<open>set_material\<close>.
  \<^item> \<open>Object_API\<close>: every state-changing public member function is a
    constructor of \<open>api_call\<close>. \<open>api_step\<close> runs one call on a world, made
    of the asset table, the object and the console lines printed by
    \<open>std::cout\<close>; \<open>api_run\<close> runs a list of calls. \<open>reachable\<close> is the
    set of worlds a fresh object can reach, and \<open>obj_inv\<close> the invariant that
    ties the parts together. \<open>api_step_playback_frame\<close>: the calls outside
    playback leave the clip, clock and flags (\<open>playback_fields\<close>) alone, and
    \<open>api_run_invariant\<close> lifts a property every call keeps to whole runs.
  \<^item> \<open>Playback_Spec\<close>: the state machine of spec 4.1 as an abstract
    specification. Its states (\<open>spec_st\<close>) are a \<open>play_state\<close> and the
    looping flag. Its operations (\<open>spec_op\<close>) carry what the spec's
    transitions branch on: clip found, same clip, tick past the end. With
    them the machine is the deterministic partial function \<open>spec_next\<close>,
    run by \<open>spec_run\<close>. \<open>spec_state\<close> abstracts an object,
    \<open>spec_op_of\<close> a call in a world, and \<open>run_ops\<close> a run of calls. One
    call lands in the state the machine computes
    (\<open>api_step_refines_spec\<close>), and so does a whole run.

  Operations that change the object take it and return the new one. An
  operation that can hit undefined behaviour returns \<open>error + _\<close>; one that
  prints also returns the printed lines.

  \<^bold>\<open>What is proved.\<close> Claim theorems are preceded by a text naming their id.
  \<^item> Playback (C1-C11): the result of \<open>UpdateAnimation\<close> on every branch
    (returns, clock, previous time, flags). Looping clips never complete.
    Overrunning once-clips pause and complete, keeping the one-frame lag of
    the previous time. A paused tick within the clip is the identity. Each
    play operation's result is given on the found, not-found and no-model
    branches. The search returns the first match. The meaning of
    \<open>AnimationIsPastPercentage\<close> is given.
  \<^item> Pose (C12): the times both poses are sampled at (so, without motion
    blur, both poses are equal).
  \<^item> Placement (C13-C20): the model matrix of flipped and unflipped models
    (the latter over an engine law). The barrel position of each of the
    three weapons on its mapped bone (\<open>Barrel\<close> with offset (0, 4, 11) for
    the Glock, \<open>Weapon\<close> with (0, 1, 36) and (0, 1, 58) for the AKS74U and
    the Shotgun). Composed with \<open>Update\<close>, a barrel query reads the bone of
    the pose sampled at the frame's pose time, so without motion blur it lags
    one frame. With a missing bone, bone 0 is silently inserted into the
    shared model. With no pose yet, the read is out of range. The exact
    bounds of the bone read: it fails when the index is at least \<open>2^31\<close>
    or at least the pose's length.
  \<^item> Materials (C21-C26): both loops equal pointwise reference tables
    (\<open>mesh_material_table\<close>, \<open>material_table\<close>). Every matching mesh is set,
    not just the first. The exact condition under which the
    \<open>SetMeshMaterial\<close> loop writes out of range
    (\<open>set_mesh_material_from_exact\<close> gives the loop's whole behaviour).
    \<open>SetSkinnedModel\<close>'s resize, its not-found branch, and its idempotence.
  \<^item> The whole object (C27-C36):
    \<^item> every reachable world satisfies \<open>obj_inv\<close> (rule induction over
      \<open>reachable\<close>, one preservation lemma per operation);
    \<^item> every call but \<open>PlayAnimation\<close> and the barrel queries is free of
      undefined behaviour, and those fail only on a missing model or a pose
      read past the end (never a dangling model or a null clip);
    \<^item> every run from a spec state ends in exactly the state the spec's
      playback machine computes from the run's abstract operations, when
      the machine's run is defined (it is not only for a pause toggle of a
      completed clip);
    \<^item> the behaviours the spec does not foresee, each for every state or
      world that meets its conditions:
      \<^item> a zero rate, or a zero or negative speed, makes a once-clip never
        complete;
      \<^item> toggling unpauses a complete clip, whose clock then runs while it
        is still reported complete;
      \<^item> a clip switched to and paused is sampled at the old clip's
        previous time;
      \<^item> a completed clip replayed as a loop stays paused and frozen through
        any number of frames.

  \<^bold>\<open>Loops and termination.\<close> The source's loops (clip search, material
  loops) are \<open>function\<close>s whose \<open>termination\<close> uses the measure
  \<open>length - i\<close>. No fuel is used: a run is a list of calls, and a property
  of unboundedly many frames quantifies over its length.

  \<^bold>\<open>Not modelled.\<close> The bodies of the collaborators: skeleton sampling,
  matrix algebra, \<open>Transform::to_mat4\<close> and the asset manager's lookups
  beyond the first-match search. Their code is not under \<open>src/\<close> and the
  spec gives only their interfaces, so they stay partly modelled: the asset
  types keep only the fields the source reads, and the engine functions are
  uninterpreted, with laws taken as hypotheses where a claim needs one.
  Float rounding and overflow, as said above. The console lines are
  modelled without their trailing \<open>\n\<close>: a line is an element of the
  console list. The \<open>int i\<close>
  counters of the loops, which would overflow only for more than \<open>2^31\<close>
  clips or meshes: the model counts with \<open>nat\<close>. Concurrency: the spec
  makes the object single-threaded.
\<close>

section \<open>Properties of the whole object\<close>

text \<open>The demo assets with the \<open>walk\<close> clip's rate set to 0 ticks per second.\<close>

definition demo_zero_rate_world :: "float world" where
  "demo_zero_rate_world = demo_world\<lparr>assets := demo_assets\<lparr>skinned_models :=
     [demo_model\<lparr>animations := [demo_walk\<lparr>anim_ticks_per_second := Fin 0\<rparr>]\<rparr>]\<rparr>\<rparr>"

text \<open>The demo world once the \<open>walk\<close> clip, played once, has completed.\<close>

definition demo_completed_world :: "float world" where
  "demo_completed_world = \<lparr>assets = demo_assets,
     obj = demo_object\<lparr>current_animation := Some demo_walk, animation_paused := True,
             animation_is_complete := True, animated_transforms := [Fin 0],
             animated_transforms_previous := [Fin 0]\<rparr>, console = []\<rparr>"


text \<open>C27. From any world a freshly constructed object can reach, every call
  except \<open>PlayAnimation\<close> and the barrel queries returns without undefined
  behaviour: the model pointer is valid, the material table covers the
  meshes, and a clip is only ever selected together with a model.\<close>

theorem reachable_guarded_calls_return:
  "reachable eng w \<Longrightarrow> guarded_call c \<Longrightarrow> \<exists>w'. api_step eng c w = Inr w'"
  by (blast intro: guarded_call_returns reachable_obj_inv)

theorem reachable_guarded_calls_return_witness:
  "reachable demo_engine demo_world \<and> guarded_call (SetMaterial ''Gold'') \<and>
   (\<exists>w'. api_step demo_engine (SetMaterial ''Gold'') demo_world = Inr w')"
proof -
  have r: "reachable demo_engine demo_world" by (rule reachable_demo_world)
  have g: "guarded_call (SetMaterial ''Gold'')" by simp
  from r g reachable_guarded_calls_return [OF r g] show ?thesis by blast
qed

text \<open>C28. The undefined behaviours a reachable world can still reach are exactly
  two: a call that dereferences a missing model (\<open>PlayAnimation\<close> or a
  barrel query before \<open>SetSkinnedModel\<close>), and a barrel query that reads past
  the current pose. A dangling model pointer, a null clip and an out-of-range
  material write never happen.\<close>

theorem reachable_call_errors:
  "reachable eng w \<Longrightarrow> api_step eng c w = Inl e \<Longrightarrow>
   e = NullSkinnedModel \<and> skinned_model (obj w) = None \<or>
   e = VectorIndexOutOfRange \<and> c \<in> {GetGlockBarrelPosition, GetAKS74UBarrelPosition, GetShotgunBarrelPosition}"
proof -
  assume r: "reachable eng w" and e: "api_step eng c w = Inl e"
  show ?thesis by (rule obj_inv_call_errors [OF reachable_obj_inv [OF r] e])
qed

theorem reachable_call_errors_witness:
  "reachable demo_engine demo_world \<and>
   api_step demo_engine GetGlockBarrelPosition demo_world = Inl NullSkinnedModel \<and>
   skinned_model (obj demo_world) = None"
proof -
  have r: "reachable demo_engine demo_world" by (rule reachable_demo_world)
  have e: "api_step demo_engine GetGlockBarrelPosition demo_world = Inl NullSkinnedModel"
    by (simp add: demo_eval barrel_position_def)
  from reachable_call_errors [OF r e] r e show ?thesis by simp
qed

text \<open>C29. In every reachable world a selected clip comes with a valid model
  whose mesh list the material table covers slot for slot.\<close>

theorem reachable_clip_has_model:
  "reachable eng w \<Longrightarrow> current_animation (obj w) = Some a \<Longrightarrow>
   \<exists>m. object_model (assets w) (obj w) = Inr m \<and>
       length (material_indices (obj w)) = length (mesh_entries m)"
  by (drule reachable_obj_inv) (auto simp: obj_inv_def split: option.splits)

theorem reachable_clip_has_model_witness:
  "api_run demo_engine [SetSkinnedModel ''Glock'', PlayAndLoopAnimation ''walk'' (Fin 1)] demo_world =
     Inr \<lparr>assets = demo_assets,
          obj = demo_object\<lparr>current_animation := Some demo_walk, loop_animation := True\<rparr>,
          console = []\<rparr> \<and>
   (\<exists>m. object_model demo_assets (demo_object\<lparr>current_animation := Some demo_walk,
          loop_animation := True\<rparr>) = Inr m \<and> length (material_indices demo_object) = length (mesh_entries m))"
proof -
  let ?w = "\<lparr>assets = demo_assets,
          obj = demo_object\<lparr>current_animation := Some demo_walk, loop_animation := True\<rparr>,
          console = []\<rparr>"
  have run: "api_run demo_engine [SetSkinnedModel ''Glock'', PlayAndLoopAnimation ''walk'' (Fin 1)] demo_world
      = Inr ?w"
    by (simp add: demo_eval)
  have r: "reachable demo_engine ?w" by (rule reachable_api_run [OF reachable_demo_world run])
  have c: "current_animation (obj ?w) = Some demo_walk" by simp
  from run reachable_clip_has_model [OF r c] show ?thesis by simp
qed

text \<open>C30. In every reachable world a complete clip is a selected, non-looping
  one: \<open>complete\<close> is only set by the end-of-clip branch of a non-looping
  clip and cleared by both play operations.\<close>

theorem reachable_complete_not_looping:
  "reachable eng w \<Longrightarrow> animation_is_complete (obj w) \<Longrightarrow>
   \<not> loop_animation (obj w) \<and> current_animation (obj w) \<noteq> None"
  by (drule reachable_obj_inv) (simp add: obj_inv_def)

theorem reachable_complete_not_looping_witness:
  "api_run demo_engine [SetSkinnedModel ''Glock'', PlayAnimation ''walk'' (Fin 1), Update (Fin 3)] demo_world =
     Inr \<lparr>assets = demo_assets,
          obj = demo_object\<lparr>current_animation := Some demo_walk, animation_paused := True,
                  animation_is_complete := True, animated_transforms := [Fin 0],
                  animated_transforms_previous := [Fin 0]\<rparr>, console = []\<rparr> \<and>
   animation_is_complete (demo_object\<lparr>current_animation := Some demo_walk, animation_is_complete := True\<rparr>) \<and>
   \<not> loop_animation demo_object"
proof -
  let ?w = "\<lparr>assets = demo_assets,
          obj = demo_object\<lparr>current_animation := Some demo_walk, animation_paused := True,
                  animation_is_complete := True, animated_transforms := [Fin 0],
                  animated_transforms_previous := [Fin 0]\<rparr>, console = []\<rparr>"
  have run: "api_run demo_engine [SetSkinnedModel ''Glock'', PlayAnimation ''walk'' (Fin 1), Update (Fin 3)]
      demo_world = Inr ?w"
    by (simp add: demo_eval)
  have r: "reachable demo_engine ?w" by (rule reachable_api_run [OF reachable_demo_world run])
  have c: "animation_is_complete (obj ?w)" by simp
  from run reachable_complete_not_looping [OF r c] show ?thesis by simp
qed

text \<open>The spec's scenario through the object's API: a model with a clip of
  2 ticks at 1 tick/s played once at speed 1, then \<open>Update(1.0)\<close> and
  \<open>Update(1.5)\<close>, ends with time 0, paused and complete.\<close>

lemma spec_scenario_play_once:
  "\<exists>w. api_run demo_engine [SetSkinnedModel ''Glock'', PlayAnimation ''walk'' (Fin 1), Update (Fin 1),
         Update (Fin 1.5)] demo_world = Inr w \<and>
       current_animation_time (obj w) = 0 \<and> animation_paused (obj w) \<and> animation_is_complete (obj w)"
  by (simp add: demo_eval)

text \<open>C32. A clip whose rate is 0 ticks per second has an infinite length in
  seconds (\<open>m_duration / 0\<close> is \<open>+inf\<close>), so a finite clock never passes
  it: played once, such a clip never completes, however many frames run.\<close>

theorem zero_rate_clip_never_completes:
  "reachable eng w \<Longrightarrow> current_animation (obj w) = Some a \<Longrightarrow> anim_ticks_per_second a = Fin 0 \<Longrightarrow>
   anim_duration a = Fin d \<Longrightarrow> 0 < d \<Longrightarrow> \<not> animation_is_complete (obj w) \<Longrightarrow>
   is_finite (current_animation_time (obj w)) \<Longrightarrow> is_finite (animation_speed (obj w)) \<Longrightarrow> is_finite dt \<Longrightarrow>
   \<exists>w'. api_run eng (replicate n (Update dt)) w = Inr w' \<and> \<not> animation_is_complete (obj w')"
proof -
  assume r: "reachable eng w" and c: "current_animation (obj w) = Some a"
    and z: "anim_ticks_per_second a = Fin 0" "anim_duration a = Fin d" "0 < d"
    and nc: "\<not> animation_is_complete (obj w)" and f: "is_finite (current_animation_time (obj w))"
    "is_finite (animation_speed (obj w))" "is_finite dt"
  from z have dur: "clip_duration a = PInf" by (simp add: clip_duration_def)
  show ?thesis
  proof (rule run_updates_never_complete [OF reachable_obj_inv [OF r] c nc, where P = is_finite])
    show "is_finite (current_animation_time (obj w))" by (rule f(1))
  next
    fix \<tau> :: float
    show "\<not> \<tau> > clip_duration a" by (simp add: dur)
    assume "is_finite \<tau>"
    with f(2,3) show "is_finite (\<tau> + dt * animation_speed (obj w))" by blast
  qed
qed

theorem zero_rate_clip_never_completes_witness:
  "api_run demo_engine [SetSkinnedModel ''Glock'', PlayAnimation ''walk'' (Fin 1)] demo_zero_rate_world =
     Inr (demo_zero_rate_world\<lparr>obj := demo_object\<lparr>current_animation :=
            Some (demo_walk\<lparr>anim_ticks_per_second := Fin 0\<rparr>)\<rparr>\<rparr>) \<and>
   (\<exists>w'. api_run demo_engine (replicate 100 (Update (Fin 1)))
      (demo_zero_rate_world\<lparr>obj := demo_object\<lparr>current_animation :=
         Some (demo_walk\<lparr>anim_ticks_per_second := Fin 0\<rparr>)\<rparr>\<rparr>) = Inr w' \<and>
      \<not> animation_is_complete (obj w'))"
proof -
  let ?a = "demo_walk\<lparr>anim_ticks_per_second := Fin 0\<rparr>"
  let ?w = "demo_zero_rate_world\<lparr>obj := demo_object\<lparr>current_animation := Some ?a\<rparr>\<rparr>"
  have r0: "reachable demo_engine demo_zero_rate_world"
    by (simp add: demo_zero_rate_world_def demo_world_def reachable.init fresh_object_def demo_object_def)
  have run: "api_run demo_engine [SetSkinnedModel ''Glock'', PlayAnimation ''walk'' (Fin 1)]
      demo_zero_rate_world = Inr ?w"
    by (simp add: demo_zero_rate_world_def demo_eval)
  have r: "reachable demo_engine ?w" by (rule reachable_api_run [OF r0 run])
  have h: "current_animation (obj ?w) = Some ?a" "anim_ticks_per_second ?a = Fin 0"
    "anim_duration ?a = Fin 2" "(0::real) < 2" "\<not> animation_is_complete (obj ?w)"
    "is_finite (current_animation_time (obj ?w))" "is_finite (animation_speed (obj ?w))"
    "is_finite (Fin 1)"
    by (simp_all add: demo_object_def demo_walk_def)
  from run zero_rate_clip_never_completes [OF r h, of 100] show ?thesis by simp
qed

text \<open>C33. Speed is not validated: with a zero or negative speed the clock never
  moves forward, so a clip of non-negative length played once never
  completes, however many frames of non-negative length run.\<close>

theorem reverse_speed_clip_never_completes:
  "reachable eng w \<Longrightarrow> current_animation (obj w) = Some a \<Longrightarrow> clip_duration a = Fin d \<Longrightarrow> 0 \<le> d \<Longrightarrow>
   animation_speed (obj w) = Fin v \<Longrightarrow> v \<le> 0 \<Longrightarrow> current_animation_time (obj w) = Fin t \<Longrightarrow>
   \<not> animation_is_complete (obj w) \<Longrightarrow> 0 \<le> x \<Longrightarrow>
   \<exists>w'. api_run eng (replicate n (Update (Fin x))) w = Inr w' \<and> \<not> animation_is_complete (obj w')"
proof -
  assume r: "reachable eng w" and c: "current_animation (obj w) = Some a"
    and d: "clip_duration a = Fin d" "0 \<le> d" and v: "animation_speed (obj w) = Fin v" "v \<le> 0"
    and t: "current_animation_time (obj w) = Fin t" and nc: "\<not> animation_is_complete (obj w)"
    and x: "0 \<le> x"
  have inv: "obj_inv (assets w) (obj w)" by (rule reachable_obj_inv [OF r])
  with c d t have "t \<le> d" by (auto simp: obj_inv_def)
  show ?thesis
  proof (rule run_updates_never_complete [OF inv c nc, where P = "\<lambda>\<tau>. \<exists>r. \<tau> = Fin r \<and> r \<le> d"])
    show "\<exists>r. current_animation_time (obj w) = Fin r \<and> r \<le> d" using t \<open>t \<le> d\<close> by blast
  next
    fix \<tau> :: float
    assume "\<exists>r. \<tau> = Fin r \<and> r \<le> d"
    then obtain r where "\<tau> = Fin r" "r \<le> d" by blast
    moreover have "x * v \<le> 0" using x v(2) by (rule mult_nonneg_nonpos)
    ultimately show "\<not> \<tau> > clip_duration a"
      and "\<exists>r. \<tau> + Fin x * animation_speed (obj w) = Fin r \<and> r \<le> d"
      using d v by auto
  qed
qed

theorem reverse_speed_clip_never_completes_witness:
  "api_run demo_engine [SetSkinnedModel ''Glock'', PlayAnimation ''walk'' (Fin (-1))] demo_world =
     Inr (demo_world\<lparr>obj := demo_object\<lparr>current_animation := Some demo_walk,
            animation_speed := Fin (-1)\<rparr>\<rparr>) \<and>
   (\<exists>w'. api_run demo_engine (replicate 10 (Update (Fin 1)))
      (demo_world\<lparr>obj := demo_object\<lparr>current_animation := Some demo_walk,
         animation_speed := Fin (-1)\<rparr>\<rparr>) = Inr w' \<and> \<not> animation_is_complete (obj w'))"
proof -
  let ?w = "demo_world\<lparr>obj := demo_object\<lparr>current_animation := Some demo_walk,
              animation_speed := Fin (-1)\<rparr>\<rparr>"
  have run: "api_run demo_engine [SetSkinnedModel ''Glock'', PlayAnimation ''walk'' (Fin (-1))] demo_world
      = Inr ?w"
    by (simp add: demo_eval)
  have r: "reachable demo_engine ?w" by (rule reachable_api_run [OF reachable_demo_world run])
  have h: "current_animation (obj ?w) = Some demo_walk" "clip_duration demo_walk = Fin 2" "(0::real) \<le> 2"
    "animation_speed (obj ?w) = Fin (-1)" "(-1::real) \<le> 0" "current_animation_time (obj ?w) = Fin 0"
    "\<not> animation_is_complete (obj ?w)" "(0::real) \<le> 1"
    by (simp_all add: demo_object_def demo_walk_def clip_duration_def)
  from run reverse_speed_clip_never_completes [OF r h, of 10] show ?thesis by simp
qed

lemma reachable_demo_completed_world: "reachable demo_engine demo_completed_world"
proof -
  have "api_run demo_engine [SetSkinnedModel ''Glock'', PlayAnimation ''walk'' (Fin 1), Update (Fin 3)]
      demo_world = Inr demo_completed_world"
    by (simp add: demo_eval demo_completed_world_def)
  then show ?thesis by (rule reachable_api_run [OF reachable_demo_world])
qed

text \<open>C34. \<open>ToggleAnimationPause\<close> unpauses a completed clip without clearing
  \<open>complete\<close>: from any reachable world with a completed clip, the toggle
  and a frame that does not carry the clock past the clip's end leave an
  object that reports a complete clip and is not paused, whose clock has
  advanced by the frame (spec 4.1 says Completed implies Paused, and spec 8
  that both flags stay set until a new play call).\<close>

theorem completed_clip_resumes_after_toggle:
  "reachable eng w \<Longrightarrow> current_animation (obj w) = Some a \<Longrightarrow> animation_is_complete (obj w) \<Longrightarrow>
   animation_paused (obj w) \<Longrightarrow>
   \<not> current_animation_time (obj w) + dt * animation_speed (obj w) > clip_duration a \<Longrightarrow>
   \<exists>w1 w2. api_step eng ToggleAnimationPause w = Inr w1 \<and> api_step eng (Update dt) w1 = Inr w2 \<and>
     is_animation_complete (obj w1) \<and> \<not> animation_paused (obj w1) \<and>
     is_animation_complete (obj w2) \<and> \<not> animation_paused (obj w2) \<and>
     current_animation_time (obj w2) = current_animation_time (obj w) + dt * animation_speed (obj w) \<and>
     current_animation_time_previous (obj w2) = current_animation_time (obj w)"
proof -
  assume r: "reachable eng w" and c: "current_animation (obj w) = Some a"
    and h: "animation_is_complete (obj w)" "animation_paused (obj w)"
    and t: "\<not> current_animation_time (obj w) + dt * animation_speed (obj w) > clip_duration a"
  define w1 where "w1 = set_obj w (toggle_animation_pause (obj w))"
  have s1: "api_step eng ToggleAnimationPause w = Inr w1" by (simp add: w1_def)
  have inv1: "obj_inv (assets w1) (obj w1)" by (rule api_step_obj_inv [OF s1 reachable_obj_inv [OF r]])
  obtain w2 where s2: "api_step eng (Update dt) w1 = Inr w2"
    using guarded_call_returns [OF inv1, where c = "Update dt" and eng = eng] by auto
  then obtain s' where u: "update eng (assets w1) dt (obj w1) = Inr s'" and w2: "w2 = w1\<lparr>obj := s'\<rparr>"
    by (auto simp: api_step_update set_obj_def)
  have c1: "current_animation (obj w1) = Some a"
    using c by (simp add: w1_def set_obj_def toggle_animation_pause_def)
  from update_clock [OF u c1] h t have "is_animation_complete s'" "\<not> animation_paused s'"
    "current_animation_time s' = current_animation_time (obj w) + dt * animation_speed (obj w)"
    "current_animation_time_previous s' = current_animation_time (obj w)"
    by (simp_all add: w1_def set_obj_def toggle_animation_pause_def is_animation_complete_def
        advance_animation_time_def)
  moreover have "is_animation_complete (obj w1)" "\<not> animation_paused (obj w1)"
    using h by (simp_all add: w1_def set_obj_def toggle_animation_pause_def is_animation_complete_def)
  ultimately show ?thesis using s1 s2
    by (intro exI [of _ w1] exI [of _ w2]) (simp add: w2 del: api_step.simps)
qed

theorem completed_clip_resumes_after_toggle_witness:
  "\<exists>w1 w2. api_step demo_engine ToggleAnimationPause demo_completed_world = Inr w1 \<and>
     api_step demo_engine (Update (Fin 0.5)) w1 = Inr w2 \<and>
     is_animation_complete (obj w1) \<and> \<not> animation_paused (obj w1) \<and>
     is_animation_complete (obj w2) \<and> \<not> animation_paused (obj w2) \<and>
     current_animation_time (obj w2) = Fin 0.5 \<and> current_animation_time_previous (obj w2) = 0"
proof -
  have h: "current_animation (obj demo_completed_world) = Some demo_walk"
    "animation_is_complete (obj demo_completed_world)" "animation_paused (obj demo_completed_world)"
    "\<not> current_animation_time (obj demo_completed_world) + Fin 0.5 * animation_speed (obj demo_completed_world)
       > clip_duration demo_walk"
    by (simp_all add: demo_completed_world_def demo_object_def demo_walk_def clip_duration_def)
  have e: "current_animation_time (obj demo_completed_world) = 0"
    "animation_speed (obj demo_completed_world) = 1"
    by (simp_all add: demo_completed_world_def demo_object_def)
  from completed_clip_resumes_after_toggle [OF reachable_demo_completed_world h] e show ?thesis by simp
qed

text \<open>C35. The previous time is not reset when a clip is selected. After
  \<open>PlayAnimation\<close> switches to any clip of the model and the object is paused
  before its next frame, \<open>Update\<close> samples the new clip's previous pose (and,
  without motion blur, its current pose too) at the previous time of the
  clip played before, whatever the new clip's length.\<close>

theorem switched_clip_sampled_at_stale_time:
  "object_model (assets w) (obj w) = Inr m \<Longrightarrow> lookup_clip m n = Some b \<Longrightarrow>
   \<exists>w'. api_run eng [PlayAnimation n sp, PauseAnimation, Update dt] w = Inr w' \<and>
     current_animation (obj w') = Some b \<and>
     current_animation_time_previous (obj w') = current_animation_time_previous (obj w) \<and>
     animated_transforms_previous (obj w') =
       update_bone_transforms eng m (current_animation_time_previous (obj w)) b (camera_matrix (obj w)) \<and>
     (\<not> motion_blur (obj w) \<longrightarrow> animated_transforms (obj w') = animated_transforms_previous (obj w'))"
proof -
  assume o: "object_model (assets w) (obj w) = Inr m" and l: "lookup_clip m n = Some b"
  let ?s1 = "obj w\<lparr>current_animation_time := 0, current_animation := Some b,
                 loop_animation := False, animation_speed := sp,
                 animation_paused := False, animation_is_complete := False\<rparr>"
  define w1 where "w1 = set_obj_printed w (?s1, [])"
  define w2 where "w2 = set_obj w1 (pause_animation (obj w1))"
  have st1: "api_step eng (PlayAnimation n sp) w = Inr w1"
    by (simp add: play_animation_lookup [OF o] l w1_def)
  have st2: "api_step eng PauseAnimation w1 = Inr w2" by (simp add: w2_def)
  have o2: "object_model (assets w2) (obj w2) = Inr m" and c2: "current_animation (obj w2) = Some b"
    using o by (simp_all add: w1_def w2_def set_obj_def set_obj_printed_def object_model_def pause_animation_def)
  have f: "motion_blur (obj w2) = motion_blur (obj w)" "camera_matrix (obj w2) = camera_matrix (obj w)"
    "animation_paused (obj w2)" "current_animation_time_previous (obj w2) = current_animation_time_previous (obj w)"
    by (simp_all add: w1_def w2_def set_obj_def set_obj_printed_def pause_animation_def)
  have "\<exists>s'. update eng (assets w2) dt (obj w2) = Inr s' \<and> current_animation s' = Some b \<and>
      current_animation_time_previous s' = current_animation_time_previous (obj w) \<and>
      animated_transforms_previous s' =
        update_bone_transforms eng m (current_animation_time_previous (obj w)) b (camera_matrix (obj w)) \<and>
      (\<not> motion_blur (obj w) \<longrightarrow> animated_transforms s' = animated_transforms_previous s')"
    using update_frame [OF c2 o2, of eng dt] f c2 by (simp add: Let_def)
  then obtain s' where u: "update eng (assets w2) dt (obj w2) = Inr s'"
    and r: "current_animation s' = Some b"
      "current_animation_time_previous s' = current_animation_time_previous (obj w)"
      "animated_transforms_previous s' =
         update_bone_transforms eng m (current_animation_time_previous (obj w)) b (camera_matrix (obj w))"
      "\<not> motion_blur (obj w) \<longrightarrow> animated_transforms s' = animated_transforms_previous s'"
    by blast
  have st3: "api_step eng (Update dt) w2 = Inr (set_obj w2 s')" by (simp add: u)
  have "api_run eng [PlayAnimation n sp, PauseAnimation, Update dt] w = Inr (set_obj w2 s')"
    by (simp add: st1 st2 st3 del: api_step.simps)
  with r show ?thesis by (simp add: set_obj_def)
qed

theorem switched_clip_sampled_at_stale_time_witness:
  "\<exists>w0 w'. api_run demo_engine [SetSkinnedModel ''Glock'', PlayAnimation ''walk'' (Fin 1),
        Update (Fin 1.5), Update (Fin 0.25)] demo_world = Inr w0 \<and>
     current_animation_time_previous (obj w0) = Fin 1.5 \<and>
     api_run demo_engine [PlayAnimation ''fire'' (Fin 1), PauseAnimation, Update (Fin 0.1)] w0 = Inr w' \<and>
     current_animation (obj w') = Some demo_fire \<and> animated_transforms (obj w') = [Fin 1.5] \<and>
     Fin 1.5 > clip_duration demo_fire"
proof -
  let ?pre = "[SetSkinnedModel ''Glock'', PlayAnimation ''walk'' (Fin 1), Update (Fin 1.5), Update (Fin 0.25)]"
  have "\<exists>w0. api_run demo_engine ?pre demo_world = Inr w0" by (simp add: demo_eval)
  then obtain w0 where r: "api_run demo_engine ?pre demo_world = Inr w0" ..
  have h: "object_model (assets w0) (obj w0) = Inr demo_model"
    "current_animation_time_previous (obj w0) = Fin 1.5" "\<not> motion_blur (obj w0)"
    using r by (auto simp: demo_eval)
  have l: "lookup_clip demo_model ''fire'' = Some demo_fire" by (simp add: demo_eval lookup_clip_def)
  from switched_clip_sampled_at_stale_time [OF h(1) l, of demo_engine "Fin 1" "Fin 0.1"] h(2,3)
  obtain w' where "api_run demo_engine [PlayAnimation ''fire'' (Fin 1), PauseAnimation, Update (Fin 0.1)] w0 = Inr w'"
    "current_animation (obj w') = Some demo_fire"
    "animated_transforms (obj w') = update_bone_transforms demo_engine demo_model (Fin 1.5) demo_fire
       (camera_matrix (obj w0))"
    by auto
  moreover have "Fin 1.5 > clip_duration demo_fire" by (simp add: demo_fire_def clip_duration_def)
  ultimately show ?thesis using r h(2) by (auto simp: demo_engine_def)
qed

text \<open>C36. \<open>PlayAndLoopAnimation\<close> of the clip that has just completed clears
  \<open>complete\<close> and sets looping but keeps the clip paused (it only unpauses a
  clip other than the current one): from any reachable world with a
  completed clip, the looping clip then stays paused and frozen at its time
  through any number of frames.\<close>

theorem replayed_completed_clip_stays_frozen:
  "reachable eng w \<Longrightarrow> current_animation (obj w) = Some a \<Longrightarrow> animation_is_complete (obj w) \<Longrightarrow>
   animation_paused (obj w) \<Longrightarrow> object_model (assets w) (obj w) = Inr m \<Longrightarrow> lookup_clip m n = Some a \<Longrightarrow>
   \<not> current_animation_time (obj w) > clip_duration a \<Longrightarrow>
   \<exists>w1. api_step eng (PlayAndLoopAnimation n sp) w = Inr w1 \<and> loop_animation (obj w1) \<and>
     \<not> animation_is_complete (obj w1) \<and>
     (\<forall>k. \<exists>w'. api_run eng (replicate k (Update dt)) w1 = Inr w' \<and> animation_paused (obj w') \<and>
        \<not> animation_is_complete (obj w') \<and> current_animation_time (obj w') = current_animation_time (obj w))"
proof -
  assume r: "reachable eng w" and c: "current_animation (obj w) = Some a"
    and h: "animation_is_complete (obj w)" "animation_paused (obj w)"
    and o: "object_model (assets w) (obj w) = Inr m" and l: "lookup_clip m n = Some a"
    and t: "\<not> current_animation_time (obj w) > clip_duration a"
  define w1 where "w1 = set_obj_printed w (obj w\<lparr>current_animation := Some a, loop_animation := True,
      animation_is_complete := False, animation_speed := sp\<rparr>, [])"
  have st1: "api_step eng (PlayAndLoopAnimation n sp) w = Inr w1"
    by (simp add: play_and_loop_animation_lookup [OF o] l c w1_def Let_def)
  have inv1: "obj_inv (assets w1) (obj w1)" by (rule api_step_obj_inv [OF st1 reachable_obj_inv [OF r]])
  have f: "current_animation (obj w1) = Some a" "animation_paused (obj w1)"
    "\<not> current_animation_time (obj w1) > clip_duration a" "loop_animation (obj w1)"
    "\<not> animation_is_complete (obj w1)" "current_animation_time (obj w1) = current_animation_time (obj w)"
    using h t by (simp_all add: w1_def set_obj_printed_def)
  have "\<forall>k. \<exists>w'. api_run eng (replicate k (Update dt)) w1 = Inr w' \<and> animation_paused (obj w') \<and>
      \<not> animation_is_complete (obj w') \<and> current_animation_time (obj w') = current_animation_time (obj w)"
  proof
    fix k
    from run_updates_paused [OF inv1 f(1-3), where n = k and dt = dt and eng = eng] f(5,6)
    show "\<exists>w'. api_run eng (replicate k (Update dt)) w1 = Inr w' \<and> animation_paused (obj w') \<and>
      \<not> animation_is_complete (obj w') \<and> current_animation_time (obj w') = current_animation_time (obj w)"
      by auto
  qed
  with st1 f(4,5) show ?thesis by blast
qed

theorem replayed_completed_clip_stays_frozen_witness:
  "\<exists>w1. api_step demo_engine (PlayAndLoopAnimation ''walk'' (Fin 1)) demo_completed_world = Inr w1 \<and>
     loop_animation (obj w1) \<and> \<not> animation_is_complete (obj w1) \<and>
     (\<forall>k. \<exists>w'. api_run demo_engine (replicate k (Update (Fin 1))) w1 = Inr w' \<and>
        animation_paused (obj w') \<and> \<not> animation_is_complete (obj w') \<and> current_animation_time (obj w') = 0)"
proof -
  have h: "current_animation (obj demo_completed_world) = Some demo_walk"
    "animation_is_complete (obj demo_completed_world)" "animation_paused (obj demo_completed_world)"
    "object_model (assets demo_completed_world) (obj demo_completed_world) = Inr demo_model"
    "lookup_clip demo_model ''walk'' = Some demo_walk"
    "\<not> current_animation_time (obj demo_completed_world) > clip_duration demo_walk"
    by (simp_all add: demo_eval demo_completed_world_def lookup_clip_def)
  have e: "current_animation_time (obj demo_completed_world) = 0"
    by (simp add: demo_completed_world_def demo_object_def)
  from replayed_completed_clip_stays_frozen [OF reachable_demo_completed_world h, of "Fin 1" "Fin 1"] e
  show ?thesis by simp
qed

end
